theory Spec2Isabelle
  imports Main
begin

unbundle bit_operations_syntax

section \<open>Types of the constraint solver\<close>

text \<open>
  The solver of \<^verbatim>\<open>lib/Sema/TypeCheckConstraints.cpp\<close> works on the types of the
  abstract syntax tree. Types are modelled in desugared form (the matcher of the source
  compares desugared types only), uniqued, so that the pointer comparison of the source
  is equality of the model. A declaration is identified by its name.
\<close>

datatype NominalKind = Enum | Struct | Class

text \<open>
  Modelled from the spec: the qualifiers of a mutable-reference type (implicit or not,
  settable or not). A qualifier set is smaller than another when it is a proper subset.
\<close>

datatype Qual = Qual (isImplicit: bool) (isNonSettable: bool)

definition Qual_le :: "Qual \<Rightarrow> Qual \<Rightarrow> bool" where
  "Qual_le l r \<longleftrightarrow>
     (isImplicit l \<longrightarrow> isImplicit r) \<and> (isNonSettable l \<longrightarrow> isNonSettable r)"

definition Qual_less :: "Qual \<Rightarrow> Qual \<Rightarrow> bool" where
  "Qual_less l r \<longleftrightarrow> l \<noteq> r \<and> Qual_le l r"

datatype Type =
    BuiltinType string string
  | ModuleType string
  | ErrorType
  | GenericTypeParamType nat nat
  | DependentMemberType Type string
  | TypeVariableType nat
  | ArchetypeType string
  | TupleType "TupleTypeElt list"
  | NominalType NominalKind string "Type option"
  | ProtocolType string
  | MetaTypeType Type
  | FunctionType Type Type bool bool
  | PolymorphicFunctionType Type Type
  | GenericFunctionType Type Type
  | ArrayType Type nat
  | ProtocolCompositionType "Type list"
  | LValueType Type Qual
  | UnboundGenericType string
  | BoundGenericType NominalKind string "Type option" "Type list"
and TupleTypeElt =
    TupleTypeElt (getType: Type) (getName: string) (hasInit: bool) (isVararg: bool)

text \<open>
  \<^item> \<open>BuiltinType k n\<close>: a builtin type of builtin kind \<open>k\<close>;
  \<^item> \<open>NominalType k d p\<close>: the enum, struct or class \<open>d\<close> with parent type \<open>p\<close>;
  \<^item> \<open>FunctionType i r a n\<close>: input, result, the auto-closure and the no-return flags;
  \<^item> \<open>BoundGenericType k d p args\<close>: the generic \<open>d\<close> applied to \<open>args\<close>;
  \<^item> a tuple element has a type, a name (empty when unnamed), a default value or not,
    and the variadic flag.
\<close>

definition hasName :: "TupleTypeElt \<Rightarrow> bool" where
  "hasName elt \<longleftrightarrow> getName elt \<noteq> []"

section \<open>Tuple shuffles\<close>

text \<open>
  \<^verbatim>\<open>computeTupleShuffle\<close> fills \<open>sources\<close> (for each element of the destination tuple
  the index of the source element, or one of the two markers below) and \<open>variadicArgs\<close>.
  It returns true on failure. The model returns the flag with the two output vectors.
\<close>

definition unassigned :: int where "unassigned = -3"
definition DefaultInitialize :: int where "DefaultInitialize = -1"
definition FirstVariadic :: int where "FirstVariadic = -2"

text \<open>The inner search of the first loop: the first unconsumed source element of that name.\<close>

fun findNamedElement :: "string \<Rightarrow> TupleTypeElt list \<Rightarrow> bool list \<Rightarrow> nat \<Rightarrow> int" where
  "findNamedElement nm [] consumed index = -1"
| "findNamedElement nm (field # fields) consumed index =
     (if getName field = nm \<and> \<not> consumed ! index then int index
      else findNamedElement nm fields consumed (index + 1))"

text \<open>The first loop: match up any named elements.\<close>

fun matchNamedElements ::
  "TupleTypeElt list \<Rightarrow> TupleTypeElt list \<Rightarrow> nat \<Rightarrow> int list \<times> bool list \<Rightarrow> int list \<times> bool list"
where
  "matchNamedElements fromFields [] i (sources, consumed) = (sources, consumed)"
| "matchNamedElements fromFields (toElt # rest) i (sources, consumed) =
     (if getName toElt = [] then matchNamedElements fromFields rest (i + 1) (sources, consumed)
      else
        let matched = findNamedElement (getName toElt) fromFields consumed 0 in
        if matched = -1 then matchNamedElements fromFields rest (i + 1) (sources, consumed)
        else matchNamedElements fromFields rest (i + 1)
               (sources[i := matched], consumed[nat matched := True]))"

text \<open>
  The lambda \<^verbatim>\<open>skipToNextAvailableInput\<close>. The source tests \<^verbatim>\<open>fromNext != fromLast\<close>;
  the counter starts at 0 and only grows by one, so this is \<open>fromNext < fromLast\<close>.
\<close>

function skipToNextAvailableInput :: "bool list \<Rightarrow> nat \<Rightarrow> nat \<Rightarrow> nat" where
  "skipToNextAvailableInput consumed fromNext fromLast =
     (if fromNext < fromLast \<and> consumed ! fromNext
      then skipToNextAvailableInput consumed (fromNext + 1) fromLast
      else fromNext)"
  by pat_completeness auto
termination
  by (relation "measure (\<lambda>(consumed, fromNext, fromLast). fromLast - fromNext)") auto

declare skipToNextAvailableInput.simps [simp del]

text \<open>
  The loop that collects the remaining unnamed inputs of a variadic destination element.
  It returns true when it meets a labelled input. After \<^verbatim>\<open>consumed[fromNext] = true\<close>
  the lambda always steps over \<open>fromNext\<close>, so the model calls it at \<open>fromNext + 1\<close>.
\<close>

function collectVariadic ::
  "TupleTypeElt list \<Rightarrow> nat \<Rightarrow> nat list \<Rightarrow> bool list \<Rightarrow> nat \<Rightarrow> bool \<times> nat list \<times> bool list \<times> nat"
where
  "collectVariadic fromFields fromLast variadicArgs consumed fromNext =
     (if fromNext < fromLast then
        if hasName (fromFields ! fromNext) then (True, variadicArgs, consumed, fromNext)
        else collectVariadic fromFields fromLast (variadicArgs @ [fromNext])
               (consumed[fromNext := True])
               (skipToNextAvailableInput (consumed[fromNext := True]) (fromNext + 1) fromLast)
      else (False, variadicArgs, consumed, fromNext))"
  by pat_completeness auto
termination
proof (relation "measure (\<lambda>(fromFields, fromLast, variadicArgs, consumed, fromNext). fromLast - fromNext)")
  show "wf (measure (\<lambda>(fromFields, fromLast, variadicArgs, consumed, fromNext). fromLast - fromNext))"
    by simp
next
  fix fromFields :: "TupleTypeElt list" and fromLast :: nat and variadicArgs :: "nat list"
    and consumed :: "bool list" and fromNext :: nat
  assume lt: "fromNext < fromLast"
  have ge: "k \<le> skipToNextAvailableInput c k l" for c k l
  proof (induction c k l rule: skipToNextAvailableInput.induct)
    case (1 c k l)
    show ?case
    proof (cases "k < l \<and> c ! k")
      case True
      with 1 have "k + 1 \<le> skipToNextAvailableInput c (k + 1) l"
        by simp
      with True show ?thesis
        by (subst skipToNextAvailableInput.simps) simp
    next
      case False
      then show ?thesis
        by (subst skipToNextAvailableInput.simps) auto
    qed
  qed
  from lt ge [of "fromNext + 1" "consumed[fromNext := True]" fromLast]
  show "((fromFields, fromLast, variadicArgs @ [fromNext], consumed[fromNext := True],
          skipToNextAvailableInput (consumed[fromNext := True]) (fromNext + 1) fromLast),
         fromFields, fromLast, variadicArgs, consumed, fromNext)
        \<in> measure (\<lambda>(fromFields, fromLast, variadicArgs, consumed, fromNext). fromLast - fromNext)"
    by simp
qed

declare collectVariadic.simps [simp del]

text \<open>
  The second loop: resolve any unmatched elements. The result carries the failure flag
  (an early \<^verbatim>\<open>return true\<close>), then \<open>sources\<close>, \<open>variadicArgs\<close>, \<open>consumed\<close>, \<open>fromNext\<close>.
\<close>

fun resolveUnmatched ::
  "TupleTypeElt list \<Rightarrow> TupleTypeElt list \<Rightarrow> nat \<Rightarrow> nat \<Rightarrow> bool \<Rightarrow>
   int list \<Rightarrow> nat list \<Rightarrow> bool list \<Rightarrow> nat \<Rightarrow> bool \<times> int list \<times> nat list \<times> bool list \<times> nat"
where
  "resolveUnmatched fromFields [] i fromLast sourceLabelsAreMandatory
     sources variadicArgs consumed fromNext = (False, sources, variadicArgs, consumed, fromNext)"
| "resolveUnmatched fromFields (elt2 # rest) i fromLast sourceLabelsAreMandatory
     sources variadicArgs consumed fromNext =
     (if sources ! i \<noteq> unassigned then
        resolveUnmatched fromFields rest (i + 1) fromLast sourceLabelsAreMandatory
          sources variadicArgs consumed fromNext
      else if isVararg elt2 then
        (case collectVariadic fromFields fromLast variadicArgs consumed fromNext of
           (True, variadicArgs', consumed', fromNext') \<Rightarrow>
             (True, sources, variadicArgs', consumed', fromNext')
         | (False, variadicArgs', consumed', fromNext') \<Rightarrow>
             (False, sources[i := FirstVariadic], variadicArgs', consumed', fromNext'))
      else if fromNext = fromLast then
        (if hasInit elt2 then
           resolveUnmatched fromFields rest (i + 1) fromLast sourceLabelsAreMandatory
             (sources[i := DefaultInitialize]) variadicArgs consumed fromNext
         else (True, sources, variadicArgs, consumed, fromNext))
      else if hasName (fromFields ! fromNext) \<and> (sourceLabelsAreMandatory \<or> hasName elt2) then
        (True, sources, variadicArgs, consumed, fromNext)
      else
        resolveUnmatched fromFields rest (i + 1) fromLast sourceLabelsAreMandatory
          (sources[i := int fromNext]) variadicArgs (consumed[fromNext := True])
          (skipToNextAvailableInput (consumed[fromNext := True]) (fromNext + 1) fromLast))"

text \<open>
  A failed assertion, an \<^verbatim>\<open>llvm_unreachable\<close> and a computation that does not end are
  fatal: they are the left summand of every result that can meet one.
\<close>

datatype Fatal = AssertionFailed string | Unreachable string | OutOfFuel

definition computeTupleShuffle ::
  "TupleTypeElt list \<Rightarrow> TupleTypeElt list \<Rightarrow> bool \<Rightarrow> Fatal + (bool \<times> int list \<times> nat list)"
where
  "computeTupleShuffle fromFields toFields sourceLabelsAreMandatory =
     (let consumed0 = replicate (length fromFields) False;
          sources0 = replicate (length toFields) unassigned;
          (sources1, consumed1) = matchNamedElements fromFields toFields 0 (sources0, consumed0);
          fromLast = length fromFields;
          fromNext0 = skipToNextAvailableInput consumed1 0 fromLast
      in case resolveUnmatched fromFields toFields 0 fromLast sourceLabelsAreMandatory
                sources1 [] consumed1 fromNext0 of
           (failed, sources, variadicArgs, consumed, fromNext) \<Rightarrow>
             if failed then Inr (True, sources, variadicArgs)
             else if fromNext \<noteq> fromLast then Inr (True, sources, variadicArgs)
             else if False \<in> set consumed then Inl (AssertionFailed ''claimed all the arguments'')
             else Inr (False, sources, variadicArgs))"

section \<open>Constraints, locators and the constraint system\<close>

datatype TypeMatchKind = BindType | SameType | TrivialSubtype | Subtype | Conversion

text \<open>The enumeration order of \<^verbatim>\<open>TypeMatchKind\<close>, for the comparisons of the source.\<close>

fun rank :: "TypeMatchKind \<Rightarrow> nat" where
  "rank BindType = 0"
| "rank SameType = 1"
| "rank TrivialSubtype = 2"
| "rank Subtype = 3"
| "rank Conversion = 4"

datatype SolutionKind = Solved | Unsolved | Error

datatype ConstraintKind =
    CK_Bind | CK_Equal | CK_TrivialSubtype | CK_Subtype | CK_Conversion | CK_Construction
  | CK_ConformsTo | CK_SelfObjectOfProtocol | CK_CheckedCast | CK_ApplicableFunction
  | CK_BindOverload | CK_ValueMember | CK_TypeMember | CK_Archetype | CK_Class
  | CK_DynamicLookupValue | CK_Conjunction | CK_Disjunction

datatype ConversionRestrictionKind =
    TupleToTuple | ScalarToTuple | TupleToScalar | DeepEquality | Superclass | LValueToRValue
  | Existential | ValueToOptional | OptionalToOptional | User

datatype FailureKind =
    TupleSizeMismatch | TupleNameMismatch | TupleNamePositionMismatch | TupleVariadicMismatch
  | FunctionAutoclosureMismatch | FunctionNoReturnMismatch | LValueQualifiers
  | IsForbiddenLValue | TypesNotConstructible | DoesNotConformToProtocol | DoesNotHaveMember
  | IsNotArchetype | IsNotClass | TypesNotEqual | TypesNotTrivialSubtypes | TypesNotSubtypes
  | TypesNotConvertible

datatype PathElt =
    ApplyArgument | ApplyFunction | FunctionArgument | FunctionResult | TupleElement nat
  | NamedTupleElement nat | GenericArgument nat | ParentType | InstanceType | ArrayElementType
  | PathScalarToTuple | Load | ConversionMember | ConversionResult | ConstructorMember
  | ArchetypeElt string

text \<open>
  Modelled from the spec: a constraint locator is the interned pair of an anchor (the
  expression, here its number, or none) and a path; interning makes equal pairs one
  object, so a locator is the pair itself. A locator builder is a base locator with the
  path elements added to it; \<^verbatim>\<open>getConstraintLocator\<close> of a builder is in the source.
\<close>

datatype ConstraintLocator = ConstraintLocator (getAnchor: "nat option") (getPath: "PathElt list")

datatype ConstraintLocatorBuilder =
  ConstraintLocatorBuilder (getBaseLocator: "ConstraintLocator option") (newPath: "PathElt list")

definition withPathElement :: "ConstraintLocatorBuilder \<Rightarrow> PathElt \<Rightarrow> ConstraintLocatorBuilder" where
  "withPathElement b e = ConstraintLocatorBuilder (getBaseLocator b) (newPath b @ [e])"

definition hasEmptyPath :: "ConstraintLocatorBuilder \<Rightarrow> bool" where
  "hasEmptyPath b \<longleftrightarrow> newPath b = []"

definition getConstraintLocator :: "ConstraintLocatorBuilder \<Rightarrow> ConstraintLocator option" where
  "getConstraintLocator builder =
     (if hasEmptyPath builder then getBaseLocator builder
      else case getBaseLocator builder of
             None \<Rightarrow> None
           | Some base \<Rightarrow>
               (case getAnchor base of
                  None \<Rightarrow> None
                | Some anchor \<Rightarrow>
                    Some (ConstraintLocator (Some anchor) (getPath base @ newPath builder))))"

text \<open>
  Declarations. Modelled from the spec (declaration metadata: static or instance, interface
  type, invalid or not), with the attributes the solver reads.
\<close>

datatype DeclKind = FuncDecl | VarDecl | ConstructorDecl | DestructorDecl | SubscriptDecl | TypeDecl

datatype ValueDecl = ValueDecl
  (declName: string)
  (declKind: DeclKind)
  (declType: Type)
  (isInvalid: bool)
  (isInstanceMember: bool)
  (hasClangNode: bool)
  (isOptionalAttr: bool)
  (isAssignmentAttr: bool)

definition isaAbstractFunctionDecl :: "ValueDecl \<Rightarrow> bool" where
  "isaAbstractFunctionDecl d \<longleftrightarrow> declKind d \<in> {FuncDecl, ConstructorDecl, DestructorDecl}"

datatype OverloadChoiceKind =
  OCK_Decl | OCK_DeclViaDynamic | OCK_TypeDecl | OCK_BaseType | OCK_TupleIndex

text \<open>
  Modelled from the spec: an overload choice is a tagged variant (declaration, declaration
  found via dynamic lookup, type declaration, the base type itself, tuple element index),
  each with the base type it was resolved against.
\<close>

datatype OverloadChoice = OverloadChoice
  (getBaseType: "Type option")
  (choiceKind: OverloadChoiceKind)
  (getDecl: "ValueDecl option")
  (getTupleIndex: nat)
  (isSpecialized: bool)

definition OverloadChoice_Decl :: "Type \<Rightarrow> ValueDecl \<Rightarrow> bool \<Rightarrow> OverloadChoice" where
  "OverloadChoice_Decl base v spec = OverloadChoice (Some base) OCK_Decl (Some v) 0 spec"

definition OverloadChoice_TypeDecl :: "Type \<Rightarrow> ValueDecl \<Rightarrow> bool \<Rightarrow> OverloadChoice" where
  "OverloadChoice_TypeDecl base v spec = OverloadChoice (Some base) OCK_TypeDecl (Some v) 0 spec"

definition getDeclViaDynamic :: "Type \<Rightarrow> ValueDecl \<Rightarrow> OverloadChoice" where
  "getDeclViaDynamic base v = OverloadChoice (Some base) OCK_DeclViaDynamic (Some v) 0 False"

definition OverloadChoice_Kind :: "Type \<Rightarrow> OverloadChoiceKind \<Rightarrow> OverloadChoice" where
  "OverloadChoice_Kind base k = OverloadChoice (Some base) k None 0 False"

definition OverloadChoice_TupleIndex :: "Type \<Rightarrow> nat \<Rightarrow> OverloadChoice" where
  "OverloadChoice_TupleIndex base i = OverloadChoice (Some base) OCK_TupleIndex None i False"

text \<open>
  Modelled from the spec: a constraint is a closed-kind record. The four shapes are the
  four constructors of the class: two types (with an optional conversion restriction;
  for a conformance constraint the second type is the protocol's declared type), two
  types and a member name, a bound type with an overload choice, and nested constraints.
\<close>

datatype Constraint =
    TypesConstraint ConstraintKind "ConversionRestrictionKind option" Type Type
      "ConstraintLocator option"
  | MemberConstraint ConstraintKind Type Type string "ConstraintLocator option"
  | OverloadConstraint Type OverloadChoice "ConstraintLocator option"
  | NestedConstraint ConstraintKind "Constraint list" "ConstraintLocator option"

fun constraintKind :: "Constraint \<Rightarrow> ConstraintKind" where
  "constraintKind (TypesConstraint k r t1 t2 l) = k"
| "constraintKind (MemberConstraint k t1 t2 n l) = k"
| "constraintKind (OverloadConstraint t c l) = CK_BindOverload"
| "constraintKind (NestedConstraint k cs l) = k"

fun constraintLocator :: "Constraint \<Rightarrow> ConstraintLocator option" where
  "constraintLocator (TypesConstraint k r t1 t2 l) = l"
| "constraintLocator (MemberConstraint k t1 t2 n l) = l"
| "constraintLocator (OverloadConstraint t c l) = l"
| "constraintLocator (NestedConstraint k cs l) = l"

datatype FailureArg = TypeArg Type | NameArg string

datatype Failure = Failure "ConstraintLocator option" FailureKind "FailureArg list"

datatype TypeVariableImpl = TypeVariableImpl
  (tvLocator: "ConstraintLocator option")
  (canBindToLValue: bool)
  (prefersSubtypeBinding: bool)

record SolverState =
  depth :: nat
  recordFailures :: bool
  retiredConstraints :: "Constraint list"
  generatedConstraints :: "Constraint list option"
  constraintRestrictions :: "(Type \<times> Type \<times> ConversionRestrictionKind) list"

datatype ResolvedOverloadSetListItem =
  ResolvedOverloadSetListItem Type OverloadChoice "ConstraintLocator option" "Type option" Type

text \<open>
  The state of the constraint system that the simplifier reads and writes. Modelled from
  the spec, section 4.1: the type-variable store keeps for every variable (a number) its
  options, the representative of its equivalence class and the fixed type recorded on
  the representative. The undo trail of the snapshots and the arena are left out: no
  function below restores a snapshot. \<open>generatedConstraints\<close> is a set of pointers in
  the source; here it is the list of the insertions.
\<close>

record ConstraintSystem =
  numTypeVariables :: nat
  typeVariableImpl :: "nat \<Rightarrow> TypeVariableImpl"
  representative :: "nat \<Rightarrow> nat"
  fixedType :: "nat \<Rightarrow> Type option"
  Constraints :: "Constraint list"
  failedConstraint :: "Constraint option"
  solverState :: "SolverState option"
  failures :: "Failure list"
  resolvedOverloadSets :: "ResolvedOverloadSetListItem list"

type_synonym 'a Result = "Fatal + ('a \<times> ConstraintSystem)"

text \<open>
  The collaborators of the solver (spec, section 6): name lookup, conformance,
  declaration metadata, and the parts of the abstract syntax tree the solver queries.
  They are pure queries, taken as parameters. The last four fields stand for functions
  of the solver that this development does not unfold: the types of references to
  declarations (which open generic types), the simplifiers of the constraint kinds no
  claim is about, and the nested solves behind the ranking queries.
\<close>

record TypeChecker =
  getSuperClassOf :: "Type \<Rightarrow> Type option"
  conformsToProtocol :: "Type \<Rightarrow> string \<Rightarrow> bool"
  lookupMemberTC :: "Type \<Rightarrow> string \<Rightarrow> ValueDecl list"
  lookupConstructors :: "Type \<Rightarrow> ValueDecl list"
  lookupMemberType :: "Type \<Rightarrow> string \<Rightarrow> (ValueDecl \<times> Type) list"
  inheritsFrom :: "string \<Rightarrow> string \<Rightarrow> bool"
  protocolRequiresClass :: "string \<Rightarrow> bool"
  isDynamicLookupProtocol :: "string \<Rightarrow> bool"
  archetypeMayHaveSuperclass :: "string \<Rightarrow> bool"
  archetypeHasParentOrSelfProtocol :: "string \<Rightarrow> bool"
  getDynamicResultSignature :: "ValueDecl \<Rightarrow> string \<times> Type"
  locatorHasMandatoryTupleLabels :: "ConstraintLocatorBuilder \<Rightarrow> bool"
  getTypeOfMemberReference ::
    "Type \<Rightarrow> ValueDecl \<Rightarrow> bool \<Rightarrow> bool \<Rightarrow> ConstraintSystem \<Rightarrow> (Type option \<times> Type) Result"
  getTypeOfReference ::
    "ValueDecl \<Rightarrow> bool \<Rightarrow> bool \<Rightarrow> ConstraintSystem \<Rightarrow> (Type option \<times> Type) Result"
  simplifyOtherConstraint :: "Constraint \<Rightarrow> ConstraintSystem \<Rightarrow> SolutionKind Result"
  isDeclAsSpecializedAs :: "ValueDecl \<Rightarrow> ValueDecl \<Rightarrow> bool"
  isSubtypeOf :: "Type \<Rightarrow> Type \<Rightarrow> bool"
  isConvertibleTo :: "Type \<Rightarrow> Type \<Rightarrow> bool"

section \<open>Queries on types\<close>

text \<open>
  Modelled from the spec, section 3 (the kinds of types) and the glossary: the queries of
  the type library that the solver calls. The library itself is not among the sources.
\<close>

datatype TypeKind =
    TK_Builtin string | TK_Module | TK_Error | TK_GenericTypeParam | TK_DependentMember
  | TK_TypeVariable | TK_Archetype | TK_Tuple | TK_Enum | TK_Struct | TK_Class | TK_Protocol
  | TK_MetaType | TK_Function | TK_PolymorphicFunction | TK_GenericFunction | TK_Array
  | TK_ProtocolComposition | TK_LValue | TK_UnboundGeneric | TK_BoundGenericClass
  | TK_BoundGenericEnum | TK_BoundGenericStruct

fun getKind :: "Type \<Rightarrow> TypeKind" where
  "getKind (BuiltinType k n) = TK_Builtin k"
| "getKind (ModuleType n) = TK_Module"
| "getKind ErrorType = TK_Error"
| "getKind (GenericTypeParamType d i) = TK_GenericTypeParam"
| "getKind (DependentMemberType b n) = TK_DependentMember"
| "getKind (TypeVariableType v) = TK_TypeVariable"
| "getKind (ArchetypeType n) = TK_Archetype"
| "getKind (TupleType elts) = TK_Tuple"
| "getKind (NominalType Enum d p) = TK_Enum"
| "getKind (NominalType Struct d p) = TK_Struct"
| "getKind (NominalType Class d p) = TK_Class"
| "getKind (ProtocolType d) = TK_Protocol"
| "getKind (MetaTypeType t) = TK_MetaType"
| "getKind (FunctionType i r a n) = TK_Function"
| "getKind (PolymorphicFunctionType i r) = TK_PolymorphicFunction"
| "getKind (GenericFunctionType i r) = TK_GenericFunction"
| "getKind (ArrayType b n) = TK_Array"
| "getKind (ProtocolCompositionType ps) = TK_ProtocolComposition"
| "getKind (LValueType t q) = TK_LValue"
| "getKind (UnboundGenericType d) = TK_UnboundGeneric"
| "getKind (BoundGenericType Class d p args) = TK_BoundGenericClass"
| "getKind (BoundGenericType Enum d p args) = TK_BoundGenericEnum"
| "getKind (BoundGenericType Struct d p args) = TK_BoundGenericStruct"

text \<open>The type of the value a mutable reference denotes; any other type is unchanged.\<close>

fun getRValueType :: "Type \<Rightarrow> Type" where
  "getRValueType (LValueType t q) = t"
| "getRValueType t = t"

fun isLValueType :: "Type \<Rightarrow> bool" where
  "isLValueType (LValueType t q) = True"
| "isLValueType t = False"

fun isTypeVariable :: "Type \<Rightarrow> bool" where
  "isTypeVariable (TypeVariableType v) = True"
| "isTypeVariable t = False"

fun isArchetype :: "Type \<Rightarrow> bool" where
  "isArchetype (ArchetypeType n) = True"
| "isArchetype t = False"

fun getAsTupleType :: "Type \<Rightarrow> TupleTypeElt list option" where
  "getAsTupleType (TupleType elts) = Some elts"
| "getAsTupleType t = None"

text \<open>An existential type is a protocol type or a protocol composition.\<close>

fun isExistentialType :: "Type \<Rightarrow> bool" where
  "isExistentialType (ProtocolType d) = True"
| "isExistentialType (ProtocolCompositionType ps) = True"
| "isExistentialType t = False"

primrec existentialProtocols :: "Type \<Rightarrow> string list"
  and existentialProtocolsElt :: "TupleTypeElt \<Rightarrow> string list"
where
  "existentialProtocols (BuiltinType k n) = []"
| "existentialProtocols (ModuleType n) = []"
| "existentialProtocols ErrorType = []"
| "existentialProtocols (GenericTypeParamType d i) = []"
| "existentialProtocols (DependentMemberType b n) = []"
| "existentialProtocols (TypeVariableType v) = []"
| "existentialProtocols (ArchetypeType n) = []"
| "existentialProtocols (TupleType elts) = []"
| "existentialProtocols (NominalType k d p) = []"
| "existentialProtocols (ProtocolType d) = [d]"
| "existentialProtocols (MetaTypeType t) = []"
| "existentialProtocols (FunctionType i r a n) = []"
| "existentialProtocols (PolymorphicFunctionType i r) = []"
| "existentialProtocols (GenericFunctionType i r) = []"
| "existentialProtocols (ArrayType b n) = []"
| "existentialProtocols (ProtocolCompositionType ps) = concat (map existentialProtocols ps)"
| "existentialProtocols (LValueType t q) = []"
| "existentialProtocols (UnboundGenericType d) = []"
| "existentialProtocols (BoundGenericType k d p args) = []"
| "existentialProtocolsElt (TupleTypeElt t n i v) = []"

definition isClassExistentialType :: "TypeChecker \<Rightarrow> Type \<Rightarrow> bool" where
  "isClassExistentialType tc t \<longleftrightarrow>
     isExistentialType t \<and> list_ex (protocolRequiresClass tc) (existentialProtocols t)"

fun getClassOrBoundGenericClass :: "Type \<Rightarrow> string option" where
  "getClassOrBoundGenericClass (NominalType Class d p) = Some d"
| "getClassOrBoundGenericClass (BoundGenericType Class d p args) = Some d"
| "getClassOrBoundGenericClass t = None"

text \<open>A protocol type is a nominal type of the library too.\<close>

fun getNominalOrBoundGenericNominal :: "Type \<Rightarrow> string option" where
  "getNominalOrBoundGenericNominal (NominalType k d p) = Some d"
| "getNominalOrBoundGenericNominal (BoundGenericType k d p args) = Some d"
| "getNominalOrBoundGenericNominal (ProtocolType d) = Some d"
| "getNominalOrBoundGenericNominal t = None"

fun mayHaveSuperclass :: "TypeChecker \<Rightarrow> Type \<Rightarrow> bool" where
  "mayHaveSuperclass tc (ArchetypeType n) = archetypeMayHaveSuperclass tc n"
| "mayHaveSuperclass tc t = (getClassOrBoundGenericClass t \<noteq> None)"

text \<open>The declaration of the optional type, \<^verbatim>\<open>TC.Context.getOptionalDecl()\<close>.\<close>

definition OptionalDecl :: string where
  "OptionalDecl = ''Optional''"

definition OptionalType_get :: "Type \<Rightarrow> Type" where
  "OptionalType_get t = BoundGenericType Enum OptionalDecl None [t]"

text \<open>
  The field of a tuple that a scalar initialises: the only field without a default value
  (variadic fields after it do not count), the first field when all have one, and -1
  when the tuple is empty or two fields have no default value.
\<close>

fun scalarInitLoop :: "TupleTypeElt list \<Rightarrow> nat \<Rightarrow> int \<Rightarrow> int" where
  "scalarInitLoop [] i fieldWithoutDefault =
     (if fieldWithoutDefault = -1 then 0 else fieldWithoutDefault)"
| "scalarInitLoop (f # fs) i fieldWithoutDefault =
     (if hasInit f then scalarInitLoop fs (i + 1) fieldWithoutDefault
      else if fieldWithoutDefault \<noteq> -1 then
        (if isVararg f then scalarInitLoop fs (i + 1) fieldWithoutDefault else -1)
      else scalarInitLoop fs (i + 1) (int i))"

definition getFieldForScalarInit :: "TupleTypeElt list \<Rightarrow> int" where
  "getFieldForScalarInit elts = (if elts = [] then -1 else scalarInitLoop elts 0 (-1))"

fun namedElementLoop :: "TupleTypeElt list \<Rightarrow> string \<Rightarrow> nat \<Rightarrow> int" where
  "namedElementLoop [] nm i = -1"
| "namedElementLoop (f # fs) nm i = (if getName f = nm then int i else namedElementLoop fs nm (i + 1))"

definition getNamedElementId :: "TupleTypeElt list \<Rightarrow> string \<Rightarrow> int" where
  "getNamedElementId elts nm = namedElementLoop elts nm 0"

text \<open>
  The type of a variadic element is the slice of its base type, a bound generic type of
  one argument; any other type has no base type.
\<close>

fun getVarargBaseTy :: "TupleTypeElt \<Rightarrow> Type option" where
  "getVarargBaseTy (TupleTypeElt (BoundGenericType k d p [a]) n i v) = Some a"
| "getVarargBaseTy elt = None"

text \<open>
  \<^verbatim>\<open>transformType\<close> with a function that changes type variables only: the children of
  every type are transformed, a type variable is replaced.
\<close>

primrec substType :: "(nat \<Rightarrow> Type) \<Rightarrow> Type \<Rightarrow> Type"
  and substElt :: "(nat \<Rightarrow> Type) \<Rightarrow> TupleTypeElt \<Rightarrow> TupleTypeElt"
where
  "substType f (BuiltinType k n) = BuiltinType k n"
| "substType f (ModuleType n) = ModuleType n"
| "substType f ErrorType = ErrorType"
| "substType f (GenericTypeParamType d i) = GenericTypeParamType d i"
| "substType f (DependentMemberType b n) = DependentMemberType (substType f b) n"
| "substType f (TypeVariableType v) = f v"
| "substType f (ArchetypeType n) = ArchetypeType n"
| "substType f (TupleType elts) = TupleType (map (substElt f) elts)"
| "substType f (NominalType k d p) = NominalType k d (map_option (substType f) p)"
| "substType f (ProtocolType d) = ProtocolType d"
| "substType f (MetaTypeType t) = MetaTypeType (substType f t)"
| "substType f (FunctionType i r a n) = FunctionType (substType f i) (substType f r) a n"
| "substType f (PolymorphicFunctionType i r) = PolymorphicFunctionType i r"
| "substType f (GenericFunctionType i r) = GenericFunctionType i r"
| "substType f (ArrayType b n) = ArrayType (substType f b) n"
| "substType f (ProtocolCompositionType ps) = ProtocolCompositionType (map (substType f) ps)"
| "substType f (LValueType t q) = LValueType (substType f t) q"
| "substType f (UnboundGenericType d) = UnboundGenericType d"
| "substType f (BoundGenericType k d p args) =
     BoundGenericType k d (map_option (substType f) p) (map (substType f) args)"
| "substElt f (TupleTypeElt t n i v) = TupleTypeElt (substType f t) n i v"

section \<open>The type-variable store\<close>

text \<open>
  Modelled from the spec, section 4.1. \<open>getRepresentative\<close> is the canonical member of
  the class; \<open>getFixedType\<close> reads the type recorded on the representative;
  \<open>assignFixedType\<close> records one and must not be called on a bound variable;
  \<open>mergeEquivalenceClasses\<close> makes one representative the parent of the other (here
  the one with the smaller number stays the representative); \<open>createTypeVariable\<close>
  allocates a variable that represents itself and has no fixed type.
\<close>

definition getRepresentative :: "ConstraintSystem \<Rightarrow> nat \<Rightarrow> nat" where
  "getRepresentative cs v = representative cs v"

definition getFixedType :: "ConstraintSystem \<Rightarrow> nat \<Rightarrow> Type option" where
  "getFixedType cs v = fixedType cs (getRepresentative cs v)"

definition assignFixedType :: "nat \<Rightarrow> Type \<Rightarrow> ConstraintSystem \<Rightarrow> Fatal + ConstraintSystem" where
  "assignFixedType v t cs =
     (if getFixedType cs v \<noteq> None \<and> getFixedType cs v \<noteq> Some t
      then Inl (AssertionFailed ''Already has a fixed type!'')
      else Inr (cs\<lparr>fixedType := (fixedType cs)(getRepresentative cs v := Some t)\<rparr>))"

definition mergeEquivalenceClasses :: "nat \<Rightarrow> nat \<Rightarrow> ConstraintSystem \<Rightarrow> Fatal + ConstraintSystem" where
  "mergeEquivalenceClasses v1 v2 cs =
     (if getRepresentative cs v1 \<noteq> v1 \<or> getRepresentative cs v2 \<noteq> v2
      then Inl (AssertionFailed ''merging a non-representative'')
      else Inr (cs\<lparr>representative :=
                  (\<lambda>v. if representative cs v = max v1 v2 then min v1 v2
                       else representative cs v)\<rparr>))"

definition createTypeVariable ::
  "ConstraintLocator option \<Rightarrow> bool \<Rightarrow> bool \<Rightarrow> ConstraintSystem \<Rightarrow> nat \<times> ConstraintSystem"
where
  "createTypeVariable locator canBindLV prefersSub cs =
     (let v = numTypeVariables cs in
      (v, cs\<lparr>numTypeVariables := v + 1,
             typeVariableImpl := (typeVariableImpl cs)(v := TypeVariableImpl locator canBindLV prefersSub),
             representative := (representative cs)(v := v),
             fixedType := (fixedType cs)(v := None)\<rparr>))"

text \<open>
  \<^verbatim>\<open>getFixedTypeRecursiveHelper\<close> follows fixed types while they are type variables. The
  loop of the source does not end on a cycle of bindings; the model counts its steps
  down from \<open>fuel\<close>.
\<close>

fun getFixedTypeRecursiveHelper ::
  "nat \<Rightarrow> ConstraintSystem \<Rightarrow> nat \<Rightarrow> bool \<Rightarrow> Fatal + Type option"
where
  "getFixedTypeRecursiveHelper 0 cs typeVar wantRValue = Inl OutOfFuel"
| "getFixedTypeRecursiveHelper (Suc fuel) cs typeVar wantRValue =
     (case getFixedType cs typeVar of
        None \<Rightarrow> Inr None
      | Some fixed0 \<Rightarrow>
          (let fixed = (if wantRValue then getRValueType fixed0 else fixed0) in
           case fixed of
             TypeVariableType typeVar' \<Rightarrow> getFixedTypeRecursiveHelper fuel cs typeVar' wantRValue
           | _ \<Rightarrow> Inr (Some fixed)))"

text \<open>The result is the type looked through, with the type variable left unbound if any.\<close>

definition getFixedTypeRecursive ::
  "nat \<Rightarrow> ConstraintSystem \<Rightarrow> Type \<Rightarrow> bool \<Rightarrow> Fatal + (Type \<times> nat option)"
where
  "getFixedTypeRecursive fuel cs type0 wantRValue =
     (let type = (if wantRValue then getRValueType type0 else type0) in
      case type of
        TypeVariableType typeVar \<Rightarrow>
          (case getFixedTypeRecursiveHelper fuel cs typeVar wantRValue of
             Inl e \<Rightarrow> Inl e
           | Inr (Some fixed) \<Rightarrow> Inr (fixed, None)
           | Inr None \<Rightarrow> Inr (type, Some typeVar))
      | _ \<Rightarrow> Inr (type, None))"

text \<open>
  \<^verbatim>\<open>simplifyType\<close> replaces every type variable by the simplified fixed type of its
  representative, or by the representative. The set \<open>substituting\<close> stops the
  recursion on a cycle, so its depth is at most the number of type variables, which is
  the count the model starts from.
\<close>

primrec simplifyTypeVar :: "nat \<Rightarrow> ConstraintSystem \<Rightarrow> nat list \<Rightarrow> nat \<Rightarrow> Type" where
  "simplifyTypeVar 0 cs substituting tvt = TypeVariableType (getRepresentative cs tvt)"
| "simplifyTypeVar (Suc n) cs substituting tvt =
     (let rep = getRepresentative cs tvt in
      case getFixedType cs rep of
        Some fixed \<Rightarrow>
          if rep \<notin> set substituting
          then substType (simplifyTypeVar n cs (rep # substituting)) fixed
          else TypeVariableType rep
      | None \<Rightarrow> TypeVariableType rep)"

definition simplifyType :: "ConstraintSystem \<Rightarrow> Type \<Rightarrow> Type" where
  "simplifyType cs type = substType (simplifyTypeVar (numTypeVariables cs + 1) cs []) type"

section \<open>Failures\<close>

text \<open>
  Modelled from the spec, section 4.3: a simplification that fails appends a failure
  record (kind and operands) if failure recording is enabled for this attempt: outside
  a search, or when the solver state asks for it.
\<close>

definition shouldRecordFailures :: "ConstraintSystem \<Rightarrow> bool" where
  "shouldRecordFailures cs = (case solverState cs of None \<Rightarrow> True | Some st \<Rightarrow> recordFailures st)"

definition recordFailure ::
  "ConstraintLocator option \<Rightarrow> FailureKind \<Rightarrow> FailureArg list \<Rightarrow> ConstraintSystem \<Rightarrow> ConstraintSystem"
where
  "recordFailure locator kind args cs =
     (if shouldRecordFailures cs then cs\<lparr>failures := failures cs @ [Failure locator kind args]\<rparr>
      else cs)"

section \<open>The type matcher\<close>

text \<open>
  \<^verbatim>\<open>matchTypes\<close>, the matchers of the structural cases and \<^verbatim>\<open>addConstraint\<close> call one
  another, and a cycle of type-variable bindings can keep them calling for ever. Every
  function below is the body of the source function, with the recursive calls taken as
  the parameters \<open>mt\<close> (\<^verbatim>\<open>matchTypes\<close>) and \<open>ac\<close> (\<^verbatim>\<open>addConstraint\<close>); the loops that
  need not end count down from \<open>fuel\<close>. The knot is tied at the end of the section by
  recursion on the depth of the calls.
\<close>

type_synonym matcher =
  "Type \<Rightarrow> Type \<Rightarrow> TypeMatchKind \<Rightarrow> nat \<Rightarrow> ConstraintLocatorBuilder \<Rightarrow> ConstraintSystem \<Rightarrow>
   SolutionKind Result"

type_synonym adder = "Constraint \<Rightarrow> bool \<Rightarrow> bool \<Rightarrow> ConstraintSystem \<Rightarrow> bool Result"

definition TMF_None :: nat where "TMF_None = 0"
definition TMF_GenerateConstraints :: nat where "TMF_GenerateConstraints = 1"

definition locatorBuilder :: "ConstraintLocator option \<Rightarrow> ConstraintLocatorBuilder" where
  "locatorBuilder l = ConstraintLocatorBuilder l []"

fun getRelationalFailureKind :: "TypeMatchKind \<Rightarrow> FailureKind" where
  "getRelationalFailureKind BindType = TypesNotEqual"
| "getRelationalFailureKind SameType = TypesNotEqual"
| "getRelationalFailureKind TrivialSubtype = TypesNotTrivialSubtypes"
| "getRelationalFailureKind Subtype = TypesNotSubtypes"
| "getRelationalFailureKind Conversion = TypesNotConvertible"

fun getConstraintKind :: "TypeMatchKind \<Rightarrow> ConstraintKind" where
  "getConstraintKind BindType = CK_Bind"
| "getConstraintKind SameType = CK_Equal"
| "getConstraintKind TrivialSubtype = CK_TrivialSubtype"
| "getConstraintKind Subtype = CK_Subtype"
| "getConstraintKind Conversion = CK_Conversion"

text \<open>
  \<^verbatim>\<open>addConstraint(kind, first, second, locator)\<close> of the class: it builds the constraint
  and adds it; the flag that \<^verbatim>\<open>addConstraint\<close> returns is dropped by every caller here.
\<close>

definition addTypesConstraint ::
  "adder \<Rightarrow> ConstraintKind \<Rightarrow> Type \<Rightarrow> Type \<Rightarrow> ConstraintLocator option \<Rightarrow> ConstraintSystem \<Rightarrow>
   Fatal + ConstraintSystem"
where
  "addTypesConstraint ac kind first second locator cs =
     (case ac (TypesConstraint kind None first second locator) False False cs of
        Inl e \<Rightarrow> Inl e
      | Inr (added, cs') \<Rightarrow> Inr cs')"

subsection \<open>Tuples\<close>

text \<open>The loop of \<^verbatim>\<open>matchTupleTypes\<close> for the kinds below a conversion.\<close>

fun matchTupleElements ::
  "matcher \<Rightarrow> TupleTypeElt list \<Rightarrow> TupleTypeElt list \<Rightarrow> (TupleTypeElt \<times> TupleTypeElt) list \<Rightarrow> nat \<Rightarrow>
   TypeMatchKind \<Rightarrow> nat \<Rightarrow> ConstraintLocatorBuilder \<Rightarrow> ConstraintSystem \<Rightarrow> SolutionKind Result"
where
  "matchTupleElements mt tuple1 tuple2 [] i kind subFlags locator cs = Inr (Solved, cs)"
| "matchTupleElements mt tuple1 tuple2 ((elt1, elt2) # rest) i kind subFlags locator cs =
     (if getName elt1 \<noteq> getName elt2 \<and> kind = SameType then
        Inr (Error,
          if shouldRecordFailures cs
          then recordFailure (getConstraintLocator (withPathElement locator (NamedTupleElement i)))
                 TupleNameMismatch [TypeArg (TupleType tuple1), TypeArg (TupleType tuple2)] cs
          else cs)
      else if getName elt1 \<noteq> getName elt2 \<and> getName elt2 \<noteq> [] \<and>
              getNamedElementId tuple1 (getName elt2) \<noteq> -1 then
        Inr (Error,
          if shouldRecordFailures cs
          then recordFailure (getConstraintLocator (withPathElement locator (NamedTupleElement i)))
                 TupleNamePositionMismatch [TypeArg (TupleType tuple1), TypeArg (TupleType tuple2)] cs
          else cs)
      else if isVararg elt1 \<noteq> isVararg elt2 then
        Inr (Error,
          if shouldRecordFailures cs
          then recordFailure (getConstraintLocator (withPathElement locator (NamedTupleElement i)))
                 TupleVariadicMismatch [TypeArg (TupleType tuple1), TypeArg (TupleType tuple2)] cs
          else cs)
      else
        case mt (getType elt1) (getType elt2) kind subFlags
               (withPathElement locator (TupleElement i)) cs of
          Inl e \<Rightarrow> Inl e
        | Inr (Error, cs') \<Rightarrow> Inr (Error, cs')
        | Inr (_, cs') \<Rightarrow> matchTupleElements mt tuple1 tuple2 rest (i + 1) kind subFlags locator cs')"

text \<open>
  The loop over \<open>sources\<close> after the shuffle. It returns whether a variadic element
  was met. An index outside a tuple fails the assertion of the array access.
\<close>

fun matchShuffledElements ::
  "matcher \<Rightarrow> TupleTypeElt list \<Rightarrow> TupleTypeElt list \<Rightarrow> int list \<Rightarrow> nat \<Rightarrow> bool \<Rightarrow> nat \<Rightarrow>
   ConstraintLocatorBuilder \<Rightarrow> ConstraintSystem \<Rightarrow> Fatal + ((SolutionKind \<times> bool) \<times> ConstraintSystem)"
where
  "matchShuffledElements mt tuple1 tuple2 [] idx2 hasVarArg subFlags locator cs =
     Inr ((Solved, hasVarArg), cs)"
| "matchShuffledElements mt tuple1 tuple2 (source # rest) idx2 hasVarArg subFlags locator cs =
     (if source = DefaultInitialize then
        matchShuffledElements mt tuple1 tuple2 rest (idx2 + 1) hasVarArg subFlags locator cs
      else if source = FirstVariadic then
        matchShuffledElements mt tuple1 tuple2 rest (idx2 + 1) True subFlags locator cs
      else if source < 0 then Inl (AssertionFailed ''sources[idx2] >= 0'')
      else if \<not> (nat source < length tuple1 \<and> idx2 < length tuple2) then
        Inl (AssertionFailed ''Invalid index!'')
      else
        case mt (getType (tuple1 ! nat source)) (getType (tuple2 ! idx2)) Conversion subFlags
               (withPathElement locator (TupleElement (nat source))) cs of
          Inl e \<Rightarrow> Inl e
        | Inr (Error, cs') \<Rightarrow> Inr ((Error, hasVarArg), cs')
        | Inr (_, cs') \<Rightarrow>
            matchShuffledElements mt tuple1 tuple2 rest (idx2 + 1) hasVarArg subFlags locator cs')"

fun matchVariadicArguments ::
  "matcher \<Rightarrow> TupleTypeElt list \<Rightarrow> Type \<Rightarrow> nat list \<Rightarrow> nat \<Rightarrow> ConstraintLocatorBuilder \<Rightarrow>
   ConstraintSystem \<Rightarrow> SolutionKind Result"
where
  "matchVariadicArguments mt tuple1 eltType2 [] subFlags locator cs = Inr (Solved, cs)"
| "matchVariadicArguments mt tuple1 eltType2 (idx1 # rest) subFlags locator cs =
     (if \<not> idx1 < length tuple1 then Inl (AssertionFailed ''Invalid index!'')
      else
        case mt (getType (tuple1 ! idx1)) eltType2 Conversion subFlags
               (withPathElement locator (TupleElement idx1)) cs of
          Inl e \<Rightarrow> Inl e
        | Inr (Error, cs') \<Rightarrow> Inr (Error, cs')
        | Inr (_, cs') \<Rightarrow> matchVariadicArguments mt tuple1 eltType2 rest subFlags locator cs')"

definition matchTupleTypes ::
  "TypeChecker \<Rightarrow> matcher \<Rightarrow> TupleTypeElt list \<Rightarrow> TupleTypeElt list \<Rightarrow> TypeMatchKind \<Rightarrow> nat \<Rightarrow>
   ConstraintLocatorBuilder \<Rightarrow> ConstraintSystem \<Rightarrow> SolutionKind Result"
where
  "matchTupleTypes tc mt tuple1 tuple2 kind flags locator cs =
     (let subFlags = flags OR TMF_GenerateConstraints in
      if rank kind < rank Conversion then
        if length tuple1 \<noteq> length tuple2 then
          Inr (Error,
            if shouldRecordFailures cs
            then recordFailure (getConstraintLocator locator) TupleSizeMismatch
                   [TypeArg (TupleType tuple1), TypeArg (TupleType tuple2)] cs
            else cs)
        else matchTupleElements mt tuple1 tuple2 (zip tuple1 tuple2) 0 kind subFlags locator cs
      else
        case computeTupleShuffle tuple1 tuple2 (locatorHasMandatoryTupleLabels tc locator) of
          Inl e \<Rightarrow> Inl e
        | Inr (True, sources, variadicArguments) \<Rightarrow>
            Inr (Error,
              if shouldRecordFailures cs \<and> length tuple1 \<noteq> length tuple2
              then recordFailure (getConstraintLocator locator) TupleSizeMismatch
                     [TypeArg (TupleType tuple1), TypeArg (TupleType tuple2)] cs
              else cs)
        | Inr (False, sources, variadicArguments) \<Rightarrow>
            (case matchShuffledElements mt tuple1 tuple2 sources 0 False subFlags locator cs of
               Inl e \<Rightarrow> Inl e
             | Inr ((Error, hasVarArg), cs') \<Rightarrow> Inr (Error, cs')
             | Inr ((_, False), cs') \<Rightarrow> Inr (Solved, cs')
             | Inr ((_, True), cs') \<Rightarrow>
                 (if tuple2 = [] then Inl (AssertionFailed ''back() of an empty array'')
                  else case getVarargBaseTy (last tuple2) of
                    None \<Rightarrow> Inl (AssertionFailed ''not a variadic element type'')
                  | Some eltType2 \<Rightarrow>
                      matchVariadicArguments mt tuple1 eltType2 variadicArguments subFlags
                        locator cs')))"

definition matchScalarToTupleTypes ::
  "matcher \<Rightarrow> Type \<Rightarrow> TupleTypeElt list \<Rightarrow> TypeMatchKind \<Rightarrow> nat \<Rightarrow> ConstraintLocatorBuilder \<Rightarrow>
   ConstraintSystem \<Rightarrow> SolutionKind Result"
where
  "matchScalarToTupleTypes mt type1 tuple2 kind flags locator cs =
     (let scalarFieldIdx = getFieldForScalarInit tuple2 in
      if \<not> scalarFieldIdx \<ge> 0 then Inl (AssertionFailed ''Invalid tuple for scalar-to-tuple'')
      else if \<not> nat scalarFieldIdx < length tuple2 then Inl (AssertionFailed ''Invalid index!'')
      else
        let elt = tuple2 ! nat scalarFieldIdx in
        case (if isVararg elt then getVarargBaseTy elt else Some (getType elt)) of
          None \<Rightarrow> Inl (AssertionFailed ''not a variadic element type'')
        | Some scalarFieldTy \<Rightarrow>
            mt type1 scalarFieldTy kind flags (withPathElement locator PathScalarToTuple) cs)"

definition matchTupleToScalarTypes ::
  "matcher \<Rightarrow> TupleTypeElt list \<Rightarrow> Type \<Rightarrow> TypeMatchKind \<Rightarrow> nat \<Rightarrow> ConstraintLocatorBuilder \<Rightarrow>
   ConstraintSystem \<Rightarrow> SolutionKind Result"
where
  "matchTupleToScalarTypes mt tuple1 type2 kind flags locator cs =
     (if length tuple1 \<noteq> 1 then Inl (AssertionFailed ''Wrong number of elements'')
      else if isVararg (tuple1 ! 0) then Inl (AssertionFailed ''Should not be variadic'')
      else mt (getType (tuple1 ! 0)) type2 kind flags (withPathElement locator (TupleElement 0)) cs)"

subsection \<open>Functions\<close>

text \<open>
  \<^verbatim>\<open>matchFunctionTypes\<close> on the types \<open>input1 -> result1\<close> and \<open>input2 -> result2\<close>
  with their auto-closure and no-return flags.
\<close>

definition matchFunctionTypes ::
  "matcher \<Rightarrow> Type \<Rightarrow> Type \<Rightarrow> bool \<Rightarrow> bool \<Rightarrow> Type \<Rightarrow> Type \<Rightarrow> bool \<Rightarrow> bool \<Rightarrow> TypeMatchKind \<Rightarrow> nat \<Rightarrow>
   ConstraintLocatorBuilder \<Rightarrow> ConstraintSystem \<Rightarrow> SolutionKind Result"
where
  "matchFunctionTypes mt input1 result1 autoClosure1 noReturn1 input2 result2 autoClosure2 noReturn2
     kind flags locator cs =
     (let func1 = FunctionType input1 result1 autoClosure1 noReturn1;
          func2 = FunctionType input2 result2 autoClosure2 noReturn2 in
      if autoClosure1 \<noteq> autoClosure2 \<and> (autoClosure2 \<or> rank kind < rank TrivialSubtype) then
        Inr (Error,
          if shouldRecordFailures cs
          then recordFailure (getConstraintLocator locator) FunctionAutoclosureMismatch
                 [TypeArg func1, TypeArg func2] cs
          else cs)
      else if noReturn1 \<noteq> noReturn2 \<and> (noReturn2 \<or> rank kind < rank SameType) then
        Inr (Error,
          if shouldRecordFailures cs
          then recordFailure (getConstraintLocator locator) FunctionNoReturnMismatch
                 [TypeArg func1, TypeArg func2] cs
          else cs)
      else
        let subKind = (case kind of
                         BindType \<Rightarrow> kind
                       | SameType \<Rightarrow> kind
                       | TrivialSubtype \<Rightarrow> kind
                       | Subtype \<Rightarrow> TrivialSubtype
                       | Conversion \<Rightarrow> Subtype);
            subFlags = flags OR TMF_GenerateConstraints in
        case mt input2 input1 subKind subFlags (withPathElement locator FunctionArgument) cs of
          Inl e \<Rightarrow> Inl e
        | Inr (Error, cs') \<Rightarrow> Inr (Error, cs')
        | Inr (_, cs') \<Rightarrow>
            (case mt result1 result2 subKind subFlags
                    (withPathElement locator FunctionResult) cs' of
               Inl e \<Rightarrow> Inl e
             | Inr (Error, cs'') \<Rightarrow> Inr (Error, cs'')
             | Inr (Solved, cs'') \<Rightarrow> Inr (Solved, cs'')
             | Inr (Unsolved, cs'') \<Rightarrow> Inr (Unsolved, cs'')))"

subsection \<open>Superclasses\<close>

text \<open>The walk up the superclasses of \<^verbatim>\<open>matchSuperclassTypes\<close>; \<open>None\<close> when it finds no match.\<close>

fun findSuperclass :: "nat \<Rightarrow> TypeChecker \<Rightarrow> Type option \<Rightarrow> string option \<Rightarrow> Fatal + Type option" where
  "findSuperclass 0 tc super1 classDecl2 = Inl OutOfFuel"
| "findSuperclass (Suc fuel) tc None classDecl2 = Inr None"
| "findSuperclass (Suc fuel) tc (Some super1) classDecl2 =
     (if getClassOrBoundGenericClass super1 \<noteq> classDecl2
      then findSuperclass fuel tc (getSuperClassOf tc super1) classDecl2
      else Inr (Some super1))"

definition matchSuperclassTypes ::
  "nat \<Rightarrow> TypeChecker \<Rightarrow> matcher \<Rightarrow> Type \<Rightarrow> Type \<Rightarrow> TypeMatchKind \<Rightarrow> nat \<Rightarrow> ConstraintLocatorBuilder \<Rightarrow>
   ConstraintSystem \<Rightarrow> SolutionKind Result"
where
  "matchSuperclassTypes fuel tc mt type1 type2 kind flags locator cs =
     (let classDecl2 = getClassOrBoundGenericClass type2 in
      case findSuperclass fuel tc (getSuperClassOf tc type1) classDecl2 of
        Inl e \<Rightarrow> Inl e
      | Inr (Some super1) \<Rightarrow> mt super1 type2 SameType TMF_GenerateConstraints locator cs
      | Inr None \<Rightarrow>
          Inr (Error,
            if shouldRecordFailures cs
            then recordFailure (getConstraintLocator locator) (getRelationalFailureKind kind)
                   [TypeArg type1, TypeArg type2] cs
            else cs))"

subsection \<open>Deep equality\<close>

fun getAsNominalType :: "Type \<Rightarrow> (string \<times> Type option) option" where
  "getAsNominalType (NominalType k d p) = Some (d, p)"
| "getAsNominalType (ProtocolType d) = Some (d, None)"
| "getAsNominalType t = None"

fun matchGenericArguments ::
  "matcher \<Rightarrow> (Type \<times> Type) list \<Rightarrow> nat \<Rightarrow> ConstraintLocatorBuilder \<Rightarrow> ConstraintSystem \<Rightarrow>
   SolutionKind Result"
where
  "matchGenericArguments mt [] i locator cs = Inr (Solved, cs)"
| "matchGenericArguments mt ((arg1, arg2) # rest) i locator cs =
     (case mt arg1 arg2 SameType TMF_GenerateConstraints
             (withPathElement locator (GenericArgument i)) cs of
        Inl e \<Rightarrow> Inl e
      | Inr (Error, cs') \<Rightarrow> Inr (Error, cs')
      | Inr (_, cs') \<Rightarrow> matchGenericArguments mt rest (i + 1) locator cs')"

definition matchDeepEqualityTypes ::
  "matcher \<Rightarrow> Type \<Rightarrow> Type \<Rightarrow> ConstraintLocatorBuilder \<Rightarrow> ConstraintSystem \<Rightarrow> SolutionKind Result"
where
  "matchDeepEqualityTypes mt type1 type2 locator cs =
     (case getAsNominalType type1 of
        Some (decl1, parent1) \<Rightarrow>
          (case getAsNominalType type2 of
             None \<Rightarrow> Inl (AssertionFailed ''castTo<NominalType>'')
           | Some (decl2, parent2) \<Rightarrow>
               (case (parent1, parent2) of
                  (None, None) \<Rightarrow> Inr (Solved, cs)
                | (Some p1, Some p2) \<Rightarrow>
                    mt p1 p2 SameType TMF_GenerateConstraints
                      (withPathElement locator ParentType) cs
                | _ \<Rightarrow> Inl (AssertionFailed ''Mismatched parents of nominal types'')))
      | None \<Rightarrow>
          (case (type1, type2) of
             (BoundGenericType k1 d1 parent1 args1, BoundGenericType k2 d2 parent2 args2) \<Rightarrow>
               (if (parent1 = None) \<noteq> (parent2 = None)
                then Inl (AssertionFailed ''Mismatched parents of bound generics'')
                else
                  case (case (parent1, parent2) of
                          (Some p1, Some p2) \<Rightarrow>
                            mt p1 p2 SameType TMF_GenerateConstraints
                              (withPathElement locator ParentType) cs
                        | _ \<Rightarrow> Inr (Solved, cs)) of
                    Inl e \<Rightarrow> Inl e
                  | Inr (Error, cs') \<Rightarrow> Inr (Error, cs')
                  | Inr (_, cs') \<Rightarrow>
                      (if length args1 \<noteq> length args2
                       then Inl (AssertionFailed ''Mismatched generic args'')
                       else matchGenericArguments mt (zip args1 args2) 0 locator cs'))
           | _ \<Rightarrow> Inl (AssertionFailed ''castTo<BoundGenericType>'')))"

subsection \<open>Conformance and existential types\<close>

definition simplifyConformsToConstraint ::
  "nat \<Rightarrow> TypeChecker \<Rightarrow> Type \<Rightarrow> string \<Rightarrow> ConstraintLocatorBuilder \<Rightarrow> bool \<Rightarrow> ConstraintSystem \<Rightarrow>
   SolutionKind Result"
where
  "simplifyConformsToConstraint fuel tc type0 protocol locator allowNonConformingExistential cs =
     (case getFixedTypeRecursive fuel cs type0 True of
        Inl e \<Rightarrow> Inl e
      | Inr (type, typeVar) \<Rightarrow>
          if typeVar \<noteq> None then Inr (Unsolved, cs)
          else if (if allowNonConformingExistential \<and> isExistentialType type
                   then list_ex (\<lambda>ap. ap = protocol \<or> inheritsFrom tc ap protocol)
                          (existentialProtocols type)
                   else conformsToProtocol tc type protocol)
          then Inr (Solved, cs)
          else Inr (Error,
                 recordFailure (getConstraintLocator locator) DoesNotConformToProtocol
                   [TypeArg type, TypeArg (ProtocolType protocol)] cs))"

fun matchExistentialProtocols ::
  "nat \<Rightarrow> TypeChecker \<Rightarrow> adder \<Rightarrow> Type \<Rightarrow> string list \<Rightarrow> ConstraintLocatorBuilder \<Rightarrow>
   ConstraintSystem \<Rightarrow> SolutionKind Result"
where
  "matchExistentialProtocols fuel tc ac type1 [] locator cs = Inr (Solved, cs)"
| "matchExistentialProtocols fuel tc ac type1 (proto # protocols) locator cs =
     (case simplifyConformsToConstraint fuel tc type1 proto locator False cs of
        Inl e \<Rightarrow> Inl e
      | Inr (Solved, cs') \<Rightarrow> matchExistentialProtocols fuel tc ac type1 protocols locator cs'
      | Inr (Unsolved, cs') \<Rightarrow>
          (case addTypesConstraint ac CK_ConformsTo type1 (ProtocolType proto) None cs' of
             Inl e \<Rightarrow> Inl e
           | Inr cs'' \<Rightarrow> matchExistentialProtocols fuel tc ac type1 protocols locator cs'')
      | Inr (Error, cs') \<Rightarrow> Inr (Error, cs'))"

definition matchExistentialTypes ::
  "nat \<Rightarrow> TypeChecker \<Rightarrow> adder \<Rightarrow> Type \<Rightarrow> Type \<Rightarrow> TypeMatchKind \<Rightarrow> nat \<Rightarrow> ConstraintLocatorBuilder \<Rightarrow>
   ConstraintSystem \<Rightarrow> SolutionKind Result"
where
  "matchExistentialTypes fuel tc ac type1 type2 kind flags locator cs =
     (if \<not> isExistentialType type2 then Inl (AssertionFailed ''Bogus existential match'')
      else matchExistentialProtocols fuel tc ac type1 (existentialProtocols type2) locator cs)"

subsection \<open>User-defined conversions\<close>

text \<open>
  \<^verbatim>\<open>ConstraintSystem::lookupMember\<close>. The cache of the lookups is left out: the lookup
  of the type checker is a pure query. For a dynamic lookup the results are filtered to
  the first of every signature (selector and type).
\<close>

fun filterKnown :: "TypeChecker \<Rightarrow> ValueDecl list \<Rightarrow> (string \<times> Type) list \<Rightarrow> ValueDecl list" where
  "filterKnown tc [] known = []"
| "filterKnown tc (d # ds) known =
     (if getDynamicResultSignature tc d \<in> set known then filterKnown tc ds known
      else d # filterKnown tc ds (getDynamicResultSignature tc d # known))"

definition lookupMember :: "TypeChecker \<Rightarrow> Type \<Rightarrow> string \<Rightarrow> ValueDecl list" where
  "lookupMember tc base name =
     (let result = lookupMemberTC tc base name;
          instanceTy0 = getRValueType base;
          instanceTy = (case instanceTy0 of MetaTypeType t \<Rightarrow> t | _ \<Rightarrow> instanceTy0)
      in case instanceTy of
           ProtocolType d \<Rightarrow>
             if result = [] \<or> \<not> isDynamicLookupProtocol tc d then result
             else filterKnown tc result []
         | _ \<Rightarrow> result)"

definition conversionName :: string where
  "conversionName = ''__conversion''"

definition shouldTryUserConversion :: "TypeChecker \<Rightarrow> Type \<Rightarrow> bool" where
  "shouldTryUserConversion tc type =
     (if getNominalOrBoundGenericNominal type = None \<and> \<not> isArchetype type then False
      else lookupMember tc type conversionName \<noteq> [])"

definition tryUserConversion ::
  "TypeChecker \<Rightarrow> adder \<Rightarrow> Type \<Rightarrow> ConstraintKind \<Rightarrow> Type \<Rightarrow> ConstraintLocatorBuilder \<Rightarrow>
   ConstraintSystem \<Rightarrow> SolutionKind Result"
where
  "tryUserConversion tc ac type kind otherType locator cs =
     (if kind = CK_Construction \<or> kind = CK_Conversion
      then Inl (AssertionFailed ''Construction/conversion constraints create potential cycles'')
      else if getNominalOrBoundGenericNominal type = None \<and> \<not> isArchetype type
      then Inr (Unsolved, cs)
      else if lookupMember tc type conversionName = [] then Inr (Unsolved, cs)
      else
        let memberLocator = getConstraintLocator (withPathElement locator ConversionMember);
            (inputTV, cs1) =
              createTypeVariable
                (getConstraintLocator (withPathElement (locatorBuilder memberLocator) FunctionArgument))
                False False cs;
            (outputTV, cs2) =
              createTypeVariable
                (getConstraintLocator (withPathElement (locatorBuilder memberLocator) FunctionResult))
                False False cs1
        in
        case ac (MemberConstraint CK_ValueMember type
                   (FunctionType (TypeVariableType inputTV) (TypeVariableType outputTV) False False)
                   conversionName memberLocator) False False cs2 of
          Inl e \<Rightarrow> Inl e
        | Inr (added, cs3) \<Rightarrow>
            (case addTypesConstraint ac CK_Conversion (TupleType []) (TypeVariableType inputTV)
                    (getConstraintLocator locator) cs3 of
               Inl e \<Rightarrow> Inl e
             | Inr cs4 \<Rightarrow>
                 (case addTypesConstraint ac kind (TypeVariableType outputTV) otherType
                         (getConstraintLocator (withPathElement locator ConversionResult)) cs4 of
                    Inl e \<Rightarrow> Inl e
                  | Inr cs5 \<Rightarrow> Inr (Solved, cs5))))"

subsection \<open>\<^verbatim>\<open>matchTypes\<close>\<close>

text \<open>
  The block of \<^verbatim>\<open>matchTypes\<close> that unifies type variables, entered when one of the two
  sides is an unbound type variable. \<open>None\<close> is the \<^verbatim>\<open>break\<close> out of the switch.
\<close>

definition bindTypeVariables ::
  "adder \<Rightarrow> Type \<Rightarrow> nat option \<Rightarrow> Type \<Rightarrow> nat option \<Rightarrow> TypeMatchKind \<Rightarrow> nat \<Rightarrow> ConstraintLocatorBuilder \<Rightarrow>
   ConstraintSystem \<Rightarrow> SolutionKind Result"
where
  "bindTypeVariables ac type1 typeVar1 type2 typeVar2 kind flags locator cs =
     (case (typeVar1, typeVar2) of
        (Some tv1, Some tv2) \<Rightarrow>
          (let rep1 = getRepresentative cs tv1; rep2 = getRepresentative cs tv2 in
           if rep1 = rep2 then Inr (Solved, cs)
           else if canBindToLValue (typeVariableImpl cs rep1)
                     \<noteq> canBindToLValue (typeVariableImpl cs rep2) then
             (if flags AND TMF_GenerateConstraints \<noteq> 0 then
                case addTypesConstraint ac (getConstraintKind kind) (TypeVariableType rep1)
                       (TypeVariableType rep2) (getConstraintLocator locator) cs of
                  Inl e \<Rightarrow> Inl e
                | Inr cs' \<Rightarrow> Inr (Solved, cs')
              else Inr (Unsolved, cs))
           else
             case mergeEquivalenceClasses rep1 rep2 cs of
               Inl e \<Rightarrow> Inl e
             | Inr cs' \<Rightarrow> Inr (Solved, cs'))
      | (Some tv1, None) \<Rightarrow>
          (let wantRvalue = (kind = SameType);
               type2' = (if wantRvalue then getRValueType type2 else type2) in
           if \<not> canBindToLValue (typeVariableImpl cs tv1) \<and> isLValueType type2'
           then Inr (Error, cs)
           else
             case assignFixedType tv1 type2' cs of
               Inl e \<Rightarrow> Inl e
             | Inr cs' \<Rightarrow> Inr (Solved, cs'))
      | (None, Some tv2) \<Rightarrow>
          (let wantRvalue = (kind = SameType);
               type1' = (if wantRvalue then getRValueType type1 else type1) in
           if \<not> canBindToLValue (typeVariableImpl cs tv2) \<and> isLValueType type1'
           then Inr (Error, cs)
           else
             case assignFixedType tv2 type1' cs of
               Inl e \<Rightarrow> Inl e
             | Inr cs' \<Rightarrow> Inr (Solved, cs'))
      | (None, None) \<Rightarrow> Inl (Unreachable ''no type variable''))"

definition unifyTypeVariables ::
  "adder \<Rightarrow> Type \<Rightarrow> nat option \<Rightarrow> Type \<Rightarrow> nat option \<Rightarrow> TypeMatchKind \<Rightarrow> nat \<Rightarrow> ConstraintLocatorBuilder \<Rightarrow>
   ConstraintSystem \<Rightarrow> (SolutionKind Result) option"
where
  "unifyTypeVariables ac type1 typeVar1 type2 typeVar2 kind flags locator cs =
     (case kind of
        BindType \<Rightarrow> Some (bindTypeVariables ac type1 typeVar1 type2 typeVar2 kind flags locator cs)
      | SameType \<Rightarrow> Some (bindTypeVariables ac type1 typeVar1 type2 typeVar2 kind flags locator cs)
      | _ \<Rightarrow>
          if flags AND TMF_GenerateConstraints \<noteq> 0 then
            Some (case addTypesConstraint ac (getConstraintKind kind) type1 type2
                         (getConstraintLocator locator) cs of
                    Inl e \<Rightarrow> Inl e
                  | Inr cs' \<Rightarrow> Inr (Solved, cs'))
          else if typeVar1 \<noteq> None \<and> typeVar2 \<noteq> None then
            Some (Inr (if typeVar1 = typeVar2 then Solved else Unsolved, cs))
          else None)"

text \<open>
  The switch that decomposes parallel structure, entered when both types have the same
  kind. The left summand is a \<^verbatim>\<open>return\<close>; the right summand is the list of potential
  conversions after the switch.
\<close>

definition minKind :: "TypeMatchKind \<Rightarrow> TypeMatchKind \<Rightarrow> TypeMatchKind" where
  "minKind k1 k2 = (if rank k1 \<le> rank k2 then k1 else k2)"

definition decomposeParallelStructure ::
  "TypeChecker \<Rightarrow> matcher \<Rightarrow> Type \<Rightarrow> Type \<Rightarrow> TypeMatchKind \<Rightarrow> nat \<Rightarrow> ConstraintLocatorBuilder \<Rightarrow>
   ConstraintSystem \<Rightarrow> SolutionKind Result + ConversionRestrictionKind list"
where
  "decomposeParallelStructure tc mt type1 type2 kind flags locator cs =
     (let subFlags = flags OR TMF_GenerateConstraints;
          relationalFailure =
            Inl (Inr (Error,
              if shouldRecordFailures cs
              then recordFailure (getConstraintLocator locator) (getRelationalFailureKind kind)
                     [TypeArg type1, TypeArg type2] cs
              else cs))
      in
      if getKind type1 \<noteq> getKind type2 then Inr []
      else
        case type1 of
          BuiltinType k1 n1 \<Rightarrow>
            if type1 = type2 then Inl (Inr (Solved, cs)) else relationalFailure
        | ModuleType n1 \<Rightarrow>
            if type1 = type2 then Inl (Inr (Solved, cs)) else relationalFailure
        | ErrorType \<Rightarrow> Inl (Inr (Error, cs))
        | GenericTypeParamType d1 i1 \<Rightarrow>
            Inl (Inl (Unreachable ''unmapped dependent type in type checker''))
        | DependentMemberType b1 n1 \<Rightarrow>
            Inl (Inl (Unreachable ''unmapped dependent type in type checker''))
        | TypeVariableType v1 \<Rightarrow> Inr []
        | ArchetypeType n1 \<Rightarrow> Inr []
        | TupleType elts1 \<Rightarrow> Inr [TupleToTuple]
        | NominalType k1 decl1 parent1 \<Rightarrow>
            (case type2 of
               NominalType k2 decl2 parent2 \<Rightarrow>
                 if decl1 = decl2 then Inr [DeepEquality] else Inr []
             | _ \<Rightarrow> Inr [])
        | ProtocolType d1 \<Rightarrow> Inr []
        | MetaTypeType instance1 \<Rightarrow>
            (case type2 of
               MetaTypeType instance2 \<Rightarrow>
                 (let subKind =
                        (if kind \<noteq> SameType \<and>
                            (mayHaveSuperclass tc instance1 \<or>
                             getClassOrBoundGenericClass instance2 \<noteq> None)
                         then minKind kind Subtype else SameType)
                  in Inl (mt instance1 instance2 subKind subFlags
                            (withPathElement locator InstanceType) cs))
             | _ \<Rightarrow> Inr [])
        | FunctionType input1 result1 autoClosure1 noReturn1 \<Rightarrow>
            (case type2 of
               FunctionType input2 result2 autoClosure2 noReturn2 \<Rightarrow>
                 Inl (matchFunctionTypes mt input1 result1 autoClosure1 noReturn1
                        input2 result2 autoClosure2 noReturn2 kind flags locator cs)
             | _ \<Rightarrow> Inr [])
        | PolymorphicFunctionType i1 r1 \<Rightarrow>
            Inl (Inl (Unreachable ''Polymorphic function type should have been opened''))
        | GenericFunctionType i1 r1 \<Rightarrow>
            Inl (Inl (Unreachable ''Polymorphic function type should have been opened''))
        | ArrayType base1 size1 \<Rightarrow>
            (case type2 of
               ArrayType base2 size2 \<Rightarrow>
                 Inl (mt base1 base2 SameType subFlags
                        (withPathElement locator ArrayElementType) cs)
             | _ \<Rightarrow> Inr [])
        | ProtocolCompositionType ps1 \<Rightarrow> Inr []
        | LValueType object1 quals1 \<Rightarrow>
            (case type2 of
               LValueType object2 quals2 \<Rightarrow>
                 if quals1 \<noteq> quals2 \<and>
                    \<not> (rank kind \<ge> rank TrivialSubtype \<and> Qual_less quals1 quals2)
                 then Inl (Inr (Error,
                        if shouldRecordFailures cs
                        then recordFailure (getConstraintLocator locator) LValueQualifiers
                               [TypeArg type1, TypeArg type2] cs
                        else cs))
                 else Inl (mt object1 object2 SameType subFlags
                             (withPathElement locator ArrayElementType) cs)
             | _ \<Rightarrow> Inr [])
        | UnboundGenericType d1 \<Rightarrow>
            Inl (Inl (Unreachable ''Unbound generic type should have been opened''))
        | BoundGenericType k1 decl1 parent1 args1 \<Rightarrow>
            (case type2 of
               BoundGenericType k2 decl2 parent2 args2 \<Rightarrow>
                 if decl1 = decl2 then Inr [DeepEquality] else Inr []
             | _ \<Rightarrow> Inr []))"

text \<open>
  The collection of the potential non-structural conversions, from the switch to the
  label \<^verbatim>\<open>commit_to_conversions\<close>. The first function is the block for concrete types
  at a trivial subtype or above; its flag is the \<^verbatim>\<open>goto\<close> to the label.
\<close>

definition tuplesWithMismatchedNames :: "Type \<Rightarrow> Type \<Rightarrow> bool" where
  "tuplesWithMismatchedNames type1 type2 =
     (case (getAsTupleType type1, getAsTupleType type2) of
        (Some tuple1, Some tuple2) \<Rightarrow>
          (let scalar1 = getFieldForScalarInit tuple1;
               scalar2 = getFieldForScalarInit tuple2 in
           if scalar1 \<ge> 0 \<and> scalar2 \<ge> 0 then
             (let name1 = getName (tuple1 ! nat scalar1);
                  name2 = getName (tuple2 ! nat scalar2)
              in name1 \<noteq> [] \<and> name1 \<noteq> name2)
           else False)
      | _ \<Rightarrow> False)"

definition tupleAndSuperclassConversions ::
  "TypeChecker \<Rightarrow> Type \<Rightarrow> Type \<Rightarrow> TypeMatchKind \<Rightarrow> ConversionRestrictionKind list \<times> bool"
where
  "tupleAndSuperclassConversions tc type1 type2 kind =
     (let mismatched = tuplesWithMismatchedNames type1 type2 in
      if (case getAsTupleType type2 of
            Some tuple2 \<Rightarrow>
              \<not> mismatched \<and>
              ((length tuple2 = 1 \<and> \<not> isVararg (tuple2 ! 0)) \<or>
               (rank kind \<ge> rank Conversion \<and> getFieldForScalarInit tuple2 \<ge> 0))
          | None \<Rightarrow> False)
      then ([ScalarToTuple], True)
      else
        ((if (case getAsTupleType type1 of
                Some tuple1 \<Rightarrow> \<not> mismatched \<and> length tuple1 = 1 \<and> \<not> isVararg (tuple1 ! 0)
              | None \<Rightarrow> False)
          then [TupleToScalar] else [])
         @ (if mayHaveSuperclass tc type1 \<and> mayHaveSuperclass tc type2 \<and>
               getClassOrBoundGenericClass type2 \<noteq> None \<and>
               getClassOrBoundGenericClass type1 \<noteq> getClassOrBoundGenericClass type2
            then [Superclass] else []),
         False))"

fun isImplicitLValue :: "Type \<Rightarrow> bool" where
  "isImplicitLValue (LValueType t q) = isImplicit q"
| "isImplicitLValue t = False"

fun autoClosureResult :: "Type \<Rightarrow> Type option" where
  "autoClosureResult (FunctionType i r a n) = (if a then Some r else None)"
| "autoClosureResult t = None"

fun optionalConversions :: "Type \<Rightarrow> Type \<Rightarrow> Fatal + ConversionRestrictionKind list" where
  "optionalConversions type1 (BoundGenericType k2 decl2 parent2 args2) =
     (if decl2 = OptionalDecl then
        if length args2 \<noteq> 1
        then Inl (AssertionFailed ''boundGenericType2->getGenericArgs().size() == 1'')
        else
          case type1 of
            BoundGenericType k1 decl1 parent1 args1 \<Rightarrow>
              if decl1 = OptionalDecl then
                if length args1 \<noteq> 1
                then Inl (AssertionFailed ''boundGenericType1->getGenericArgs().size() == 1'')
                else Inr [OptionalToOptional, ValueToOptional]
              else Inr [ValueToOptional]
          | _ \<Rightarrow> Inr [ValueToOptional]
      else Inr [])"
| "optionalConversions type1 type2 = Inr []"

definition laterConversions ::
  "TypeChecker \<Rightarrow> Type \<Rightarrow> Type \<Rightarrow> bool \<Rightarrow> TypeMatchKind \<Rightarrow> Fatal + ConversionRestrictionKind list"
where
  "laterConversions tc type1 type2 concrete kind =
     (case (if concrete \<and> rank kind \<ge> rank Conversion then optionalConversions type1 type2
            else Inr []) of
        Inl e \<Rightarrow> Inl e
      | Inr optional \<Rightarrow>
          Inr ((if isExistentialType type2 \<and>
                   (rank kind \<ge> rank Conversion \<or>
                    (kind = Subtype \<and> (isExistentialType type1 \<or> isClassExistentialType tc type2)))
                then [Existential] else [])
               @ optional
               @ (if concrete \<and> rank kind \<ge> rank Conversion \<and> shouldTryUserConversion tc type1
                  then [User] else [])))"

definition nonStructuralConversions ::
  "TypeChecker \<Rightarrow> matcher \<Rightarrow> Type \<Rightarrow> Type \<Rightarrow> bool \<Rightarrow> TypeMatchKind \<Rightarrow> nat \<Rightarrow> ConstraintLocatorBuilder \<Rightarrow>
   ConversionRestrictionKind list \<Rightarrow> ConstraintSystem \<Rightarrow>
   SolutionKind Result + ConversionRestrictionKind list"
where
  "nonStructuralConversions tc mt type1 type2 concrete kind flags locator potentialConversions cs =
     (let subFlags = flags OR TMF_GenerateConstraints;
          (found, committed) =
            (if concrete \<and> rank kind \<ge> rank TrivialSubtype
             then tupleAndSuperclassConversions tc type1 type2 kind else ([], False));
          potentialConversions1 = potentialConversions @ found
      in
      if committed then Inr potentialConversions1
      else
        let potentialConversions2 =
              potentialConversions1 @
              (if concrete \<and> rank kind \<ge> rank Conversion \<and> isImplicitLValue type1
               then [LValueToRValue] else [])
        in
        case (if concrete \<and> rank kind \<ge> rank Conversion then autoClosureResult type2 else None) of
          Some result2 \<Rightarrow>
            Inl (mt type1 result2 kind subFlags (withPathElement locator Load) cs)
        | None \<Rightarrow>
            (case laterConversions tc type1 type2 concrete kind of
               Inl e \<Rightarrow> Inl (Inl e)
             | Inr later \<Rightarrow> Inr (potentialConversions2 @ later)))"

text \<open>
  Modelled from the spec: a disjunction constraint holds an ordered list of alternatives;
  one without alternatives is a fatal programmer error (section 7), and a single
  candidate is not a disjunction but the constraint itself (section 4.4).
\<close>

definition createDisjunction :: "Constraint list \<Rightarrow> ConstraintLocator option \<Rightarrow> Fatal + Constraint" where
  "createDisjunction constraints locator =
     (case constraints of
        [] \<Rightarrow> Inl (AssertionFailed ''Empty disjunction constraint'')
      | [c] \<Rightarrow> Inr c
      | _ \<Rightarrow> Inr (NestedConstraint CK_Disjunction constraints locator))"

text \<open>The matcher of one conversion restriction: the final switch of \<^verbatim>\<open>matchTypes\<close>.\<close>

definition matchRestriction ::
  "nat \<Rightarrow> TypeChecker \<Rightarrow> matcher \<Rightarrow> adder \<Rightarrow> ConversionRestrictionKind \<Rightarrow> Type \<Rightarrow> Type \<Rightarrow>
   TypeMatchKind \<Rightarrow> nat \<Rightarrow> ConstraintLocatorBuilder \<Rightarrow> ConstraintSystem \<Rightarrow> SolutionKind Result"
where
  "matchRestriction fuel tc mt ac restriction type1 type2 kind flags locator cs =
     (let subFlags = flags OR TMF_GenerateConstraints in
      case restriction of
        TupleToTuple \<Rightarrow>
          (case (type1, type2) of
             (TupleType tuple1, TupleType tuple2) \<Rightarrow>
               matchTupleTypes tc mt tuple1 tuple2 kind flags locator cs
           | _ \<Rightarrow> Inl (AssertionFailed ''castTo<TupleType>''))
      | ScalarToTuple \<Rightarrow>
          (case type2 of
             TupleType tuple2 \<Rightarrow> matchScalarToTupleTypes mt type1 tuple2 kind subFlags locator cs
           | _ \<Rightarrow> Inl (AssertionFailed ''castTo<TupleType>''))
      | TupleToScalar \<Rightarrow>
          (case type1 of
             TupleType tuple1 \<Rightarrow> matchTupleToScalarTypes mt tuple1 type2 kind subFlags locator cs
           | _ \<Rightarrow> Inl (AssertionFailed ''castTo<TupleType>''))
      | DeepEquality \<Rightarrow> matchDeepEqualityTypes mt type1 type2 locator cs
      | Superclass \<Rightarrow> matchSuperclassTypes fuel tc mt type1 type2 kind flags locator cs
      | LValueToRValue \<Rightarrow> mt (getRValueType type1) type2 kind subFlags locator cs
      | Existential \<Rightarrow> matchExistentialTypes fuel tc ac type1 type2 kind flags locator cs
      | ValueToOptional \<Rightarrow>
          (case type2 of
             BoundGenericType k2 decl2 parent2 args2 \<Rightarrow>
               if decl2 \<noteq> OptionalDecl \<or> length args2 \<noteq> 1
               then Inl (AssertionFailed ''not an optional type'')
               else mt type1 (args2 ! 0) kind subFlags locator cs
           | _ \<Rightarrow> Inl (AssertionFailed ''castTo<BoundGenericType>''))
      | OptionalToOptional \<Rightarrow>
          (case (type1, type2) of
             (BoundGenericType k1 decl1 parent1 args1, BoundGenericType k2 decl2 parent2 args2) \<Rightarrow>
               if decl1 \<noteq> OptionalDecl \<or> length args1 \<noteq> 1 \<or>
                  decl2 \<noteq> OptionalDecl \<or> length args2 \<noteq> 1
               then Inl (AssertionFailed ''not an optional type'')
               else mt (args1 ! 0) (args2 ! 0) kind subFlags locator cs
           | _ \<Rightarrow> Inl (AssertionFailed ''castTo<BoundGenericType>''))
      | User \<Rightarrow> tryUserConversion tc ac type1 CK_Subtype type2 locator cs)"

text \<open>The code at the label \<^verbatim>\<open>commit_to_conversions\<close>.\<close>

definition commitToConversions ::
  "nat \<Rightarrow> TypeChecker \<Rightarrow> matcher \<Rightarrow> adder \<Rightarrow> Type \<Rightarrow> nat option \<Rightarrow> Type \<Rightarrow> nat option \<Rightarrow>
   TypeMatchKind \<Rightarrow> nat \<Rightarrow> ConstraintLocatorBuilder \<Rightarrow> ConversionRestrictionKind list \<Rightarrow>
   ConstraintSystem \<Rightarrow> SolutionKind Result"
where
  "commitToConversions fuel tc mt ac type1 typeVar1 type2 typeVar2 kind flags locator
     potentialConversions cs =
     (if potentialConversions = [] then
        if typeVar1 \<noteq> None \<or> typeVar2 \<noteq> None then Inr (Unsolved, cs)
        else Inr (Error,
               if shouldRecordFailures cs
               then recordFailure (getConstraintLocator locator) (getRelationalFailureKind kind)
                      [TypeArg type1, TypeArg type2] cs
               else cs)
      else if length potentialConversions > 1 then
        (let fixedLocator = getConstraintLocator locator;
             constraints =
               map (\<lambda>potential.
                      TypesConstraint
                        (if potential = DeepEquality then CK_Equal else getConstraintKind kind)
                        (Some potential) type1 type2 fixedLocator)
                   potentialConversions
         in case createDisjunction constraints fixedLocator of
              Inl e \<Rightarrow> Inl e
            | Inr disjunction \<Rightarrow>
                (case ac disjunction False False cs of
                   Inl e \<Rightarrow> Inl e
                 | Inr (added, cs') \<Rightarrow> Inr (Solved, cs')))
      else
        matchRestriction fuel tc mt ac (potentialConversions ! 0) type1 type2 kind flags locator cs)"

definition matchTypes ::
  "nat \<Rightarrow> TypeChecker \<Rightarrow> matcher \<Rightarrow> adder \<Rightarrow> Type \<Rightarrow> Type \<Rightarrow> TypeMatchKind \<Rightarrow> nat \<Rightarrow>
   ConstraintLocatorBuilder \<Rightarrow> ConstraintSystem \<Rightarrow> SolutionKind Result"
where
  "matchTypes fuel tc mt ac type1_0 type2_0 kind flags locator cs =
     (case getFixedTypeRecursive fuel cs type1_0 (kind = SameType) of
        Inl e \<Rightarrow> Inl e
      | Inr (type1, typeVar1) \<Rightarrow>
     (case getFixedTypeRecursive fuel cs type2_0 (kind = SameType) of
        Inl e \<Rightarrow> Inl e
      | Inr (type2, typeVar2) \<Rightarrow>
          if type1 = type2 then Inr (Solved, cs)
          else
            case (if typeVar1 \<noteq> None \<or> typeVar2 \<noteq> None
                  then unifyTypeVariables ac type1 typeVar1 type2 typeVar2 kind flags locator cs
                  else None) of
              Some result \<Rightarrow> result
            | None \<Rightarrow>
                (let concrete = (typeVar1 = None \<and> typeVar2 = None) in
                 case decomposeParallelStructure tc mt type1 type2 kind flags locator cs of
                   Inl result \<Rightarrow> result
                 | Inr potentialConversions \<Rightarrow>
                     (case nonStructuralConversions tc mt type1 type2 concrete kind flags locator
                             potentialConversions cs of
                        Inl result \<Rightarrow> result
                      | Inr potentialConversions' \<Rightarrow>
                          commitToConversions fuel tc mt ac type1 typeVar1 type2 typeVar2 kind
                            flags locator potentialConversions' cs))))"

section \<open>The constraint simplifier\<close>

subsection \<open>Overload resolution\<close>

definition Qual_or :: "Qual \<Rightarrow> Qual \<Rightarrow> Qual" where
  "Qual_or l r = Qual (isImplicit l \<or> isImplicit r) (isNonSettable l \<or> isNonSettable r)"

definition Qual_Implicit :: Qual where
  "Qual_Implicit = Qual True False"

fun adjustLValue :: "Type \<Rightarrow> Type" where
  "adjustLValue (LValueType object quals) = LValueType object (Qual_or Qual_Implicit quals)"
| "adjustLValue t = t"

text \<open>
  \<^verbatim>\<open>adjustLValueForReference\<close>: for an assignment operator the first parameter of the
  function is an implicit inout.
\<close>

fun adjustLValueForReference :: "Type \<Rightarrow> bool \<Rightarrow> Type" where
  "adjustLValueForReference (LValueType object quals) isAssignment =
     LValueType object (Qual_or Qual_Implicit quals)"
| "adjustLValueForReference (FunctionType input result autoClosure noReturn) isAssignment =
     (if isAssignment then
        FunctionType
          (case input of
             TupleType [] \<Rightarrow> input
           | TupleType (firstParam # others) \<Rightarrow>
               TupleType (TupleTypeElt (adjustLValue (getType firstParam)) (getName firstParam)
                            (hasInit firstParam) (isVararg firstParam) # others)
           | _ \<Rightarrow> adjustLValue input)
          result autoClosure noReturn
      else FunctionType input result autoClosure noReturn)"
| "adjustLValueForReference t isAssignment = t"

text \<open>\<^verbatim>\<open>getMateralizedType\<close>: the object type of an lvalue, and of the elements of a tuple.\<close>

primrec getMateralizedType :: "Type \<Rightarrow> Type"
  and getMateralizedElt :: "TupleTypeElt \<Rightarrow> TupleTypeElt"
where
  "getMateralizedType (BuiltinType k n) = BuiltinType k n"
| "getMateralizedType (ModuleType n) = ModuleType n"
| "getMateralizedType ErrorType = ErrorType"
| "getMateralizedType (GenericTypeParamType d i) = GenericTypeParamType d i"
| "getMateralizedType (DependentMemberType b n) = DependentMemberType b n"
| "getMateralizedType (TypeVariableType v) = TypeVariableType v"
| "getMateralizedType (ArchetypeType n) = ArchetypeType n"
| "getMateralizedType (TupleType elts) = TupleType (map getMateralizedElt elts)"
| "getMateralizedType (NominalType k d p) = NominalType k d p"
| "getMateralizedType (ProtocolType d) = ProtocolType d"
| "getMateralizedType (MetaTypeType t) = MetaTypeType t"
| "getMateralizedType (FunctionType i r a n) = FunctionType i r a n"
| "getMateralizedType (PolymorphicFunctionType i r) = PolymorphicFunctionType i r"
| "getMateralizedType (GenericFunctionType i r) = GenericFunctionType i r"
| "getMateralizedType (ArrayType b n) = ArrayType b n"
| "getMateralizedType (ProtocolCompositionType ps) = ProtocolCompositionType ps"
| "getMateralizedType (LValueType t q) = t"
| "getMateralizedType (UnboundGenericType d) = UnboundGenericType d"
| "getMateralizedType (BoundGenericType k d p args) = BoundGenericType k d p args"
| "getMateralizedElt (TupleTypeElt t n i v) = TupleTypeElt (getMateralizedType t) n i v"

text \<open>
  \<^verbatim>\<open>resolveOverload\<close> computes the type of the reference that the choice stands for,
  binds the bound type to it and notes the resolved overload.
\<close>

definition resolvedReferenceType ::
  "TypeChecker \<Rightarrow> OverloadChoice \<Rightarrow> ConstraintSystem \<Rightarrow> (Type option \<times> Type) Result"
where
  "resolvedReferenceType tc choice cs =
     (case choiceKind choice of
        OCK_BaseType \<Rightarrow>
          (case getBaseType choice of
             None \<Rightarrow> Inl (AssertionFailed ''no base type'')
           | Some base \<Rightarrow> Inr ((None, base), cs))
      | OCK_TupleIndex \<Rightarrow>
          (case getBaseType choice of
             Some (LValueType (TupleType tuple) quals) \<Rightarrow>
               if getTupleIndex choice < length tuple
               then Inr ((None, LValueType (getRValueType (getType (tuple ! getTupleIndex choice)))
                                  quals), cs)
               else Inl (AssertionFailed ''Invalid index!'')
           | Some (TupleType tuple) \<Rightarrow>
               if getTupleIndex choice < length tuple
               then Inr ((None, getMateralizedType (getType (tuple ! getTupleIndex choice))), cs)
               else Inl (AssertionFailed ''Invalid index!'')
           | _ \<Rightarrow> Inl (AssertionFailed ''castTo<TupleType>''))
      | _ \<Rightarrow>
          (case getDecl choice of
             None \<Rightarrow> Inl (AssertionFailed ''no declaration'')
           | Some decl \<Rightarrow>
               (let isTypeReference = (choiceKind choice = OCK_TypeDecl);
                    isDynamicResult = (choiceKind choice = OCK_DeclViaDynamic) in
                case (case getBaseType choice of
                        Some base \<Rightarrow>
                          getTypeOfMemberReference tc base decl isTypeReference isDynamicResult cs
                      | None \<Rightarrow>
                          getTypeOfReference tc decl isTypeReference (isSpecialized choice) cs) of
                  Inl e \<Rightarrow> Inl e
                | Inr ((openedFullType, refType), cs') \<Rightarrow>
                    if isDynamicResult \<or> isOptionalAttr decl then
                      Inr ((openedFullType,
                            if declKind decl \<noteq> SubscriptDecl
                            then OptionalType_get (getRValueType refType) else refType), cs')
                    else
                      Inr ((openedFullType,
                            adjustLValueForReference refType (isAssignmentAttr decl)), cs'))))"

definition resolveOverload ::
  "TypeChecker \<Rightarrow> adder \<Rightarrow> ConstraintLocator option \<Rightarrow> Type \<Rightarrow> OverloadChoice \<Rightarrow> ConstraintSystem \<Rightarrow>
   Fatal + ConstraintSystem"
where
  "resolveOverload tc ac locator boundType choice cs =
     (case resolvedReferenceType tc choice cs of
        Inl e \<Rightarrow> Inl e
      | Inr ((openedFullType, refType), cs1) \<Rightarrow>
          (case addTypesConstraint ac CK_Bind boundType refType None cs1 of
             Inl e \<Rightarrow> Inl e
           | Inr cs2 \<Rightarrow>
               Inr (cs2\<lparr>resolvedOverloadSets :=
                          ResolvedOverloadSetListItem boundType choice locator openedFullType refType
                          # resolvedOverloadSets cs2\<rparr>)))"

definition addOverloadSet ::
  "adder \<Rightarrow> Type \<Rightarrow> OverloadChoice list \<Rightarrow> ConstraintLocator option \<Rightarrow> ConstraintSystem \<Rightarrow>
   Fatal + ConstraintSystem"
where
  "addOverloadSet ac boundType choices locator cs =
     (if choices = [] then Inl (AssertionFailed ''Empty overload set'')
      else
        case createDisjunction (map (\<lambda>choice. OverloadConstraint boundType choice locator) choices)
               locator of
          Inl e \<Rightarrow> Inl e
        | Inr disjunction \<Rightarrow>
            (case ac disjunction False False cs of
               Inl e \<Rightarrow> Inl e
             | Inr (added, cs') \<Rightarrow> Inr cs'))"

definition addBindOverloadConstraint ::
  "adder \<Rightarrow> Type \<Rightarrow> OverloadChoice \<Rightarrow> ConstraintLocator option \<Rightarrow> ConstraintSystem \<Rightarrow>
   Fatal + ConstraintSystem"
where
  "addBindOverloadConstraint ac boundTy choice locator cs =
     (case ac (OverloadConstraint boundTy choice locator) False False cs of
        Inl e \<Rightarrow> Inl e
      | Inr (added, cs') \<Rightarrow> Inr cs')"

subsection \<open>Member constraints\<close>

text \<open>
  \<^verbatim>\<open>StringRef::getAsInteger(10, unsigned &)\<close> of the support library: the whole string
  must be a non-empty sequence of decimal digits whose value fits 32 bits. The source
  reads its result as "true on failure"; here failure is \<open>None\<close>.
\<close>

definition digitValue :: "char \<Rightarrow> nat option" where
  "digitValue c =
     (if of_char CHR ''0'' \<le> (of_char c :: nat) \<and> (of_char c :: nat) \<le> of_char CHR ''9''
      then Some (of_char c - of_char CHR ''0'') else None)"

fun parseDigits :: "string \<Rightarrow> nat \<Rightarrow> nat option" where
  "parseDigits [] acc = Some acc"
| "parseDigits (c # cs) acc =
     (case digitValue c of None \<Rightarrow> None | Some d \<Rightarrow> parseDigits cs (acc * 10 + d))"

definition getAsInteger :: "string \<Rightarrow> nat option" where
  "getAsInteger str =
     (if str = [] then None
      else case parseDigits str 0 of
             None \<Rightarrow> None
           | Some v \<Rightarrow> if v < 2 ^ 32 then Some v else None)"

text \<open>
  \<^verbatim>\<open>involvesAssociatedTypes\<close>: whether the signature of a protocol member mentions an
  archetype with a parent or a self protocol.
\<close>

primrec findArchetype :: "(string \<Rightarrow> bool) \<Rightarrow> Type \<Rightarrow> bool"
  and findArchetypeElt :: "(string \<Rightarrow> bool) \<Rightarrow> TupleTypeElt \<Rightarrow> bool"
where
  "findArchetype P (BuiltinType k n) = False"
| "findArchetype P (ModuleType n) = False"
| "findArchetype P ErrorType = False"
| "findArchetype P (GenericTypeParamType d i) = False"
| "findArchetype P (DependentMemberType b n) = findArchetype P b"
| "findArchetype P (TypeVariableType v) = False"
| "findArchetype P (ArchetypeType n) = P n"
| "findArchetype P (TupleType elts) = list_ex id (map (findArchetypeElt P) elts)"
| "findArchetype P (NominalType k d p) = (case map_option (findArchetype P) p of Some b \<Rightarrow> b | None \<Rightarrow> False)"
| "findArchetype P (ProtocolType d) = False"
| "findArchetype P (MetaTypeType t) = findArchetype P t"
| "findArchetype P (FunctionType i r a n) = (findArchetype P i \<or> findArchetype P r)"
| "findArchetype P (PolymorphicFunctionType i r) = (findArchetype P i \<or> findArchetype P r)"
| "findArchetype P (GenericFunctionType i r) = (findArchetype P i \<or> findArchetype P r)"
| "findArchetype P (ArrayType b n) = findArchetype P b"
| "findArchetype P (ProtocolCompositionType ps) = list_ex id (map (findArchetype P) ps)"
| "findArchetype P (LValueType t q) = findArchetype P t"
| "findArchetype P (UnboundGenericType d) = False"
| "findArchetype P (BoundGenericType k d p args) =
     ((case map_option (findArchetype P) p of Some b \<Rightarrow> b | None \<Rightarrow> False)
      \<or> list_ex id (map (findArchetype P) args))"
| "findArchetypeElt P (TupleTypeElt t n i v) = findArchetype P t"

definition involvesAssociatedTypes :: "TypeChecker \<Rightarrow> ValueDecl \<Rightarrow> Fatal + bool" where
  "involvesAssociatedTypes tc decl =
     (if declKind decl = FuncDecl \<or> declKind decl = ConstructorDecl then
        (case declType decl of
           FunctionType i r a n \<Rightarrow> Inr (findArchetype (archetypeHasParentOrSelfProtocol tc) r)
         | PolymorphicFunctionType i r \<Rightarrow> Inr (findArchetype (archetypeHasParentOrSelfProtocol tc) r)
         | GenericFunctionType i r \<Rightarrow> Inr (findArchetype (archetypeHasParentOrSelfProtocol tc) r)
         | _ \<Rightarrow> Inl (AssertionFailed ''castTo<AnyFunctionType>''))
      else Inr (findArchetype (archetypeHasParentOrSelfProtocol tc) (declType decl)))"

text \<open>The three loops of \<^verbatim>\<open>simplifyMemberConstraint\<close> that collect the overload choices.\<close>

fun constructorChoices ::
  "TypeChecker \<Rightarrow> Type \<Rightarrow> bool \<Rightarrow> ValueDecl list \<Rightarrow> Fatal + OverloadChoice list"
where
  "constructorChoices tc baseTy isExistential [] = Inr []"
| "constructorChoices tc baseTy isExistential (constructor # rest) =
     (case constructorChoices tc baseTy isExistential rest of
        Inl e \<Rightarrow> Inl e
      | Inr choices \<Rightarrow>
          if isInvalid constructor then Inr choices
          else if \<not> isExistential then Inr (OverloadChoice_Decl baseTy constructor False # choices)
          else
            case involvesAssociatedTypes tc constructor of
              Inl e \<Rightarrow> Inl e
            | Inr True \<Rightarrow> Inr choices
            | Inr False \<Rightarrow> Inr (OverloadChoice_Decl baseTy constructor False # choices))"

fun typeMemberChoices :: "Type \<Rightarrow> (ValueDecl \<times> Type) list \<Rightarrow> OverloadChoice list" where
  "typeMemberChoices baseTy [] = []"
| "typeMemberChoices baseTy (result # rest) =
     (if isInvalid (fst result) then typeMemberChoices baseTy rest
      else OverloadChoice_TypeDecl baseTy (fst result) False # typeMemberChoices baseTy rest)"

fun isModuleType :: "Type \<Rightarrow> bool" where
  "isModuleType (ModuleType n) = True"
| "isModuleType t = False"

fun memberChoices ::
  "TypeChecker \<Rightarrow> Type \<Rightarrow> Type \<Rightarrow> bool \<Rightarrow> bool \<Rightarrow> bool \<Rightarrow> ValueDecl list \<Rightarrow>
   Fatal + OverloadChoice list"
where
  "memberChoices tc baseTy baseObjTy isExistential isMetatype isDynamicLookup [] = Inr []"
| "memberChoices tc baseTy baseObjTy isExistential isMetatype isDynamicLookup (result # rest) =
     (case memberChoices tc baseTy baseObjTy isExistential isMetatype isDynamicLookup rest of
        Inl e \<Rightarrow> Inl e
      | Inr choices \<Rightarrow>
          if isInvalid result then Inr choices
          else
            case (if isExistential then involvesAssociatedTypes tc result else Inr False) of
              Inl e \<Rightarrow> Inl e
            | Inr True \<Rightarrow> Inr choices
            | Inr False \<Rightarrow>
                if isMetatype \<and> \<not> (declKind result = FuncDecl \<or> \<not> isInstanceMember result)
                then Inr choices
                else if \<not> isMetatype \<and> \<not> isModuleType baseObjTy \<and> \<not> isInstanceMember result
                then Inr choices
                else if isDynamicLookup \<and> isMetatype \<and> isInstanceMember result
                then Inr choices
                else if isDynamicLookup then Inr (getDeclViaDynamic baseTy result # choices)
                else Inr (OverloadChoice_Decl baseTy result False # choices))"

definition doesNotHaveMember ::
  "ConstraintLocator option \<Rightarrow> Type \<Rightarrow> string \<Rightarrow> ConstraintSystem \<Rightarrow> SolutionKind Result"
where
  "doesNotHaveMember locator baseObjTy name cs =
     Inr (Error, recordFailure locator DoesNotHaveMember [TypeArg baseObjTy, NameArg name] cs)"

definition solvedWith :: "Fatal + ConstraintSystem \<Rightarrow> SolutionKind Result" where
  "solvedWith r = (case r of Inl e \<Rightarrow> Inl e | Inr cs \<Rightarrow> Inr (Solved, cs))"

definition simplifyMemberConstraint ::
  "TypeChecker \<Rightarrow> adder \<Rightarrow> ConstraintKind \<Rightarrow> Type \<Rightarrow> Type \<Rightarrow> string \<Rightarrow> ConstraintLocator option \<Rightarrow>
   ConstraintSystem \<Rightarrow> SolutionKind Result"
where
  "simplifyMemberConstraint tc ac kind firstType memberTy name locator cs =
     (let baseTy = simplifyType cs firstType;
          baseObjTy = getRValueType baseTy;
          isMetatype = (case baseObjTy of MetaTypeType t \<Rightarrow> True | _ \<Rightarrow> False);
          instanceTy = (case baseObjTy of MetaTypeType t \<Rightarrow> t | _ \<Rightarrow> baseObjTy)
      in
      if isTypeVariable instanceTy then Inr (Unsolved, cs)
      else
        case getAsTupleType baseObjTy of
          Some baseTuple \<Rightarrow>
            (let fieldIdx =
                   (case getAsInteger name of
                      Some v \<Rightarrow> if v < length baseTuple then int v
                                else getNamedElementId baseTuple name
                    | None \<Rightarrow> getNamedElementId baseTuple name)
             in if fieldIdx = -1 then doesNotHaveMember locator baseObjTy name cs
                else solvedWith (addBindOverloadConstraint ac memberTy
                       (OverloadChoice_TupleIndex baseTy (nat fieldIdx)) locator cs))
        | None \<Rightarrow>
            (let isExistential = isExistentialType instanceTy in
             if name = ''init'' then
               (let ctors = lookupConstructors tc baseObjTy in
                if ctors = [] then doesNotHaveMember locator baseObjTy name cs
                else
                  case constructorChoices tc baseTy isExistential ctors of
                    Inl e \<Rightarrow> Inl e
                  | Inr choices \<Rightarrow>
                      if choices = [] then doesNotHaveMember locator baseObjTy name cs
                      else solvedWith (addOverloadSet ac memberTy choices locator cs))
             else if kind = CK_TypeMember then
               (let lookup = lookupMemberType tc baseObjTy name in
                if lookup = [] then doesNotHaveMember locator baseObjTy name cs
                else solvedWith (addOverloadSet ac memberTy (typeMemberChoices baseTy lookup)
                                   locator cs))
             else
               (let lookup = lookupMember tc baseObjTy name in
                if lookup = [] then
                  (case getAsInteger name of
                     Some index \<Rightarrow>
                       if index = 0
                       then solvedWith (addBindOverloadConstraint ac memberTy
                              (OverloadChoice_Kind baseTy OCK_BaseType) locator cs)
                       else doesNotHaveMember locator baseObjTy name cs
                   | None \<Rightarrow> doesNotHaveMember locator baseObjTy name cs)
                else
                  (let isDynamicLookup =
                         (case instanceTy of
                            ProtocolType d \<Rightarrow> isDynamicLookupProtocol tc d
                          | _ \<Rightarrow> False)
                   in case memberChoices tc baseTy baseObjTy isExistential isMetatype
                             isDynamicLookup lookup of
                        Inl e \<Rightarrow> Inl e
                      | Inr choices \<Rightarrow>
                          if choices = [] then doesNotHaveMember locator baseObjTy name cs
                          else solvedWith (addOverloadSet ac memberTy choices locator cs)))))"

subsection \<open>\<^verbatim>\<open>simplifyConstraint\<close> and \<^verbatim>\<open>addConstraint\<close>\<close>

fun isRelational :: "ConstraintKind \<Rightarrow> bool" where
  "isRelational CK_Bind = True"
| "isRelational CK_Equal = True"
| "isRelational CK_TrivialSubtype = True"
| "isRelational CK_Subtype = True"
| "isRelational CK_Conversion = True"
| "isRelational k = False"

text \<open>\<^verbatim>\<open>getTypeMatchKind\<close>; every kind that is not relational is \<^verbatim>\<open>llvm_unreachable\<close>.\<close>

fun getTypeMatchKind :: "ConstraintKind \<Rightarrow> Fatal + TypeMatchKind" where
  "getTypeMatchKind CK_Bind = Inr BindType"
| "getTypeMatchKind CK_Equal = Inr SameType"
| "getTypeMatchKind CK_TrivialSubtype = Inr TrivialSubtype"
| "getTypeMatchKind CK_Subtype = Inr Subtype"
| "getTypeMatchKind CK_Conversion = Inr Conversion"
| "getTypeMatchKind k = Inl (Unreachable ''constraints of this kind do not involve type matches'')"

text \<open>
  The switch of \<^verbatim>\<open>simplifyConstraint\<close> on the restriction of a relational constraint.
  The left summand is the \<^verbatim>\<open>return\<close> of the deep-equality case, the right summand the
  \<open>result\<close> the other cases assign before they \<^verbatim>\<open>break\<close>.
\<close>

definition applyRestriction ::
  "nat \<Rightarrow> TypeChecker \<Rightarrow> matcher \<Rightarrow> adder \<Rightarrow> ConstraintKind \<Rightarrow> ConversionRestrictionKind \<Rightarrow> Type \<Rightarrow>
   Type \<Rightarrow> TypeMatchKind \<Rightarrow> ConstraintLocator option \<Rightarrow> ConstraintSystem \<Rightarrow>
   SolutionKind Result + SolutionKind Result"
where
  "applyRestriction fuel tc mt ac ckind restriction firstType secondType matchKind locator cs =
     (case restriction of
        TupleToTuple \<Rightarrow>
          Inr (case (firstType, secondType) of
                 (TupleType tuple1, TupleType tuple2) \<Rightarrow>
                   matchTupleTypes tc mt tuple1 tuple2 matchKind TMF_GenerateConstraints
                     (locatorBuilder locator) cs
               | _ \<Rightarrow> Inl (AssertionFailed ''castTo<TupleType>''))
      | ScalarToTuple \<Rightarrow>
          Inr (case secondType of
                 TupleType tuple2 \<Rightarrow>
                   matchScalarToTupleTypes mt firstType tuple2 matchKind TMF_GenerateConstraints
                     (locatorBuilder locator) cs
               | _ \<Rightarrow> Inl (AssertionFailed ''castTo<TupleType>''))
      | TupleToScalar \<Rightarrow>
          Inr (case firstType of
                 TupleType tuple1 \<Rightarrow>
                   matchTupleToScalarTypes mt tuple1 secondType matchKind TMF_GenerateConstraints
                     (locatorBuilder locator) cs
               | _ \<Rightarrow> Inl (AssertionFailed ''castTo<TupleType>''))
      | DeepEquality \<Rightarrow>
          Inl (matchDeepEqualityTypes mt firstType secondType (locatorBuilder locator) cs)
      | Superclass \<Rightarrow>
          Inr (matchSuperclassTypes fuel tc mt firstType secondType matchKind
                 TMF_GenerateConstraints (locatorBuilder locator) cs)
      | LValueToRValue \<Rightarrow>
          Inr (mt (getRValueType firstType) secondType matchKind TMF_GenerateConstraints
                 (locatorBuilder locator) cs)
      | Existential \<Rightarrow>
          Inr (matchExistentialTypes fuel tc ac firstType secondType matchKind
                 TMF_GenerateConstraints (locatorBuilder locator) cs)
      | ValueToOptional \<Rightarrow>
          Inr (case secondType of
                 BoundGenericType k2 decl2 parent2 args2 \<Rightarrow>
                   if decl2 \<noteq> OptionalDecl then Inl (AssertionFailed ''not an optional type'')
                   else if args2 = [] then Inl (AssertionFailed ''Invalid index!'')
                   else mt firstType (args2 ! 0) matchKind TMF_GenerateConstraints
                          (locatorBuilder locator) cs
               | _ \<Rightarrow> Inl (AssertionFailed ''castTo<BoundGenericType>''))
      | OptionalToOptional \<Rightarrow>
          Inr (case (firstType, secondType) of
                 (BoundGenericType k1 decl1 parent1 args1, BoundGenericType k2 decl2 parent2 args2) \<Rightarrow>
                   if decl1 \<noteq> OptionalDecl \<or> decl2 \<noteq> OptionalDecl
                   then Inl (AssertionFailed ''not an optional type'')
                   else if args1 = [] \<or> args2 = [] then Inl (AssertionFailed ''Invalid index!'')
                   else mt (args1 ! 0) (args2 ! 0) matchKind TMF_GenerateConstraints
                          (locatorBuilder locator) cs
               | _ \<Rightarrow> Inl (AssertionFailed ''castTo<BoundGenericType>''))
      | User \<Rightarrow>
          Inr (if ckind \<noteq> CK_Conversion
               then Inl (AssertionFailed ''constraint.getKind() == ConstraintKind::Conversion'')
               else tryUserConversion tc ac firstType CK_Subtype secondType
                      (locatorBuilder locator) cs))"

text \<open>The tail of the restricted case: if something was solved, record what was done.\<close>

definition recordRestriction ::
  "ConstraintKind \<Rightarrow> ConversionRestrictionKind \<Rightarrow> Type \<Rightarrow> Type \<Rightarrow> SolutionKind Result \<Rightarrow>
   SolutionKind Result"
where
  "recordRestriction ckind restriction firstType secondType result =
     (case result of
        Inl e \<Rightarrow> Inl e
      | Inr (Error, cs) \<Rightarrow> Inr (Error, cs)
      | Inr (Unsolved, cs) \<Rightarrow> Inr (Unsolved, cs)
      | Inr (Solved, cs) \<Rightarrow>
          (case solverState cs of
             None \<Rightarrow> Inl (AssertionFailed ''Can't record restriction without solver state'')
           | Some st \<Rightarrow>
               if ckind = CK_Conversion then
                 Inr (Solved,
                   cs\<lparr>solverState :=
                        Some (st\<lparr>constraintRestrictions :=
                                   constraintRestrictions st @ [(firstType, secondType, restriction)]\<rparr>)\<rparr>)
               else Inr (Solved, cs)))"

text \<open>The loop of the conjunction case.\<close>

fun addNestedConstraints :: "adder \<Rightarrow> Constraint list \<Rightarrow> ConstraintSystem \<Rightarrow> SolutionKind Result" where
  "addNestedConstraints ac [] cs = Inr (Solved, cs)"
| "addNestedConstraints ac (con # rest) cs =
     (case ac con False False cs of
        Inl e \<Rightarrow> Inl e
      | Inr (added, cs') \<Rightarrow>
          if failedConstraint cs' \<noteq> None then Inr (Error, cs')
          else addNestedConstraints ac rest cs')"

text \<open>
  \<^verbatim>\<open>simplifyConstraint\<close>. The simplifiers of the construction, checked-cast,
  applicable-function and type-property constraints are the parameter
  \<open>simplifyOtherConstraint\<close>. A constraint whose shape does not fit its kind cannot be
  built in the source.
\<close>

definition simplifyConstraint ::
  "nat \<Rightarrow> TypeChecker \<Rightarrow> matcher \<Rightarrow> adder \<Rightarrow> Constraint \<Rightarrow> ConstraintSystem \<Rightarrow> SolutionKind Result"
where
  "simplifyConstraint fuel tc mt ac constraint cs =
     (case constraint of
        TypesConstraint kind restriction firstType secondType locator \<Rightarrow>
          if isRelational kind then
            (case getTypeMatchKind kind of
               Inl e \<Rightarrow> Inl e
             | Inr matchKind \<Rightarrow>
                 (case restriction of
                    Some r \<Rightarrow>
                      (case applyRestriction fuel tc mt ac kind r firstType secondType matchKind
                              locator cs of
                         Inl returned \<Rightarrow> returned
                       | Inr result \<Rightarrow> recordRestriction kind r firstType secondType result)
                  | None \<Rightarrow>
                      mt firstType secondType matchKind TMF_None (locatorBuilder locator) cs))
          else if kind = CK_ConformsTo \<or> kind = CK_SelfObjectOfProtocol then
            (case secondType of
               ProtocolType protocol \<Rightarrow>
                 simplifyConformsToConstraint fuel tc firstType protocol (locatorBuilder locator)
                   (kind = CK_SelfObjectOfProtocol) cs
             | _ \<Rightarrow> Inl (AssertionFailed ''castTo<ProtocolType>''))
          else if kind \<in> {CK_Construction, CK_CheckedCast, CK_ApplicableFunction, CK_Archetype,
                          CK_Class, CK_DynamicLookupValue}
          then simplifyOtherConstraint tc constraint cs
          else Inl (Unreachable ''constraint kind without two types'')
      | MemberConstraint kind firstType secondType name locator \<Rightarrow>
          if kind = CK_ValueMember \<or> kind = CK_TypeMember
          then simplifyMemberConstraint tc ac kind firstType secondType name locator cs
          else Inl (Unreachable ''member constraint of another kind'')
      | OverloadConstraint boundType choice locator \<Rightarrow>
          solvedWith (resolveOverload tc ac locator boundType choice cs)
      | NestedConstraint kind nested locator \<Rightarrow>
          if kind = CK_Conjunction then addNestedConstraints ac nested cs
          else if kind = CK_Disjunction then Inr (Unsolved, cs)
          else Inl (Unreachable ''nested constraints of another kind''))"

text \<open>\<^verbatim>\<open>addConstraint\<close> simplifies the constraint and files it by the result.\<close>

definition noteGenerated :: "bool \<Rightarrow> Constraint \<Rightarrow> SolverState \<Rightarrow> SolverState" where
  "noteGenerated simplifyExisting constraint st =
     (case generatedConstraints st of
        Some generated \<Rightarrow>
          if \<not> simplifyExisting then st\<lparr>generatedConstraints := Some (generated @ [constraint])\<rparr>
          else st
      | None \<Rightarrow> st)"

definition retire :: "bool \<Rightarrow> Constraint \<Rightarrow> ConstraintSystem \<Rightarrow> ConstraintSystem" where
  "retire simplifyExisting constraint cs =
     (case solverState cs of
        Some st \<Rightarrow>
          cs\<lparr>solverState :=
               Some (noteGenerated simplifyExisting constraint
                       (st\<lparr>retiredConstraints := constraint # retiredConstraints st\<rparr>))\<rparr>
      | None \<Rightarrow> cs)"

definition addConstraint ::
  "nat \<Rightarrow> TypeChecker \<Rightarrow> matcher \<Rightarrow> adder \<Rightarrow> Constraint \<Rightarrow> bool \<Rightarrow> bool \<Rightarrow> ConstraintSystem \<Rightarrow>
   bool Result"
where
  "addConstraint fuel tc mt ac constraint isExternallySolved simplifyExisting cs =
     (case simplifyConstraint fuel tc mt ac constraint cs of
        Inl e \<Rightarrow> Inl e
      | Inr (Error, cs') \<Rightarrow>
          Inr (False,
            retire simplifyExisting constraint
              (if failedConstraint cs' = None then cs'\<lparr>failedConstraint := Some constraint\<rparr>
               else cs'))
      | Inr (Solved, cs') \<Rightarrow> Inr (True, retire simplifyExisting constraint cs')
      | Inr (Unsolved, cs') \<Rightarrow>
          Inr (False,
            (let cs'' = (if \<not> isExternallySolved
                         then cs'\<lparr>Constraints := Constraints cs' @ [constraint]\<rparr> else cs')
             in case solverState cs'' of
                  Some st \<Rightarrow> cs''\<lparr>solverState := Some (noteGenerated simplifyExisting constraint st)\<rparr>
                | None \<Rightarrow> cs'')))"

subsection \<open>Tying the knot\<close>

text \<open>
  \<open>solver tc n\<close> is the pair of \<^verbatim>\<open>matchTypes\<close> and \<^verbatim>\<open>addConstraint\<close> that can nest
  their calls \<open>n\<close> deep; a deeper computation is \<open>Inl OutOfFuel\<close>.
\<close>

primrec solver :: "TypeChecker \<Rightarrow> nat \<Rightarrow> matcher \<times> adder" where
  "solver tc 0 =
     ((\<lambda>type1 type2 kind flags locator cs. Inl OutOfFuel),
      (\<lambda>constraint isExternallySolved simplifyExisting cs. Inl OutOfFuel))"
| "solver tc (Suc n) =
     (matchTypes n tc (fst (solver tc n)) (snd (solver tc n)),
      addConstraint n tc (fst (solver tc n)) (snd (solver tc n)))"

definition matchTypesN :: "TypeChecker \<Rightarrow> nat \<Rightarrow> matcher" where
  "matchTypesN tc n = fst (solver tc n)"

definition addConstraintN :: "TypeChecker \<Rightarrow> nat \<Rightarrow> adder" where
  "addConstraintN tc n = snd (solver tc n)"

definition simplifyConstraintN ::
  "TypeChecker \<Rightarrow> nat \<Rightarrow> Constraint \<Rightarrow> ConstraintSystem \<Rightarrow> SolutionKind Result"
where
  "simplifyConstraintN tc n constraint cs =
     simplifyConstraint n tc (matchTypesN tc n) (addConstraintN tc n) constraint cs"

section \<open>Ranking solutions\<close>

text \<open>
  Modelled from the spec, section 3: a solution is a completed assignment, with the map
  from type variables to types, the map from locators to the chosen overloads (both as
  association lists) and the accumulated score.
\<close>

record Solution =
  typeBindings :: "(nat \<times> Type) list"
  overloadChoices :: "(ConstraintLocator \<times> OverloadChoice) list"
  getFixedScore :: int

record SolutionDiff =
  overloadDiffs :: "(ConstraintLocator \<times> OverloadChoice list) list"
  typeBindingDiffs :: "(nat \<times> Type list) list"

datatype SolutionCompareResult = Identical | Better | Worse | Incomparable

text \<open>
  \<^verbatim>\<open>stripInitializers\<close> removes the initializers from any tuple type within the given
  type. Modelled from the spec: \<^verbatim>\<open>transformType\<close>, which walks the type, is taken as the
  map over every type within the type.
\<close>

primrec stripInitializers :: "Type \<Rightarrow> Type"
  and stripInitializersElt :: "TupleTypeElt \<Rightarrow> TupleTypeElt"
where
  "stripInitializers (BuiltinType k n) = BuiltinType k n"
| "stripInitializers (ModuleType n) = ModuleType n"
| "stripInitializers ErrorType = ErrorType"
| "stripInitializers (GenericTypeParamType d i) = GenericTypeParamType d i"
| "stripInitializers (DependentMemberType b n) = DependentMemberType (stripInitializers b) n"
| "stripInitializers (TypeVariableType v) = TypeVariableType v"
| "stripInitializers (ArchetypeType n) = ArchetypeType n"
| "stripInitializers (TupleType elts) = TupleType (map stripInitializersElt elts)"
| "stripInitializers (NominalType k d p) = NominalType k d (map_option stripInitializers p)"
| "stripInitializers (ProtocolType d) = ProtocolType d"
| "stripInitializers (MetaTypeType t) = MetaTypeType (stripInitializers t)"
| "stripInitializers (FunctionType i r a n) =
     FunctionType (stripInitializers i) (stripInitializers r) a n"
| "stripInitializers (PolymorphicFunctionType i r) =
     PolymorphicFunctionType (stripInitializers i) (stripInitializers r)"
| "stripInitializers (GenericFunctionType i r) =
     GenericFunctionType (stripInitializers i) (stripInitializers r)"
| "stripInitializers (ArrayType b n) = ArrayType (stripInitializers b) n"
| "stripInitializers (ProtocolCompositionType ps) = ProtocolCompositionType (map stripInitializers ps)"
| "stripInitializers (LValueType t q) = LValueType (stripInitializers t) q"
| "stripInitializers (UnboundGenericType d) = UnboundGenericType d"
| "stripInitializers (BoundGenericType k d p args) =
     BoundGenericType k d (map_option stripInitializers p) (map stripInitializers args)"
| "stripInitializersElt (TupleTypeElt t n i v) = TupleTypeElt (stripInitializers t) n False v"

text \<open>
  Modelled from the spec, section 4.7: the unlabeled form of a type (its tuples without
  element names) and whether a type still contains a type variable.
\<close>

primrec getUnlabeledType :: "Type \<Rightarrow> Type"
  and getUnlabeledElt :: "TupleTypeElt \<Rightarrow> TupleTypeElt"
where
  "getUnlabeledType (BuiltinType k n) = BuiltinType k n"
| "getUnlabeledType (ModuleType n) = ModuleType n"
| "getUnlabeledType ErrorType = ErrorType"
| "getUnlabeledType (GenericTypeParamType d i) = GenericTypeParamType d i"
| "getUnlabeledType (DependentMemberType b n) = DependentMemberType (getUnlabeledType b) n"
| "getUnlabeledType (TypeVariableType v) = TypeVariableType v"
| "getUnlabeledType (ArchetypeType n) = ArchetypeType n"
| "getUnlabeledType (TupleType elts) = TupleType (map getUnlabeledElt elts)"
| "getUnlabeledType (NominalType k d p) = NominalType k d (map_option getUnlabeledType p)"
| "getUnlabeledType (ProtocolType d) = ProtocolType d"
| "getUnlabeledType (MetaTypeType t) = MetaTypeType (getUnlabeledType t)"
| "getUnlabeledType (FunctionType i r a n) =
     FunctionType (getUnlabeledType i) (getUnlabeledType r) a n"
| "getUnlabeledType (PolymorphicFunctionType i r) = PolymorphicFunctionType i r"
| "getUnlabeledType (GenericFunctionType i r) = GenericFunctionType i r"
| "getUnlabeledType (ArrayType b n) = ArrayType (getUnlabeledType b) n"
| "getUnlabeledType (ProtocolCompositionType ps) = ProtocolCompositionType (map getUnlabeledType ps)"
| "getUnlabeledType (LValueType t q) = LValueType (getUnlabeledType t) q"
| "getUnlabeledType (UnboundGenericType d) = UnboundGenericType d"
| "getUnlabeledType (BoundGenericType k d p args) =
     BoundGenericType k d (map_option getUnlabeledType p) (map getUnlabeledType args)"
| "getUnlabeledElt (TupleTypeElt t n i v) = TupleTypeElt (getUnlabeledType t) [] i v"

primrec hasTypeVariable :: "Type \<Rightarrow> bool"
  and hasTypeVariableElt :: "TupleTypeElt \<Rightarrow> bool"
where
  "hasTypeVariable (BuiltinType k n) = False"
| "hasTypeVariable (ModuleType n) = False"
| "hasTypeVariable ErrorType = False"
| "hasTypeVariable (GenericTypeParamType d i) = False"
| "hasTypeVariable (DependentMemberType b n) = hasTypeVariable b"
| "hasTypeVariable (TypeVariableType v) = True"
| "hasTypeVariable (ArchetypeType n) = False"
| "hasTypeVariable (TupleType elts) = list_ex id (map hasTypeVariableElt elts)"
| "hasTypeVariable (NominalType k d p) =
     (case map_option hasTypeVariable p of Some b \<Rightarrow> b | None \<Rightarrow> False)"
| "hasTypeVariable (ProtocolType d) = False"
| "hasTypeVariable (MetaTypeType t) = hasTypeVariable t"
| "hasTypeVariable (FunctionType i r a n) = (hasTypeVariable i \<or> hasTypeVariable r)"
| "hasTypeVariable (PolymorphicFunctionType i r) = (hasTypeVariable i \<or> hasTypeVariable r)"
| "hasTypeVariable (GenericFunctionType i r) = (hasTypeVariable i \<or> hasTypeVariable r)"
| "hasTypeVariable (ArrayType b n) = hasTypeVariable b"
| "hasTypeVariable (ProtocolCompositionType ps) = list_ex id (map hasTypeVariable ps)"
| "hasTypeVariable (LValueType t q) = hasTypeVariable t"
| "hasTypeVariable (UnboundGenericType d) = False"
| "hasTypeVariable (BoundGenericType k d p args) =
     ((case map_option hasTypeVariable p of Some b \<Rightarrow> b | None \<Rightarrow> False)
      \<or> list_ex id (map hasTypeVariable args))"
| "hasTypeVariableElt (TupleTypeElt t n i v) = hasTypeVariable t"

definition sameDecl :: "ValueDecl \<Rightarrow> ValueDecl \<Rightarrow> bool" where
  "sameDecl decl1 decl2 =
     (if decl1 = decl2 then True
      else if declKind decl1 = TypeDecl \<and> declKind decl2 = TypeDecl then True
      else False)"

definition sameOverloadChoice :: "OverloadChoice \<Rightarrow> OverloadChoice \<Rightarrow> bool" where
  "sameOverloadChoice x y =
     (if choiceKind x \<noteq> choiceKind y then False
      else case choiceKind x of
             OCK_BaseType \<Rightarrow> True
           | OCK_TupleIndex \<Rightarrow> getTupleIndex x = getTupleIndex y
           | _ \<Rightarrow>
               (case (getDecl x, getDecl y) of
                  (Some d1, Some d2) \<Rightarrow> sameDecl d1 d2
                | _ \<Rightarrow> False))"

text \<open>
  The constructor of \<^verbatim>\<open>SolutionDiff\<close>: the type variables and the overload locators that
  all solutions have, with the bindings and the choices of every solution, kept when
  they differ. The maps of the source are walked in the order of the first solution.
  An overload set is added once for every choice that differs from the first.
\<close>

fun commonEntries :: "('k \<times> 'v list) list \<Rightarrow> ('k \<times> 'v) list list \<Rightarrow> ('k \<times> 'v list) list" where
  "commonEntries entries [] = entries"
| "commonEntries entries (solution # rest) =
     commonEntries
       (concat (map (\<lambda>(key, vals). case map_of solution key of
                                      None \<Rightarrow> []
                                    | Some v \<Rightarrow> [(key, vals @ [v])]) entries))
       rest"

definition makeSolutionDiff :: "Solution list \<Rightarrow> SolutionDiff" where
  "makeSolutionDiff solutions =
     (if length solutions \<le> 1 then \<lparr>overloadDiffs = [], typeBindingDiffs = []\<rparr>
      else
        let bindings =
              commonEntries (map (\<lambda>(v, t). (v, [t])) (typeBindings (solutions ! 0)))
                (map typeBindings (tl solutions));
            choices =
              commonEntries (map (\<lambda>(l, c). (l, [c])) (overloadChoices (solutions ! 0)))
                (map overloadChoices (tl solutions))
        in \<lparr>overloadDiffs =
              concat (map (\<lambda>(l, cs). map (\<lambda>c. (l, cs))
                                        (filter (\<lambda>c. \<not> sameOverloadChoice (cs ! 0) c) cs))
                          choices),
            typeBindingDiffs =
              filter (\<lambda>(v, ts). list_ex (\<lambda>t. t \<noteq> ts ! 0) ts) bindings\<rparr>)"

text \<open>
  The body of the first loop of \<^verbatim>\<open>compareSolutions\<close>, on the choices of the two
  solutions at one overload set. The state is \<open>(identical, score1, score2)\<close>.
\<close>

definition compareOverload ::
  "TypeChecker \<Rightarrow> OverloadChoice \<Rightarrow> OverloadChoice \<Rightarrow> bool \<times> int \<times> int \<Rightarrow> Fatal + (bool \<times> int \<times> int)"
where
  "compareOverload tc choice1 choice2 state =
     (case state of (identical, score1, score2) \<Rightarrow>
      if sameOverloadChoice choice1 choice2 then Inr (identical, score1, score2)
      else if choiceKind choice1 \<noteq> choiceKind choice2 then
        (if choiceKind choice1 = OCK_Decl \<and> choiceKind choice2 = OCK_DeclViaDynamic
         then Inr (False, score1 + 1, score2)
         else if choiceKind choice1 = OCK_DeclViaDynamic \<and> choiceKind choice2 = OCK_Decl
         then Inr (False, score1, score2 + 1)
         else Inr (False, score1, score2))
      else
        case choiceKind choice1 of
          OCK_TupleIndex \<Rightarrow> Inr (False, score1, score2)
        | OCK_BaseType \<Rightarrow> Inl (Unreachable ''Never considered different'')
        | OCK_TypeDecl \<Rightarrow> Inr (False, score1, score2)
        | _ \<Rightarrow>
            (case (getDecl choice1, getDecl choice2) of
               (Some decl1, Some decl2) \<Rightarrow>
                 (let score1a = (if isDeclAsSpecializedAs tc decl1 decl2 then score1 + 1 else score1);
                      score2a = (if isDeclAsSpecializedAs tc decl2 decl1 then score2 + 1 else score2)
                  in
                  if hasClangNode decl1 \<and> hasClangNode decl2 \<and>
                     ((declKind decl1 = TypeDecl \<and> isaAbstractFunctionDecl decl2) \<or>
                      (isaAbstractFunctionDecl decl1 \<and> declKind decl2 = TypeDecl))
                  then (if declKind decl1 = TypeDecl then Inr (False, score1a, score2a + 1)
                        else Inr (False, score1a + 1, score2a))
                  else Inr (False, score1a, score2a))
             | _ \<Rightarrow> Inl (AssertionFailed ''no declaration'')))"

fun compareOverloads ::
  "TypeChecker \<Rightarrow> (ConstraintLocator \<times> OverloadChoice list) list \<Rightarrow> nat \<Rightarrow> nat \<Rightarrow> bool \<times> int \<times> int \<Rightarrow>
   Fatal + (bool \<times> int \<times> int)"
where
  "compareOverloads tc [] idx1 idx2 state = Inr state"
| "compareOverloads tc (overload # rest) idx1 idx2 state =
     (if \<not> (idx1 < length (snd overload) \<and> idx2 < length (snd overload))
      then Inl (AssertionFailed ''Invalid index!'')
      else
        case compareOverload tc (snd overload ! idx1) (snd overload ! idx2) state of
          Inl e \<Rightarrow> Inl e
        | Inr state' \<Rightarrow> compareOverloads tc rest idx1 idx2 state')"

text \<open>The body of the second loop, on the two bindings of one type variable.\<close>

definition compareBinding ::
  "TypeChecker \<Rightarrow> Type \<Rightarrow> Type \<Rightarrow> bool \<times> int \<times> int \<Rightarrow> bool \<times> int \<times> int"
where
  "compareBinding tc binding1 binding2 state =
     (case state of (identical, score1, score2) \<Rightarrow>
      let type1 = stripInitializers binding1;
          type2 = stripInitializers binding2 in
      if type1 = type2 then (identical, score1, score2)
      else if hasTypeVariable type1 \<or> hasTypeVariable type2 then (False, score1, score2)
      else if isSubtypeOf tc type1 type2 \<or> isSubtypeOf tc type2 type1 then
        (let score1a = (if isSubtypeOf tc type1 type2 then score1 + 1 else score1);
             score2a = (if isSubtypeOf tc type2 type1 then score2 + 1 else score2);
             unlabeled1 = getUnlabeledType type1;
             unlabeled2 = getUnlabeledType type2
         in
         if unlabeled1 = unlabeled2 \<and> type1 = unlabeled1 then (identical, score1a + 1, score2a)
         else if unlabeled1 = unlabeled2 \<and> type2 = unlabeled2 then (identical, score1a, score2a + 1)
         else (False, score1a, score2a))
      else if isConvertibleTo tc type1 type2 \<or> isConvertibleTo tc type2 type1 then
        (False,
         if isConvertibleTo tc type1 type2 then score1 + 1 else score1,
         if isConvertibleTo tc type2 type1 then score2 + 1 else score2)
      else if isArchetype type1 \<noteq> isArchetype type2 then
        (if isArchetype type1 then (False, score1, score2 + 1) else (False, score1 + 1, score2))
      else (False, score1, score2))"

fun compareBindings ::
  "TypeChecker \<Rightarrow> ConstraintSystem \<Rightarrow> (nat \<times> Type list) list \<Rightarrow> nat \<Rightarrow> nat \<Rightarrow> bool \<times> int \<times> int \<Rightarrow>
   Fatal + (bool \<times> int \<times> int)"
where
  "compareBindings tc cs [] idx1 idx2 state = Inr state"
| "compareBindings tc cs (binding # rest) idx1 idx2 state =
     (if \<not> prefersSubtypeBinding (typeVariableImpl cs (fst binding))
      then compareBindings tc cs rest idx1 idx2 state
      else if \<not> (idx1 < length (snd binding) \<and> idx2 < length (snd binding))
      then Inl (AssertionFailed ''Invalid index!'')
      else compareBindings tc cs rest idx1 idx2
             (compareBinding tc (snd binding ! idx1) (snd binding ! idx2) state))"

definition compareSolutions ::
  "TypeChecker \<Rightarrow> ConstraintSystem \<Rightarrow> Solution list \<Rightarrow> SolutionDiff \<Rightarrow> nat \<Rightarrow> nat \<Rightarrow>
   Fatal + SolutionCompareResult"
where
  "compareSolutions tc cs solutions diff idx1 idx2 =
     (if \<not> (idx1 < length solutions \<and> idx2 < length solutions)
      then Inl (AssertionFailed ''Invalid index!'')
      else
        case compareOverloads tc (overloadDiffs diff) idx1 idx2
               (True, getFixedScore (solutions ! idx1), getFixedScore (solutions ! idx2)) of
          Inl e \<Rightarrow> Inl e
        | Inr state \<Rightarrow>
            (case compareBindings tc cs (typeBindingDiffs diff) idx1 idx2 state of
               Inl e \<Rightarrow> Inl e
             | Inr (identical, score1, score2) \<Rightarrow>
                 if score1 \<noteq> score2 then Inr (if score1 > score2 then Better else Worse)
                 else Inr (if identical then Identical else Incomparable)))"

text \<open>
  \<^verbatim>\<open>findBestSolution\<close>. Its loops take the comparison of two solutions by their
  indices as the parameter \<open>cmp\<close>. \<open>findPotentialBest\<close> is the first loop,
  \<open>checkBest\<close> the loop that makes sure the current best is better than all the
  others (it ends when it finds an ambiguity), \<open>sweepOuter\<close> and \<open>sweepInner\<close> the
  nested loops that identify the solutions worse than another one.
\<close>

type_synonym comparator = "nat \<Rightarrow> nat \<Rightarrow> Fatal + SolutionCompareResult"

fun findPotentialBest :: "comparator \<Rightarrow> nat list \<Rightarrow> bool list \<Rightarrow> nat \<Rightarrow> Fatal + (bool list \<times> nat)" where
  "findPotentialBest cmp [] losers bestIdx = Inr (losers, bestIdx)"
| "findPotentialBest cmp (i # rest) losers bestIdx =
     (case cmp i bestIdx of
        Inl e \<Rightarrow> Inl e
      | Inr Identical \<Rightarrow> findPotentialBest cmp rest losers bestIdx
      | Inr Incomparable \<Rightarrow> findPotentialBest cmp rest losers bestIdx
      | Inr Worse \<Rightarrow> findPotentialBest cmp rest (losers[i := True]) bestIdx
      | Inr Better \<Rightarrow> findPotentialBest cmp rest (losers[bestIdx := True]) i)"

datatype BestCheck = Unambiguous | ReturnedNothing | Ambiguous

fun checkBest ::
  "comparator \<Rightarrow> bool \<Rightarrow> nat list \<Rightarrow> bool list \<Rightarrow> nat \<Rightarrow> Fatal + (bool list \<times> BestCheck)"
where
  "checkBest cmp minimize [] losers bestIdx = Inr (losers, Unambiguous)"
| "checkBest cmp minimize (i # rest) losers bestIdx =
     (if i = bestIdx then checkBest cmp minimize rest losers bestIdx
      else
        case cmp bestIdx i of
          Inl e \<Rightarrow> Inl e
        | Inr Identical \<Rightarrow> checkBest cmp minimize rest losers bestIdx
        | Inr Better \<Rightarrow> checkBest cmp minimize rest (losers[i := True]) bestIdx
        | Inr Worse \<Rightarrow>
            if \<not> minimize then Inr (losers[bestIdx := True], ReturnedNothing)
            else Inr (losers[bestIdx := True], Ambiguous)
        | Inr Incomparable \<Rightarrow>
            if \<not> minimize then Inr (losers, ReturnedNothing)
            else Inr (losers, Ambiguous))"

fun sweepInner :: "comparator \<Rightarrow> nat \<Rightarrow> nat list \<Rightarrow> bool list \<Rightarrow> Fatal + bool list" where
  "sweepInner cmp i [] losers = Inr losers"
| "sweepInner cmp i (j # rest) losers =
     (if losers ! j then sweepInner cmp i rest losers
      else
        case cmp i j of
          Inl e \<Rightarrow> Inl e
        | Inr Identical \<Rightarrow> sweepInner cmp i rest losers
        | Inr Better \<Rightarrow> sweepInner cmp i rest (losers[j := True])
        | Inr Worse \<Rightarrow> sweepInner cmp i rest (losers[i := True])
        | Inr Incomparable \<Rightarrow> sweepInner cmp i rest losers)"

fun sweepOuter :: "comparator \<Rightarrow> nat list \<Rightarrow> nat \<Rightarrow> bool list \<Rightarrow> Fatal + bool list" where
  "sweepOuter cmp [] n losers = Inr losers"
| "sweepOuter cmp (i # rest) n losers =
     (if losers ! i then sweepOuter cmp rest n losers
      else
        case sweepInner cmp i [i + 1..<n] losers of
          Inl e \<Rightarrow> Inl e
        | Inr losers' \<Rightarrow> sweepOuter cmp rest n losers')"

text \<open>The last loop moves the solutions that are not losers to the front and erases the rest.\<close>

definition removeLosers :: "'a list \<Rightarrow> bool list \<Rightarrow> 'a list" where
  "removeLosers viable losers =
     map (\<lambda>i. viable ! i) (filter (\<lambda>i. \<not> losers ! i) [0..<length viable])"

definition findBestSolution ::
  "TypeChecker \<Rightarrow> ConstraintSystem \<Rightarrow> Solution list \<Rightarrow> bool \<Rightarrow> Fatal + (nat option \<times> Solution list)"
where
  "findBestSolution tc cs viable minimize =
     (if viable = [] then Inr (None, viable)
      else if length viable = 1 then Inr (Some 0, viable)
      else
        let diff = makeSolutionDiff viable;
            cmp = compareSolutions tc cs viable diff;
            n = length viable
        in
        case findPotentialBest cmp [1..<n] (replicate n False) 0 of
          Inl e \<Rightarrow> Inl e
        | Inr (losers1, bestIdx) \<Rightarrow>
            (case checkBest cmp minimize [0..<n] losers1 bestIdx of
               Inl e \<Rightarrow> Inl e
             | Inr (losers2, Unambiguous) \<Rightarrow> Inr (Some bestIdx, viable)
             | Inr (losers2, ReturnedNothing) \<Rightarrow> Inr (None, viable)
             | Inr (losers2, Ambiguous) \<Rightarrow>
                 (case sweepOuter cmp [0..<n] n losers2 of
                    Inl e \<Rightarrow> Inl e
                  | Inr losers3 \<Rightarrow> Inr (None, removeLosers viable losers3))))"

section \<open>Example types and collaborators\<close>

text \<open>
  The struct \<open>Int\<close>, a constraint system without type variables and constraints, and
  collaborators that know no superclass, conformance or member, given the relation
  \<open>inherits\<close> between protocols and the relation \<open>specialized\<close> between declarations.
\<close>

definition IntTy :: Type where
  "IntTy = NominalType Struct ''Int'' None"

definition emptySystem :: "SolverState option \<Rightarrow> ConstraintSystem" where
  "emptySystem st =
     \<lparr>numTypeVariables = 0,
      typeVariableImpl = (\<lambda>v. TypeVariableImpl None False False),
      representative = (\<lambda>v. v),
      fixedType = (\<lambda>v. None),
      Constraints = [],
      failedConstraint = None,
      solverState = st,
      failures = [],
      resolvedOverloadSets = []\<rparr>"

definition searching :: SolverState where
  "searching =
     \<lparr>depth = 0, recordFailures = False, retiredConstraints = [],
      generatedConstraints = None, constraintRestrictions = []\<rparr>"

definition exampleTC ::
  "(string \<Rightarrow> string \<Rightarrow> bool) \<Rightarrow> (ValueDecl \<Rightarrow> ValueDecl \<Rightarrow> bool) \<Rightarrow> TypeChecker"
where
  "exampleTC inherits specialized =
     \<lparr>getSuperClassOf = (\<lambda>t. None),
      conformsToProtocol = (\<lambda>t p. False),
      lookupMemberTC = (\<lambda>t n. []),
      lookupConstructors = (\<lambda>t. []),
      lookupMemberType = (\<lambda>t n. []),
      inheritsFrom = inherits,
      protocolRequiresClass = (\<lambda>p. False),
      isDynamicLookupProtocol = (\<lambda>p. False),
      archetypeMayHaveSuperclass = (\<lambda>a. False),
      archetypeHasParentOrSelfProtocol = (\<lambda>a. False),
      getDynamicResultSignature = (\<lambda>d. (declName d, declType d)),
      locatorHasMandatoryTupleLabels = (\<lambda>l. False),
      getTypeOfMemberReference = (\<lambda>base d isType isDynamic cs. Inr ((None, declType d), cs)),
      getTypeOfReference = (\<lambda>d isType isSpec cs. Inr ((None, declType d), cs)),
      simplifyOtherConstraint = (\<lambda>c cs. Inr (Solved, cs)),
      isDeclAsSpecializedAs = specialized,
      isSubtypeOf = (\<lambda>a b. False),
      isConvertibleTo = (\<lambda>a b. False)\<rparr>"

definition plainTC :: TypeChecker where
  "plainTC = exampleTC (\<lambda>a b. False) (\<lambda>a b. False)"

text \<open>Collaborators that know one inheritance: the protocol \<open>Derived\<close> inherits from \<open>Base\<close>.\<close>

definition derivedTC :: TypeChecker where
  "derivedTC = exampleTC (\<lambda>a b. a = ''Derived'' \<and> b = ''Base'') (\<lambda>a b. False)"

text \<open>The one-element tuple \<open>(Int)\<close>.\<close>

definition IntTuple1 :: Type where
  "IntTuple1 = TupleType [TupleTypeElt IntTy [] False False]"

text \<open>A constraint system with the one type variable 0, which can bind to an lvalue.\<close>

definition oneVariable :: ConstraintSystem where
  "oneVariable = snd (createTypeVariable None True False (emptySystem None))"

text \<open>
  The same with a second type variable 1, which cannot bind to an lvalue, and two
  tuples: \<open>(x: Int)\<close> and \<open>(Int, Int)\<close>.
\<close>

definition twoVariables :: ConstraintSystem where
  "twoVariables = snd (createTypeVariable None False False oneVariable)"

definition IntTupleX :: Type where
  "IntTupleX = TupleType [TupleTypeElt IntTy ''x'' False False]"

text \<open>
  Solutions of a system with two overload sets, at the locators of the anchors 0 and 1:
  \<open>choosing f g\<close> chose the function \<open>f\<close> at the first and \<open>g\<close> at the second. The
  collaborators \<open>specializedTC pairs\<close> find a declaration as specialized as another one
  when the pair of their names is in the list.
\<close>

definition overloadedDecl :: "string \<Rightarrow> ValueDecl" where
  "overloadedDecl name =
     ValueDecl name FuncDecl (FunctionType IntTy IntTy False False) False False False False False"

definition choosing :: "string \<Rightarrow> string \<Rightarrow> Solution" where
  "choosing f g =
     \<lparr>typeBindings = [],
      overloadChoices =
        [(ConstraintLocator (Some 0) [], OverloadChoice None OCK_Decl (Some (overloadedDecl f)) 0 False),
         (ConstraintLocator (Some 1) [], OverloadChoice None OCK_Decl (Some (overloadedDecl g)) 0 False)],
      getFixedScore = 0\<rparr>"

definition specializedTC :: "(string \<times> string) list \<Rightarrow> TypeChecker" where
  "specializedTC pairs =
     exampleTC (\<lambda>a b. False) (\<lambda>a b. (declName a, declName b) \<in> set pairs)"

definition threeSolutions :: "Solution list" where
  "threeSolutions = [choosing ''f0'' ''g0'', choosing ''f1'' ''g1'', choosing ''f2'' ''g2'']"

text \<open>
  The tuples \<open>(Int, Int)\<close> and \<open>(Int, Int = default)\<close>, the struct \<open>Array\<close> of a type, and
  the function type from \<open>Int\<close> to \<open>Int\<close>, which may be one that does not return.
\<close>

definition IntPair :: Type where
  "IntPair = TupleType [TupleTypeElt IntTy [] False False, TupleTypeElt IntTy [] False False]"

definition IntPairDefaulted :: Type where
  "IntPairDefaulted =
     TupleType [TupleTypeElt IntTy [] False False, TupleTypeElt IntTy [] True False]"

definition ArrayOf :: "Type \<Rightarrow> Type" where
  "ArrayOf t = BoundGenericType Struct ''Array'' None [t]"

definition IntToInt :: "bool \<Rightarrow> Type" where
  "IntToInt noReturn = FunctionType IntTy IntTy False noReturn"

text \<open>
  The variadic tuple \<open>(Int, Int, Int...)\<close>, of which the second element may have a default
  value.
\<close>

definition variadicTuple :: "bool \<Rightarrow> Type" where
  "variadicTuple defaulted =
     TupleType [TupleTypeElt IntTy [] False False, TupleTypeElt IntTy [] defaulted False,
                TupleTypeElt (BoundGenericType Struct ''Slice'' None [IntTy]) [] False True]"

text \<open>
  A tuple of the type variable 0 and twice its array, and a tuple of functions from \<open>Int\<close>
  to \<open>Int\<close> that differ in returning or not.
\<close>

definition variableTuple :: Type where
  "variableTuple =
     TupleType [TupleTypeElt (TypeVariableType 0) [] False False,
                TupleTypeElt (ArrayOf (TypeVariableType 0)) [] False False,
                TupleTypeElt (ArrayOf (TypeVariableType 0)) [] False False]"

definition functionTuple :: Type where
  "functionTuple =
     TupleType [TupleTypeElt (IntToInt True) [] False False,
                TupleTypeElt (ArrayOf (IntToInt False)) [] False False,
                TupleTypeElt (ArrayOf (IntToInt True)) [] False False]"

section \<open>Notions of the statements\<close>

text \<open>
  The instance type of the base of a member constraint, as \<^verbatim>\<open>simplifyMemberConstraint\<close>
  digs it out: the simplified base type without its lvalue and without its metatype.
\<close>

definition memberInstanceTy :: "ConstraintSystem \<Rightarrow> Type \<Rightarrow> Type" where
  "memberInstanceTy cs firstType =
     (case getRValueType (simplifyType cs firstType) of
        MetaTypeType t \<Rightarrow> t
      | _ \<Rightarrow> getRValueType (simplifyType cs firstType))"

text \<open>The state after \<^verbatim>\<open>addConstraint\<close> has filed a constraint it could not solve.\<close>

definition fileUnsolved :: "Constraint \<Rightarrow> bool \<Rightarrow> bool \<Rightarrow> ConstraintSystem \<Rightarrow> ConstraintSystem" where
  "fileUnsolved c isExternallySolved simplifyExisting cs =
     (let cs'' = (if \<not> isExternallySolved then cs\<lparr>Constraints := Constraints cs @ [c]\<rparr> else cs)
      in case solverState cs'' of
           Some st \<Rightarrow> cs''\<lparr>solverState := Some (noteGenerated simplifyExisting c st)\<rparr>
         | None \<Rightarrow> cs'')"

text \<open>
  The comparison that \<^verbatim>\<open>findBestSolution\<close> makes of two of its solutions, by their indices,
  with the differences of all of them. A solution has lost when another one is better
  in one of the two directions of the comparison; \<open>onlyLosers\<close> is the invariant of
  the vector \<^verbatim>\<open>losers\<close>.
\<close>

definition compareViable :: "TypeChecker \<Rightarrow> ConstraintSystem \<Rightarrow> Solution list \<Rightarrow> comparator" where
  "compareViable tc cs viable = compareSolutions tc cs viable (makeSolutionDiff viable)"

definition lostTo :: "comparator \<Rightarrow> nat \<Rightarrow> nat \<Rightarrow> bool" where
  "lostTo cmp n i \<longleftrightarrow> (\<exists>j<n. j \<noteq> i \<and> (cmp j i = Inr Better \<or> cmp i j = Inr Worse))"

definition onlyLosers :: "comparator \<Rightarrow> nat \<Rightarrow> bool list \<Rightarrow> bool" where
  "onlyLosers cmp n losers \<longleftrightarrow> length losers = n \<and> (\<forall>i<n. losers ! i \<longrightarrow> lostTo cmp n i)"

text \<open>
  The plain types: the types that contain no type variable, no lvalue type and no variadic
  tuple element, and in which \<open>Optional\<close> has its one generic argument.
\<close>

primrec plainType :: "Type \<Rightarrow> bool"
  and plainTypeElt :: "TupleTypeElt \<Rightarrow> bool"
where
  "plainType (BuiltinType k n) = True"
| "plainType (ModuleType n) = True"
| "plainType ErrorType = True"
| "plainType (GenericTypeParamType d i) = True"
| "plainType (DependentMemberType b n) = plainType b"
| "plainType (TypeVariableType v) = False"
| "plainType (ArchetypeType n) = True"
| "plainType (TupleType elts) = list_all id (map plainTypeElt elts)"
| "plainType (NominalType k d p) =
     (case map_option plainType p of Some b \<Rightarrow> b | None \<Rightarrow> True)"
| "plainType (ProtocolType d) = True"
| "plainType (MetaTypeType t) = plainType t"
| "plainType (FunctionType i r a n) = (plainType i \<and> plainType r)"
| "plainType (PolymorphicFunctionType i r) = (plainType i \<and> plainType r)"
| "plainType (GenericFunctionType i r) = (plainType i \<and> plainType r)"
| "plainType (ArrayType b n) = plainType b"
| "plainType (ProtocolCompositionType ps) = list_all id (map plainType ps)"
| "plainType (LValueType t q) = False"
| "plainType (UnboundGenericType d) = True"
| "plainType (BoundGenericType k d p args) =
     ((case map_option plainType p of Some b \<Rightarrow> b | None \<Rightarrow> True)
      \<and> list_all id (map plainType args)
      \<and> (d = OptionalDecl \<longrightarrow> length args = 1))"
| "plainTypeElt (TupleTypeElt t n i v) = (plainType t \<and> \<not> v)"

text \<open>
  The types of which \<^verbatim>\<open>matchTypes\<close> matches the parts as the same types at every kind
  of match: the nominal types and the bound generic types, matched by deep equality, and
  the array types.
\<close>

fun invariantType :: "Type \<Rightarrow> bool" where
  "invariantType (NominalType k d p) = True"
| "invariantType (BoundGenericType k d p args) = (d = OptionalDecl \<longrightarrow> length args = 1)"
| "invariantType (ArrayType b n) = True"
| "invariantType t = False"

section \<open>Verified properties\<close>

subsection \<open>Tuple shuffles\<close>

text \<open>
  Claim C2 says that shuffling \<open>(x: Int, Int)\<close> into \<open>(Int, x: Int)\<close> fails. It does
  not: the first loop matches the destination element \<open>x\<close> with the source element
  of that name, and the unnamed source element fills the remaining slot.
\<close>

theorem shuffle_named_first_succeeds:
  "computeTupleShuffle
     [TupleTypeElt IntTy ''x'' False False, TupleTypeElt IntTy [] False False]
     [TupleTypeElt IntTy [] False False, TupleTypeElt IntTy ''x'' False False]
     False = Inr (False, [1, 0], [])"
  by code_simp

text \<open>
  Claim C2, amended: the shuffle from \<open>(x: Int, Int)\<close> into \<open>(Int, x: Int)\<close> succeeds,
  whether source labels are mandatory or not, with the source mapping \<open>[1, 0]\<close> (the
  named element is matched by name); the shuffle into \<open>(Int, Int)\<close> with source labels
  not mandatory succeeds with the positional mapping \<open>[0, 1]\<close>, and fails when the
  labels are mandatory.
\<close>

theorem shuffle_scenarios:
  "computeTupleShuffle
     [TupleTypeElt IntTy ''x'' False False, TupleTypeElt IntTy [] False False]
     [TupleTypeElt IntTy [] False False, TupleTypeElt IntTy ''x'' False False]
     mandatory = Inr (False, [1, 0], [])
   \<and> computeTupleShuffle
     [TupleTypeElt IntTy ''x'' False False, TupleTypeElt IntTy [] False False]
     [TupleTypeElt IntTy [] False False, TupleTypeElt IntTy [] False False]
     False = Inr (False, [0, 1], [])
   \<and> fst (projr (computeTupleShuffle
     [TupleTypeElt IntTy ''x'' False False, TupleTypeElt IntTy [] False False]
     [TupleTypeElt IntTy [] False False, TupleTypeElt IntTy [] False False]
     True))"
  by (cases mandatory; code_simp)

subsection \<open>Unfolding the matcher\<close>

lemma matchTypesN_Suc:
  "matchTypesN tc (Suc n) = matchTypes n tc (matchTypesN tc n) (addConstraintN tc n)"
  by (simp add: matchTypesN_def addConstraintN_def)

lemma addConstraintN_Suc:
  "addConstraintN tc (Suc n) = addConstraint n tc (matchTypesN tc n) (addConstraintN tc n)"
  by (simp add: matchTypesN_def addConstraintN_def)

lemma matchTypesN_0: "matchTypesN tc 0 type1 type2 kind flags locator cs = Inl OutOfFuel"
  by (simp add: matchTypesN_def)

lemma addConstraintN_0: "addConstraintN tc 0 c ext ex cs = Inl OutOfFuel"
  by (simp add: addConstraintN_def)

lemmas collect_defs =
  decomposeParallelStructure_def nonStructuralConversions_def tupleAndSuperclassConversions_def
  laterConversions_def tuplesWithMismatchedNames_def

text \<open>A type that is not a type variable is looked through to itself.\<close>

lemma getFixedTypeRecursive_concrete:
  "\<not> isTypeVariable (if w then getRValueType t else t) \<Longrightarrow>
   getFixedTypeRecursive fuel cs t w = Inr (if w then getRValueType t else t, None)"
  by (cases "if w then getRValueType t else t") (auto simp: getFixedTypeRecursive_def Let_def)

text \<open>A disjunction is never simplified: adding it files it as unsolved.\<close>

lemma addConstraint_disjunction:
  "addConstraint fuel tc mt ac (NestedConstraint CK_Disjunction alts l) ext ex cs =
     Inr (False, fileUnsolved (NestedConstraint CK_Disjunction alts l) ext ex cs)"
  by (simp add: addConstraint_def simplifyConstraint_def fileUnsolved_def)

subsection \<open>Value-to-optional conversion\<close>

lemma int_optional_subtype:
  "matchTypesN tc (Suc n) IntTy (OptionalType_get IntTy) Subtype flags locator cs =
     Inr (Error,
       if shouldRecordFailures cs
       then recordFailure (getConstraintLocator locator) TypesNotSubtypes
              [TypeArg IntTy, TypeArg (OptionalType_get IntTy)] cs
       else cs)"
  by (simp add: matchTypesN_Suc matchTypes_def getFixedTypeRecursive_concrete IntTy_def
      OptionalType_get_def collect_defs commitToConversions_def)

lemma int_optional_conversion:
  "\<exists>cs'. matchTypesN tc (Suc (Suc n)) IntTy (OptionalType_get IntTy) Conversion flags locator cs
          = Inr (Solved, cs')"
proof (cases "shouldTryUserConversion tc IntTy")
  case True
  then show ?thesis
    by (simp add: matchTypesN_Suc [of tc "Suc n"] matchTypes_def getFixedTypeRecursive_concrete
        IntTy_def OptionalType_get_def collect_defs commitToConversions_def createDisjunction_def
        addConstraintN_Suc addConstraint_disjunction Let_def)
next
  case False
  then show ?thesis
    by (simp add: matchTypesN_Suc matchTypes_def getFixedTypeRecursive_concrete IntTy_def
        OptionalType_get_def collect_defs commitToConversions_def matchRestriction_def)
qed

lemma decomposed_candidates:
  assumes "decomposeParallelStructure tc mt type1 type2 kind flags locator cs = Inr pcs0"
  shows "pcs0 = [] \<or> pcs0 = [TupleToTuple] \<or> pcs0 = [DeepEquality]"
  using assms
  by (cases type1; cases type2)
    (auto simp: decomposeParallelStructure_def Let_def split: if_splits)


lemma found_candidates:
  "tupleAndSuperclassConversions tc type1 type2 kind = (found, committed) \<Longrightarrow>
   ValueToOptional \<notin> set found"
  by (auto simp: tupleAndSuperclassConversions_def Let_def split: if_splits)

lemma later_candidates:
  assumes "laterConversions tc type1 type2 concrete kind = Inr later"
    and "ValueToOptional \<in> set later"
  shows "rank Conversion \<le> rank kind \<and> concrete
    \<and> (\<exists>optional. optionalConversions type1 type2 = Inr optional \<and> ValueToOptional \<in> set optional)"
  using assms by (auto simp: laterConversions_def split: if_splits sum.splits)

lemma collected_candidates:
  assumes "nonStructuralConversions tc mt type1 type2 concrete kind flags locator pcs0 cs = Inr pcs"
    and "ValueToOptional \<in> set pcs" and "ValueToOptional \<notin> set pcs0"
  shows "\<exists>later. laterConversions tc type1 type2 concrete kind = Inr later
    \<and> ValueToOptional \<in> set later"
proof -
  obtain found committed where found:
    "(if concrete \<and> rank kind \<ge> rank TrivialSubtype
      then tupleAndSuperclassConversions tc type1 type2 kind else ([], False)) = (found, committed)"
    by fastforce
  have nf: "ValueToOptional \<notin> set found"
    using found found_candidates [of tc type1 type2 kind found committed]
    by (auto split: if_splits)
  show ?thesis
  proof (cases committed)
    case True
    then have "pcs = pcs0 @ found"
      using assms(1) found by (simp add: nonStructuralConversions_def Let_def)
    then show ?thesis
      using assms(2,3) nf by simp
  next
    case False
    show ?thesis
    proof (cases "if concrete \<and> rank kind \<ge> rank Conversion then autoClosureResult type2 else None")
      case (Some result2)
      then show ?thesis
        using assms(1) found False by (simp add: nonStructuralConversions_def Let_def)
    next
      case None
      then obtain later where later: "laterConversions tc type1 type2 concrete kind = Inr later"
        and pcs: "pcs = (pcs0 @ found)
             @ (if concrete \<and> rank kind \<ge> rank Conversion \<and> isImplicitLValue type1
                then [LValueToRValue] else []) @ later"
        using assms(1) found False
        by (cases "laterConversions tc type1 type2 concrete kind")
          (simp_all add: nonStructuralConversions_def Let_def)
      have "ValueToOptional \<in> set later"
        using assms(2,3) nf unfolding pcs by (auto split: if_splits)
      then show ?thesis
        using later by blast
    qed
  qed
qed

lemma valueToOptional_collected:
  assumes "decomposeParallelStructure tc mt type1 type2 kind flags locator cs = Inr pcs0"
    and "nonStructuralConversions tc mt type1 type2 concrete kind flags locator pcs0 cs = Inr pcs"
    and "ValueToOptional \<in> set pcs"
  shows "kind = Conversion \<and> concrete
    \<and> (\<exists>gk parent arg. type2 = BoundGenericType gk OptionalDecl parent [arg])"
proof -
  from decomposed_candidates [OF assms(1)] have "ValueToOptional \<notin> set pcs0"
    by auto
  from collected_candidates [OF assms(2,3) this]
  obtain later where "laterConversions tc type1 type2 concrete kind = Inr later"
    "ValueToOptional \<in> set later"
    by blast
  from later_candidates [OF this]
  obtain optional where later: "rank Conversion \<le> rank kind" "concrete"
    "optionalConversions type1 type2 = Inr optional" "ValueToOptional \<in> set optional"
    by blast
  have "\<exists>gk parent arg. type2 = BoundGenericType gk OptionalDecl parent [arg]"
    using later(3,4) by (cases type2) (auto simp: length_Suc_conv split: if_splits)
  moreover have "kind = Conversion"
    using later(1) by (cases kind) simp_all
  ultimately show ?thesis
    using later(2) by simp
qed

text \<open>
  Claim C6: \<^verbatim>\<open>matchTypes\<close> collects its candidates in two steps, the switch over the
  parallel structure and the collection of the non-structural conversions. When the
  value-to-optional candidate is in the collected list, the match kind is \<open>Conversion\<close>
  (the most permissive kind), the types are concrete and the second type is an optional
  type. Matching \<open>Int\<close> against \<open>Int?\<close> at \<open>Subtype\<close> returns \<open>Error\<close> (with the
  types-not-subtypes failure recorded when recording is on), and at \<open>Conversion\<close> it
  returns \<open>Solved\<close>, whatever the collaborators, the flags, the locator and the state of
  the system are.
\<close>

theorem value_to_optional_only_at_conversion:
  "(decomposeParallelStructure tc mt type1 type2 kind flags locator cs = Inr pcs0
      \<and> nonStructuralConversions tc mt type1 type2 concrete kind flags locator pcs0 cs = Inr pcs
      \<and> ValueToOptional \<in> set pcs \<longrightarrow>
      kind = Conversion \<and> concrete
      \<and> (\<exists>gk parent arg. type2 = BoundGenericType gk OptionalDecl parent [arg]))
   \<and> matchTypesN tc (Suc n) IntTy (OptionalType_get IntTy) Subtype flags locator cs =
       Inr (Error,
         if shouldRecordFailures cs
         then recordFailure (getConstraintLocator locator) TypesNotSubtypes
                [TypeArg IntTy, TypeArg (OptionalType_get IntTy)] cs
         else cs)
   \<and> (\<exists>cs'. matchTypesN tc (Suc (Suc n)) IntTy (OptionalType_get IntTy) Conversion flags locator cs
             = Inr (Solved, cs'))"
  using valueToOptional_collected [of tc mt type1 type2 kind flags locator cs pcs0 concrete pcs]
    int_optional_subtype [of tc n flags locator cs]
    int_optional_conversion [of tc n flags locator cs]
  by blast

theorem value_to_optional_only_at_conversion_witness:
  "decomposeParallelStructure plainTC (matchTypesN plainTC 1) IntTy (OptionalType_get IntTy)
     Conversion TMF_None (locatorBuilder None) (emptySystem None) = Inr []
   \<and> nonStructuralConversions plainTC (matchTypesN plainTC 1) IntTy (OptionalType_get IntTy) True
     Conversion TMF_None (locatorBuilder None) [] (emptySystem None) = Inr [ValueToOptional]
   \<and> ValueToOptional \<in> set [ValueToOptional]
   \<and> (\<exists>gk parent arg. OptionalType_get IntTy = BoundGenericType gk OptionalDecl parent [arg])
   \<and> matchTypesN plainTC (Suc 0) IntTy (OptionalType_get IntTy) Subtype TMF_None
       (locatorBuilder None) (emptySystem None) =
       Inr (Error,
         recordFailure None TypesNotSubtypes [TypeArg IntTy, TypeArg (OptionalType_get IntTy)]
           (emptySystem None))
   \<and> (\<exists>cs'. matchTypesN plainTC (Suc (Suc 0)) IntTy (OptionalType_get IntTy) Conversion TMF_None
             (locatorBuilder None) (emptySystem None) = Inr (Solved, cs'))"
proof -
  have decomposed:
    "decomposeParallelStructure plainTC (matchTypesN plainTC 1) IntTy (OptionalType_get IntTy)
       Conversion TMF_None (locatorBuilder None) (emptySystem None) = Inr []"
    by (simp add: collect_defs IntTy_def OptionalType_get_def)
  have collected:
    "nonStructuralConversions plainTC (matchTypesN plainTC 1) IntTy (OptionalType_get IntTy) True
       Conversion TMF_None (locatorBuilder None) [] (emptySystem None) = Inr [ValueToOptional]"
    by (simp add: collect_defs IntTy_def OptionalType_get_def plainTC_def exampleTC_def
        shouldTryUserConversion_def lookupMember_def)
  have rec: "shouldRecordFailures (emptySystem None)"
    by (simp add: shouldRecordFailures_def emptySystem_def)
  have loc: "getConstraintLocator (locatorBuilder None) = None"
    by (simp add: getConstraintLocator_def locatorBuilder_def hasEmptyPath_def)
  from decomposed collected rec loc
    value_to_optional_only_at_conversion [of plainTC "matchTypesN plainTC 1" IntTy
      "OptionalType_get IntTy" Conversion TMF_None "locatorBuilder None" "emptySystem None" "[]"
      True "[ValueToOptional]" 0]
  show ?thesis by simp
qed

subsection \<open>Conformance constraints\<close>

lemma getFixedTypeRecursive_unbound:
  "getFixedType cs v = None \<Longrightarrow>
   getFixedTypeRecursive (Suc fuel) cs (TypeVariableType v) w = Inr (TypeVariableType v, Some v)"
  by (simp add: getFixedTypeRecursive_def)

lemma conforms_unbound:
  "getFixedTypeRecursive fuel cs type0 True = Inr (t, Some v) \<Longrightarrow>
   simplifyConformsToConstraint fuel tc type0 protocol locator allow cs = Inr (Unsolved, cs)"
  by (simp add: simplifyConformsToConstraint_def)

lemma conforms_existential:
  assumes "getFixedTypeRecursive fuel cs type0 True = Inr (t, None)" and "isExistentialType t"
  shows "simplifyConformsToConstraint fuel tc type0 protocol locator True cs =
     (if \<exists>ap \<in> set (existentialProtocols t). ap = protocol \<or> inheritsFrom tc ap protocol
      then Inr (Solved, cs)
      else Inr (Error, recordFailure (getConstraintLocator locator) DoesNotConformToProtocol
                   [TypeArg t, TypeArg (ProtocolType protocol)] cs))"
  using assms by (simp add: simplifyConformsToConstraint_def list_ex_iff)

lemma simplifyConstraintN_conformance:
  "k = CK_ConformsTo \<or> k = CK_SelfObjectOfProtocol \<Longrightarrow>
   simplifyConstraintN tc fuel (TypesConstraint k r type0 (ProtocolType protocol) locator) cs =
     simplifyConformsToConstraint fuel tc type0 protocol (locatorBuilder locator)
       (k = CK_SelfObjectOfProtocol) cs"
  by (auto simp: simplifyConstraintN_def simplifyConstraint_def)

text \<open>
  Claim C8, amended. A \<open>ConformsTo\<close> or \<open>SelfObjectOfProtocol\<close> constraint whose
  type is still an unbound type variable defers (\<open>Unsolved\<close>, the system unchanged).
  For a \<open>SelfObjectOfProtocol\<close> constraint on an existential type (the containment
  check) the constraint is \<open>Solved\<close> exactly when some protocol of the existential
  type equals the target protocol or inherits from it; otherwise it is an \<open>Error\<close>
  with the does-not-conform failure. The claim has the inheritance the other way round
  (a protocol of the existential type "is inherited by" the target).
\<close>

theorem existential_containment:
  assumes "k = CK_ConformsTo \<or> k = CK_SelfObjectOfProtocol"
  shows
  "(getFixedType cs v = None \<longrightarrow>
      simplifyConstraintN tc (Suc fuel) (TypesConstraint k r (TypeVariableType v) (ProtocolType protocol) locator) cs
        = Inr (Unsolved, cs))
   \<and> (getFixedTypeRecursive fuel cs type0 True = Inr (t, Some v) \<longrightarrow>
      simplifyConstraintN tc fuel (TypesConstraint k r type0 (ProtocolType protocol) locator) cs
        = Inr (Unsolved, cs))
   \<and> (getFixedTypeRecursive fuel cs type0 True = Inr (t, None) \<and> k = CK_SelfObjectOfProtocol
        \<and> isExistentialType t \<longrightarrow>
      (simplifyConstraintN tc fuel (TypesConstraint k r type0 (ProtocolType protocol) locator) cs
         = Inr (Solved, cs)
       \<longleftrightarrow> (\<exists>ap \<in> set (existentialProtocols t). ap = protocol \<or> inheritsFrom tc ap protocol))
      \<and> ((\<exists>ap \<in> set (existentialProtocols t). ap = protocol \<or> inheritsFrom tc ap protocol)
          \<or> simplifyConstraintN tc fuel (TypesConstraint k r type0 (ProtocolType protocol) locator) cs
             = Inr (Error, recordFailure locator DoesNotConformToProtocol
                      [TypeArg t, TypeArg (ProtocolType protocol)] cs)))"
proof -
  have loc: "getConstraintLocator (locatorBuilder locator) = locator"
    by (simp add: getConstraintLocator_def locatorBuilder_def hasEmptyPath_def)
  show ?thesis
    using assms
    by (auto simp: simplifyConstraintN_conformance conforms_unbound conforms_existential loc
        getFixedTypeRecursive_unbound
        conforms_unbound [OF getFixedTypeRecursive_unbound])
qed

text \<open>
  Claim C8 as stated fails: \<open>Derived\<close> inherits from \<open>Base\<close>, so the protocol of the
  existential type \<open>Base\<close> is inherited by the target \<open>Derived\<close>, yet the containment
  check of \<open>Base\<close> against \<open>Derived\<close> is an \<open>Error\<close>.
\<close>

theorem existential_containment_reversed:
  "inheritsFrom derivedTC ''Derived'' ''Base''
   \<and> simplifyConstraintN derivedTC 1
       (TypesConstraint CK_SelfObjectOfProtocol None (ProtocolType ''Base'') (ProtocolType ''Derived'') None)
       (emptySystem (Some searching))
     = Inr (Error, emptySystem (Some searching))"
  by (simp add: derivedTC_def exampleTC_def simplifyConstraintN_conformance simplifyConformsToConstraint_def
      getFixedTypeRecursive_concrete recordFailure_def shouldRecordFailures_def emptySystem_def searching_def)

theorem existential_containment_witness:
  "getFixedType (emptySystem None) 0 = None
   \<and> simplifyConstraintN derivedTC (Suc 0)
       (TypesConstraint CK_SelfObjectOfProtocol None (TypeVariableType 0) (ProtocolType ''Base'') None)
       (emptySystem None) = Inr (Unsolved, emptySystem None)
   \<and> getFixedTypeRecursive 0 (emptySystem None) (ProtocolType ''Derived'') True
       = Inr (ProtocolType ''Derived'', None)
   \<and> isExistentialType (ProtocolType ''Derived'')
   \<and> inheritsFrom derivedTC ''Derived'' ''Base''
   \<and> simplifyConstraintN derivedTC 0
       (TypesConstraint CK_SelfObjectOfProtocol None (ProtocolType ''Derived'') (ProtocolType ''Base'') None)
       (emptySystem None) = Inr (Solved, emptySystem None)"
proof -
  have unbound: "getFixedType (emptySystem None) 0 = None"
    by (simp add: getFixedType_def getRepresentative_def emptySystem_def)
  have looked: "getFixedTypeRecursive 0 (emptySystem None) (ProtocolType ''Derived'') True
       = Inr (ProtocolType ''Derived'', None)"
    by (simp add: getFixedTypeRecursive_concrete)
  have inh: "inheritsFrom derivedTC ''Derived'' ''Base''"
    by (simp add: derivedTC_def exampleTC_def)
  from unbound looked inh
    existential_containment [of CK_SelfObjectOfProtocol "emptySystem None" 0 derivedTC 0 None
      "''Base''" None "ProtocolType ''Derived''" "ProtocolType ''Derived''"]
  show ?thesis by simp
qed

subsection \<open>Constraints with a conversion restriction\<close>

lemma recordRestriction_simps:
  "recordRestriction k r t1 t2 (Inl e) = Inl e"
  "recordRestriction k r t1 t2 (Inr (Error, cs)) = Inr (Error, cs)"
  "recordRestriction k r t1 t2 (Inr (Unsolved, cs)) = Inr (Unsolved, cs)"
  "solverState cs = None \<Longrightarrow> recordRestriction k r t1 t2 (Inr (Solved, cs)) =
     Inl (AssertionFailed ''Can't record restriction without solver state'')"
  "solverState cs = Some st \<Longrightarrow> recordRestriction k r t1 t2 (Inr (Solved, cs)) =
     Inr (Solved,
       if k = CK_Conversion
       then cs\<lparr>solverState :=
              Some (st\<lparr>constraintRestrictions := constraintRestrictions st @ [(t1, t2, r)]\<rparr>)\<rparr>
       else cs)"
  by (simp_all add: recordRestriction_def)

lemma simplify_restricted:
  "getTypeMatchKind k = Inr mk \<Longrightarrow>
   simplifyConstraint fuel tc mt ac (TypesConstraint k (Some r) t1 t2 loc) cs =
     (case applyRestriction fuel tc mt ac k r t1 t2 mk loc cs of
        Inl returned \<Rightarrow> returned
      | Inr result \<Rightarrow> recordRestriction k r t1 t2 result)"
  by (cases k) (auto simp: simplifyConstraint_def)

text \<open>
  Claim C9, amended. A relational constraint that carries a conversion restriction is
  simplified by the matcher of that restriction, not by \<^verbatim>\<open>matchTypes\<close>; a deep-equality
  restriction returns the result of its matcher directly. For the other restrictions,
  when the matcher returns \<open>Solved\<close> the restriction is recorded against the active
  solver state exactly when the constraint is a \<open>Conversion\<close> constraint; a constraint
  of another relational kind leaves the record as it is. \<open>Unsolved\<close> and \<open>Error\<close>
  record nothing.
\<close>

theorem restricted_constraint:
  assumes mk: "getTypeMatchKind k = Inr mk"
  shows
  "(r = TupleToTuple \<and> t1 = TupleType a \<and> t2 = TupleType b \<longrightarrow>
      simplifyConstraint fuel tc mt ac (TypesConstraint k (Some r) t1 t2 loc) cs =
        recordRestriction k r t1 t2
          (matchTupleTypes tc mt a b mk TMF_GenerateConstraints (locatorBuilder loc) cs))
   \<and> (r = ScalarToTuple \<and> t2 = TupleType b \<longrightarrow>
      simplifyConstraint fuel tc mt ac (TypesConstraint k (Some r) t1 t2 loc) cs =
        recordRestriction k r t1 t2
          (matchScalarToTupleTypes mt t1 b mk TMF_GenerateConstraints (locatorBuilder loc) cs))
   \<and> (r = TupleToScalar \<and> t1 = TupleType a \<longrightarrow>
      simplifyConstraint fuel tc mt ac (TypesConstraint k (Some r) t1 t2 loc) cs =
        recordRestriction k r t1 t2
          (matchTupleToScalarTypes mt a t2 mk TMF_GenerateConstraints (locatorBuilder loc) cs))
   \<and> (r = DeepEquality \<longrightarrow>
      simplifyConstraint fuel tc mt ac (TypesConstraint k (Some r) t1 t2 loc) cs =
        matchDeepEqualityTypes mt t1 t2 (locatorBuilder loc) cs)
   \<and> (r = Superclass \<longrightarrow>
      simplifyConstraint fuel tc mt ac (TypesConstraint k (Some r) t1 t2 loc) cs =
        recordRestriction k r t1 t2
          (matchSuperclassTypes fuel tc mt t1 t2 mk TMF_GenerateConstraints (locatorBuilder loc) cs))
   \<and> (r = LValueToRValue \<longrightarrow>
      simplifyConstraint fuel tc mt ac (TypesConstraint k (Some r) t1 t2 loc) cs =
        recordRestriction k r t1 t2
          (mt (getRValueType t1) t2 mk TMF_GenerateConstraints (locatorBuilder loc) cs))
   \<and> (r = Existential \<longrightarrow>
      simplifyConstraint fuel tc mt ac (TypesConstraint k (Some r) t1 t2 loc) cs =
        recordRestriction k r t1 t2
          (matchExistentialTypes fuel tc ac t1 t2 mk TMF_GenerateConstraints (locatorBuilder loc) cs))
   \<and> (r = ValueToOptional \<and> t2 = BoundGenericType gk OptionalDecl parent (arg # args) \<longrightarrow>
      simplifyConstraint fuel tc mt ac (TypesConstraint k (Some r) t1 t2 loc) cs =
        recordRestriction k r t1 t2
          (mt t1 arg mk TMF_GenerateConstraints (locatorBuilder loc) cs))
   \<and> (r = OptionalToOptional \<and> t1 = BoundGenericType gk1 OptionalDecl parent1 (arg1 # args1)
        \<and> t2 = BoundGenericType gk OptionalDecl parent (arg # args) \<longrightarrow>
      simplifyConstraint fuel tc mt ac (TypesConstraint k (Some r) t1 t2 loc) cs =
        recordRestriction k r t1 t2
          (mt arg1 arg mk TMF_GenerateConstraints (locatorBuilder loc) cs))
   \<and> (r = User \<and> k = CK_Conversion \<longrightarrow>
      simplifyConstraint fuel tc mt ac (TypesConstraint k (Some r) t1 t2 loc) cs =
        recordRestriction k r t1 t2
          (tryUserConversion tc ac t1 CK_Subtype t2 (locatorBuilder loc) cs))
   \<and> (solverState cs1 = Some st \<longrightarrow>
      recordRestriction k r t1 t2 (Inr (Solved, cs1)) =
        Inr (Solved,
          if k = CK_Conversion
          then cs1\<lparr>solverState :=
                 Some (st\<lparr>constraintRestrictions := constraintRestrictions st @ [(t1, t2, r)]\<rparr>)\<rparr>
          else cs1))
   \<and> recordRestriction k r t1 t2 (Inr (Unsolved, cs1)) = Inr (Unsolved, cs1)
   \<and> recordRestriction k r t1 t2 (Inr (Error, cs1)) = Inr (Error, cs1)"
  using mk by (auto simp: simplify_restricted applyRestriction_def recordRestriction_simps)

lemma tuple_to_scalar_solved:
  "matchTupleToScalarTypes (matchTypesN tc (Suc n)) [TupleTypeElt IntTy [] False False] IntTy mk flags loc cs
     = Inr (Solved, cs)"
  by (simp add: matchTupleToScalarTypes_def matchTypesN_Suc matchTypes_def getFixedTypeRecursive_concrete IntTy_def)

text \<open>
  Claim C9 as stated fails: the \<open>Subtype\<close> constraint from \<open>(Int)\<close> to \<open>Int\<close> with
  the tuple-to-scalar restriction is \<open>Solved\<close> by the matcher of the restriction, and
  nothing is recorded against the solver state.
\<close>

theorem restriction_not_recorded:
  "simplifyConstraint 1 plainTC (matchTypesN plainTC 1) (addConstraintN plainTC 1)
     (TypesConstraint CK_Subtype (Some TupleToScalar) IntTuple1 IntTy None)
     (emptySystem (Some searching))
   = Inr (Solved, emptySystem (Some searching))
   \<and> solverState (emptySystem (Some searching)) = Some searching
   \<and> constraintRestrictions searching = []"
  by (simp add: simplify_restricted applyRestriction_def IntTuple1_def tuple_to_scalar_solved
      recordRestriction_simps emptySystem_def searching_def)

theorem restricted_constraint_witness:
  "getTypeMatchKind CK_Conversion = Inr Conversion
   \<and> solverState (emptySystem (Some searching)) = Some searching
   \<and> simplifyConstraint 1 plainTC (matchTypesN plainTC 1) (addConstraintN plainTC 1)
       (TypesConstraint CK_Conversion (Some TupleToScalar) IntTuple1 IntTy None)
       (emptySystem (Some searching))
     = Inr (Solved,
         (emptySystem (Some searching))\<lparr>solverState :=
            Some (searching\<lparr>constraintRestrictions := [(IntTuple1, IntTy, TupleToScalar)]\<rparr>)\<rparr>)"
proof -
  have mk: "getTypeMatchKind CK_Conversion = Inr Conversion" by simp
  have st: "solverState (emptySystem (Some searching)) = Some searching"
    by (simp add: emptySystem_def)
  have nil: "constraintRestrictions searching = []" by (simp add: searching_def)
  from st nil
    restricted_constraint [OF mk, of TupleToScalar IntTuple1 "[TupleTypeElt IntTy [] False False]"
      IntTy "[]" 1 plainTC "matchTypesN plainTC 1" "addConstraintN plainTC 1" None
      "emptySystem (Some searching)" Enum None IntTy "[]" Enum None IntTy "[]"
      "emptySystem (Some searching)" searching]
  show ?thesis
    by (simp add: IntTuple1_def tuple_to_scalar_solved)
qed

subsection \<open>Member constraints\<close>

lemma getAsInteger_examples:
  "getAsInteger ''0'' = Some 0" "getAsInteger ''00'' = Some 0" "getAsInteger ''1'' = Some 1"
  "getAsInteger ''init'' = None"
  by (simp_all add: getAsInteger_def digitValue_def)

lemma decimal_not_init: "getAsInteger name = Some k \<Longrightarrow> name \<noteq> ''init''"
  using getAsInteger_examples(4) by auto

lemma solvedWith_not_Unsolved: "solvedWith r \<noteq> Inr (Unsolved, cs')"
  by (cases r) (simp_all add: solvedWith_def)

lemma doesNotHaveMember_not_Unsolved: "doesNotHaveMember l t n cs \<noteq> Inr (Unsolved, cs')"
  by (simp add: doesNotHaveMember_def)

lemma member_deferred:
  assumes "isTypeVariable (memberInstanceTy cs firstType)"
  shows "simplifyMemberConstraint tc ac kind firstType memberTy name locator cs = Inr (Unsolved, cs)"
  using assms by (simp add: simplifyMemberConstraint_def memberInstanceTy_def Let_def)

lemma member_never_unsolved:
  assumes "\<not> isTypeVariable (memberInstanceTy cs firstType)"
  shows "simplifyMemberConstraint tc ac kind firstType memberTy name locator cs \<noteq> Inr (Unsolved, cs')"
  using assms
  by (simp add: simplifyMemberConstraint_def memberInstanceTy_def Let_def solvedWith_not_Unsolved
      doesNotHaveMember_not_Unsolved split: option.split sum.split)

lemma member_base_concrete:
  assumes "\<not> isTypeVariable (memberInstanceTy cs firstType)"
  shows "\<not> isTypeVariable (simplifyType cs firstType)"
  using assms by (cases "simplifyType cs firstType") (simp_all add: memberInstanceTy_def)

lemma bind_unbound_variable:
  assumes "getFixedType cs v = None" and "\<not> isTypeVariable t"
    and "canBindToLValue (typeVariableImpl cs v) \<or> \<not> isLValueType t"
  shows "matchTypesN tc (Suc (Suc n)) (TypeVariableType v) t BindType flags loc cs =
     Inr (Solved, cs\<lparr>fixedType := (fixedType cs)(getRepresentative cs v := Some t)\<rparr>)"
proof -
  have ne: "TypeVariableType v \<noteq> t" using assms(2) by auto
  show ?thesis
    using assms ne
    by (auto simp: matchTypesN_Suc matchTypes_def getFixedTypeRecursive_unbound
        getFixedTypeRecursive_concrete unifyTypeVariables_def bindTypeVariables_def
        assignFixedType_def)
qed

lemma retire_fields:
  "fixedType (retire ex c cs) = fixedType cs"
  "representative (retire ex c cs) = representative cs"
  "resolvedOverloadSets (retire ex c cs) = resolvedOverloadSets cs"
  "Constraints (retire ex c cs) = Constraints cs"
  "typeVariableImpl (retire ex c cs) = typeVariableImpl cs"
  by (simp_all add: retire_def split: option.split)

lemma add_bind_constraint:
  assumes "getFixedType cs v = None" and "\<not> isTypeVariable t"
    and "canBindToLValue (typeVariableImpl cs v) \<or> \<not> isLValueType t"
  shows "addConstraintN tc (Suc (Suc (Suc n))) (TypesConstraint CK_Bind None (TypeVariableType v) t l)
           ext ex cs =
     Inr (True, retire ex (TypesConstraint CK_Bind None (TypeVariableType v) t l)
                  (cs\<lparr>fixedType := (fixedType cs)(getRepresentative cs v := Some t)\<rparr>))"
  using bind_unbound_variable [OF assms]
  by (simp add: addConstraintN_Suc [of tc "Suc (Suc n)"] addConstraint_def simplifyConstraint_def)

lemma add_identity_choice:
  assumes "getFixedType cs v = None" and "\<not> isTypeVariable t"
    and "canBindToLValue (typeVariableImpl cs v) \<or> \<not> isLValueType t"
  shows "\<exists>cs'. addBindOverloadConstraint (addConstraintN tc (Suc (Suc (Suc (Suc n)))))
           (TypeVariableType v) (OverloadChoice_Kind t OCK_BaseType) l cs = Inr cs'
        \<and> getFixedType cs' v = Some t
        \<and> resolvedOverloadSets cs' =
            ResolvedOverloadSetListItem (TypeVariableType v) (OverloadChoice_Kind t OCK_BaseType) l None t
            # resolvedOverloadSets cs"
  using add_bind_constraint [OF assms, of tc n None False False]
  by (simp add: addBindOverloadConstraint_def addConstraintN_Suc [of tc "Suc (Suc (Suc n))"]
      addConstraint_def simplifyConstraint_def resolveOverload_def resolvedReferenceType_def
      OverloadChoice_Kind_def addTypesConstraint_def solvedWith_def getFixedType_def
      getRepresentative_def retire_fields)

lemma member_empty_lookup:
  assumes "\<not> isTypeVariable (memberInstanceTy cs firstType)"
    and "getAsTupleType (getRValueType (simplifyType cs firstType)) = None"
    and "lookupMember tc (getRValueType (simplifyType cs firstType)) name = []"
    and "getAsInteger name = Some index"
  shows "simplifyMemberConstraint tc ac CK_ValueMember firstType memberTy name locator cs =
     (if index = 0
      then solvedWith (addBindOverloadConstraint ac memberTy
             (OverloadChoice_Kind (simplifyType cs firstType) OCK_BaseType) locator cs)
      else doesNotHaveMember locator (getRValueType (simplifyType cs firstType)) name cs)"
  using assms decimal_not_init [OF assms(4)]
  by (simp add: simplifyMemberConstraint_def memberInstanceTy_def Let_def)

text \<open>
  Claim C10, amended. On a concrete base type that is not a tuple and for which the
  member lookup finds no declaration, a \<open>ValueMember\<close> constraint whose name is a
  decimal number of value 0 (\<open>0\<close>, but also \<open>00\<close>) does not fail: it is solved by adding
  the overload choice of the base type itself, which binds the member type to the base
  type (for a member type that is an unbound type variable, the variable is fixed to
  the base type). A decimal name of another value fails with does-not-have-member.
\<close>

theorem zero_member_identity:
  assumes "\<not> isTypeVariable (memberInstanceTy cs firstType)"
    and "getAsTupleType (getRValueType (simplifyType cs firstType)) = None"
    and "lookupMember tc (getRValueType (simplifyType cs firstType)) name = []"
  shows
  "(getAsInteger name = Some 0 \<longrightarrow>
      simplifyMemberConstraint tc ac CK_ValueMember firstType memberTy name locator cs =
        solvedWith (addBindOverloadConstraint ac memberTy
          (OverloadChoice_Kind (simplifyType cs firstType) OCK_BaseType) locator cs))
   \<and> (getAsInteger name = Some 0 \<and> getFixedType cs v = None \<and>
       (canBindToLValue (typeVariableImpl cs v) \<or> \<not> isLValueType (simplifyType cs firstType)) \<longrightarrow>
      (\<exists>cs'. simplifyMemberConstraint tc (addConstraintN tc (Suc (Suc (Suc (Suc n)))))
               CK_ValueMember firstType (TypeVariableType v) name locator cs = Inr (Solved, cs')
            \<and> getFixedType cs' v = Some (simplifyType cs firstType)
            \<and> resolvedOverloadSets cs' =
                ResolvedOverloadSetListItem (TypeVariableType v)
                  (OverloadChoice_Kind (simplifyType cs firstType) OCK_BaseType) locator None
                  (simplifyType cs firstType)
                # resolvedOverloadSets cs))
   \<and> (getAsInteger name = Some index \<and> index \<noteq> 0 \<longrightarrow>
      simplifyMemberConstraint tc ac CK_ValueMember firstType memberTy name locator cs =
        Inr (Error,
          recordFailure locator DoesNotHaveMember
            [TypeArg (getRValueType (simplifyType cs firstType)), NameArg name] cs))"
proof (intro conjI impI)
  assume "getAsInteger name = Some 0"
  from member_empty_lookup [OF assms this]
  show "simplifyMemberConstraint tc ac CK_ValueMember firstType memberTy name locator cs =
        solvedWith (addBindOverloadConstraint ac memberTy
          (OverloadChoice_Kind (simplifyType cs firstType) OCK_BaseType) locator cs)"
    by simp
next
  assume a: "getAsInteger name = Some 0 \<and> getFixedType cs v = None \<and>
       (canBindToLValue (typeVariableImpl cs v) \<or> \<not> isLValueType (simplifyType cs firstType))"
  then have zero: "getAsInteger name = Some 0" and unbound: "getFixedType cs v = None"
    and lv: "canBindToLValue (typeVariableImpl cs v) \<or> \<not> isLValueType (simplifyType cs firstType)"
    by simp_all
  from add_identity_choice [OF unbound member_base_concrete [OF assms(1)] lv, of tc n locator]
  obtain cs' where
    added: "addBindOverloadConstraint (addConstraintN tc (Suc (Suc (Suc (Suc n)))))
           (TypeVariableType v) (OverloadChoice_Kind (simplifyType cs firstType) OCK_BaseType)
           locator cs = Inr cs'"
    and fixed: "getFixedType cs' v = Some (simplifyType cs firstType)"
    and sets: "resolvedOverloadSets cs' =
            ResolvedOverloadSetListItem (TypeVariableType v)
              (OverloadChoice_Kind (simplifyType cs firstType) OCK_BaseType) locator None
              (simplifyType cs firstType)
            # resolvedOverloadSets cs"
    by blast
  from member_empty_lookup [OF assms zero, of "addConstraintN tc (Suc (Suc (Suc (Suc n))))"
      "TypeVariableType v" locator] added
  have "simplifyMemberConstraint tc (addConstraintN tc (Suc (Suc (Suc (Suc n)))))
               CK_ValueMember firstType (TypeVariableType v) name locator cs = Inr (Solved, cs')"
    by (simp add: solvedWith_def)
  with fixed sets
  show "\<exists>cs'. simplifyMemberConstraint tc (addConstraintN tc (Suc (Suc (Suc (Suc n)))))
               CK_ValueMember firstType (TypeVariableType v) name locator cs = Inr (Solved, cs')
            \<and> getFixedType cs' v = Some (simplifyType cs firstType)
            \<and> resolvedOverloadSets cs' =
                ResolvedOverloadSetListItem (TypeVariableType v)
                  (OverloadChoice_Kind (simplifyType cs firstType) OCK_BaseType) locator None
                  (simplifyType cs firstType)
                # resolvedOverloadSets cs"
    by blast
next
  assume "getAsInteger name = Some index \<and> index \<noteq> 0"
  then have "getAsInteger name = Some index" and "index \<noteq> 0" by simp_all
  from member_empty_lookup [OF assms this(1)] this(2)
  show "simplifyMemberConstraint tc ac CK_ValueMember firstType memberTy name locator cs =
        Inr (Error,
          recordFailure locator DoesNotHaveMember
            [TypeArg (getRValueType (simplifyType cs firstType)), NameArg name] cs)"
    by (simp add: doesNotHaveMember_def)
qed

lemma plain_lookup: "lookupMember plainTC t n = []"
  by (auto simp: lookupMember_def plainTC_def exampleTC_def Let_def split: Type.splits)

lemma oneVariable_Int:
  "simplifyType oneVariable IntTy = IntTy"
  "\<not> isTypeVariable (memberInstanceTy oneVariable IntTy)"
  "getAsTupleType (getRValueType (simplifyType oneVariable IntTy)) = None"
  "getFixedType oneVariable 0 = None"
  "canBindToLValue (typeVariableImpl oneVariable 0)"
  by (simp_all add: simplifyType_def memberInstanceTy_def IntTy_def oneVariable_def
      createTypeVariable_def emptySystem_def getFixedType_def getRepresentative_def)

theorem zero_member_identity_witness:
  "\<not> isTypeVariable (memberInstanceTy oneVariable IntTy)
   \<and> getAsTupleType (getRValueType (simplifyType oneVariable IntTy)) = None
   \<and> lookupMember plainTC (getRValueType (simplifyType oneVariable IntTy)) ''0'' = []
   \<and> getAsInteger ''0'' = Some 0
   \<and> getFixedType oneVariable 0 = None
   \<and> canBindToLValue (typeVariableImpl oneVariable 0)
   \<and> (\<exists>cs'. simplifyMemberConstraint plainTC (addConstraintN plainTC 4)
               CK_ValueMember IntTy (TypeVariableType 0) ''0'' None oneVariable = Inr (Solved, cs')
            \<and> getFixedType cs' 0 = Some IntTy)
   \<and> getAsInteger ''1'' = Some 1
   \<and> simplifyMemberConstraint plainTC (addConstraintN plainTC 4)
        CK_ValueMember IntTy (TypeVariableType 0) ''1'' None oneVariable =
        Inr (Error, recordFailure None DoesNotHaveMember [TypeArg IntTy, NameArg ''1''] oneVariable)"
proof -
  have four: "(4::nat) = Suc (Suc (Suc (Suc 0)))" by simp
  have rv: "getRValueType IntTy = IntTy" by (simp add: IntTy_def)
  from oneVariable_Int getAsInteger_examples
    zero_member_identity [OF oneVariable_Int(2,3) plain_lookup,
      where name = "''0''" and v = 0 and n = 0 and locator = None]
  have solved: "\<exists>cs'. simplifyMemberConstraint plainTC (addConstraintN plainTC 4)
               CK_ValueMember IntTy (TypeVariableType 0) ''0'' None oneVariable = Inr (Solved, cs')
            \<and> getFixedType cs' 0 = Some IntTy"
    unfolding four oneVariable_Int(1) by blast
  from oneVariable_Int getAsInteger_examples
    zero_member_identity [OF oneVariable_Int(2,3) plain_lookup,
      where name = "''1''" and index = 1 and ac = "addConstraintN plainTC 4"
        and memberTy = "TypeVariableType 0" and locator = None]
  have failed: "simplifyMemberConstraint plainTC (addConstraintN plainTC 4)
        CK_ValueMember IntTy (TypeVariableType 0) ''1'' None oneVariable =
        Inr (Error, recordFailure None DoesNotHaveMember [TypeArg IntTy, NameArg ''1''] oneVariable)"
    by (simp add: rv)
  from solved failed oneVariable_Int getAsInteger_examples
  show ?thesis
    by (simp add: plain_lookup)
qed

text \<open>
  Claim C10 as stated fails: \<open>00\<close> is a decimal name other than \<open>0\<close>, and with an
  empty lookup on the base \<open>Int\<close> the constraint is solved, not failed.
\<close>

theorem double_zero_member_solved:
  "getAsInteger ''00'' = Some 0
   \<and> ''00'' \<noteq> ''0''
   \<and> lookupMember plainTC (getRValueType (simplifyType oneVariable IntTy)) ''00'' = []
   \<and> map_sum id fst (simplifyMemberConstraint plainTC (addConstraintN plainTC 4)
        CK_ValueMember IntTy (TypeVariableType 0) ''00'' None oneVariable) = Inr Solved"
proof -
  have four: "(4::nat) = Suc (Suc (Suc (Suc 0)))" by simp
  from add_identity_choice [of oneVariable 0 IntTy plainTC 0 None] oneVariable_Int
  obtain cs' where "addBindOverloadConstraint (addConstraintN plainTC 4)
           (TypeVariableType 0) (OverloadChoice_Kind IntTy OCK_BaseType) None oneVariable = Inr cs'"
    by (auto simp: four IntTy_def)
  with member_empty_lookup [OF oneVariable_Int(2,3) plain_lookup getAsInteger_examples(2),
      of "addConstraintN plainTC 4" "TypeVariableType 0" None]
  show ?thesis
    by (simp add: getAsInteger_examples plain_lookup oneVariable_Int solvedWith_def)
qed

text \<open>
  Claim C7, amended. A \<open>ValueMember\<close> or \<open>TypeMember\<close> constraint whose base
  instance type is still a type variable defers (\<open>Unsolved\<close>, the system unchanged);
  once it is not, the constraint is never \<open>Unsolved\<close>. With no candidate left it
  is an \<open>Error\<close> with the does-not-have-member failure: for a tuple base without such
  a field, for an initializer lookup without a usable initializer, for a type member
  lookup that finds nothing, and for a value member lookup that leaves no choice,
  unless the lookup found notype at all and the name is a decimal number of value 0
  (then the base type itself is the choice). What a type member lookup does when it
  finds only invalid declarations is left open here.
\<close>

theorem empty_member_lookup:
  assumes "kind = CK_ValueMember \<or> kind = CK_TypeMember"
  shows
  "(isTypeVariable (memberInstanceTy cs firstType) \<longrightarrow>
      simplifyMemberConstraint tc ac kind firstType memberTy name locator cs = Inr (Unsolved, cs))
   \<and> (\<not> isTypeVariable (memberInstanceTy cs firstType) \<longrightarrow>
      simplifyMemberConstraint tc ac kind firstType memberTy name locator cs \<noteq> Inr (Unsolved, cs'))
   \<and> (\<not> isTypeVariable (memberInstanceTy cs firstType)
       \<and> getAsTupleType (getRValueType (simplifyType cs firstType)) = Some baseTuple
       \<and> (case getAsInteger name of
             Some v \<Rightarrow> if v < length baseTuple then int v else getNamedElementId baseTuple name
           | None \<Rightarrow> getNamedElementId baseTuple name) = -1 \<longrightarrow>
      simplifyMemberConstraint tc ac kind firstType memberTy name locator cs =
        Inr (Error, recordFailure locator DoesNotHaveMember
               [TypeArg (getRValueType (simplifyType cs firstType)), NameArg name] cs))
   \<and> (\<not> isTypeVariable (memberInstanceTy cs firstType)
       \<and> getAsTupleType (getRValueType (simplifyType cs firstType)) = None
       \<and> name = ''init''
       \<and> constructorChoices tc (simplifyType cs firstType)
            (isExistentialType (memberInstanceTy cs firstType))
            (lookupConstructors tc (getRValueType (simplifyType cs firstType))) = Inr [] \<longrightarrow>
      simplifyMemberConstraint tc ac kind firstType memberTy name locator cs =
        Inr (Error, recordFailure locator DoesNotHaveMember
               [TypeArg (getRValueType (simplifyType cs firstType)), NameArg name] cs))
   \<and> (\<not> isTypeVariable (memberInstanceTy cs firstType)
       \<and> getAsTupleType (getRValueType (simplifyType cs firstType)) = None
       \<and> name \<noteq> ''init'' \<and> kind = CK_TypeMember
       \<and> lookupMemberType tc (getRValueType (simplifyType cs firstType)) name = [] \<longrightarrow>
      simplifyMemberConstraint tc ac kind firstType memberTy name locator cs =
        Inr (Error, recordFailure locator DoesNotHaveMember
               [TypeArg (getRValueType (simplifyType cs firstType)), NameArg name] cs))
   \<and> (\<not> isTypeVariable (memberInstanceTy cs firstType)
       \<and> getAsTupleType (getRValueType (simplifyType cs firstType)) = None
       \<and> name \<noteq> ''init'' \<and> kind = CK_ValueMember
       \<and> memberChoices tc (simplifyType cs firstType) (getRValueType (simplifyType cs firstType))
            (isExistentialType (memberInstanceTy cs firstType))
            (case getRValueType (simplifyType cs firstType) of MetaTypeType t \<Rightarrow> True | _ \<Rightarrow> False)
            (case memberInstanceTy cs firstType of
               ProtocolType d \<Rightarrow> isDynamicLookupProtocol tc d | _ \<Rightarrow> False)
            (lookupMember tc (getRValueType (simplifyType cs firstType)) name) = Inr []
       \<and> (lookupMember tc (getRValueType (simplifyType cs firstType)) name \<noteq> []
           \<or> getAsInteger name \<noteq> Some 0) \<longrightarrow>
      simplifyMemberConstraint tc ac kind firstType memberTy name locator cs =
        Inr (Error, recordFailure locator DoesNotHaveMember
               [TypeArg (getRValueType (simplifyType cs firstType)), NameArg name] cs))"
proof (intro conjI impI)
  assume "isTypeVariable (memberInstanceTy cs firstType)"
  then show "simplifyMemberConstraint tc ac kind firstType memberTy name locator cs = Inr (Unsolved, cs)"
    by (rule member_deferred)
next
  assume "\<not> isTypeVariable (memberInstanceTy cs firstType)"
  then show "simplifyMemberConstraint tc ac kind firstType memberTy name locator cs \<noteq> Inr (Unsolved, cs')"
    by (rule member_never_unsolved)
next
  assume "\<not> isTypeVariable (memberInstanceTy cs firstType)
       \<and> getAsTupleType (getRValueType (simplifyType cs firstType)) = Some baseTuple
       \<and> (case getAsInteger name of
             Some v \<Rightarrow> if v < length baseTuple then int v else getNamedElementId baseTuple name
           | None \<Rightarrow> getNamedElementId baseTuple name) = -1"
  then show "simplifyMemberConstraint tc ac kind firstType memberTy name locator cs =
        Inr (Error, recordFailure locator DoesNotHaveMember
               [TypeArg (getRValueType (simplifyType cs firstType)), NameArg name] cs)"
    by (simp add: simplifyMemberConstraint_def memberInstanceTy_def Let_def doesNotHaveMember_def)
next
  assume "\<not> isTypeVariable (memberInstanceTy cs firstType)
       \<and> getAsTupleType (getRValueType (simplifyType cs firstType)) = None
       \<and> name = ''init''
       \<and> constructorChoices tc (simplifyType cs firstType)
            (isExistentialType (memberInstanceTy cs firstType))
            (lookupConstructors tc (getRValueType (simplifyType cs firstType))) = Inr []"
  then show "simplifyMemberConstraint tc ac kind firstType memberTy name locator cs =
        Inr (Error, recordFailure locator DoesNotHaveMember
               [TypeArg (getRValueType (simplifyType cs firstType)), NameArg name] cs)"
    by (simp add: simplifyMemberConstraint_def memberInstanceTy_def Let_def doesNotHaveMember_def)
next
  assume "\<not> isTypeVariable (memberInstanceTy cs firstType)
       \<and> getAsTupleType (getRValueType (simplifyType cs firstType)) = None
       \<and> name \<noteq> ''init'' \<and> kind = CK_TypeMember
       \<and> lookupMemberType tc (getRValueType (simplifyType cs firstType)) name = []"
  then show "simplifyMemberConstraint tc ac kind firstType memberTy name locator cs =
        Inr (Error, recordFailure locator DoesNotHaveMember
               [TypeArg (getRValueType (simplifyType cs firstType)), NameArg name] cs)"
    by (simp add: simplifyMemberConstraint_def memberInstanceTy_def Let_def doesNotHaveMember_def)
next
  assume a: "\<not> isTypeVariable (memberInstanceTy cs firstType)
       \<and> getAsTupleType (getRValueType (simplifyType cs firstType)) = None
       \<and> name \<noteq> ''init'' \<and> kind = CK_ValueMember
       \<and> memberChoices tc (simplifyType cs firstType) (getRValueType (simplifyType cs firstType))
            (isExistentialType (memberInstanceTy cs firstType))
            (case getRValueType (simplifyType cs firstType) of MetaTypeType t \<Rightarrow> True | _ \<Rightarrow> False)
            (case memberInstanceTy cs firstType of
               ProtocolType d \<Rightarrow> isDynamicLookupProtocol tc d | _ \<Rightarrow> False)
            (lookupMember tc (getRValueType (simplifyType cs firstType)) name) = Inr []
       \<and> (lookupMember tc (getRValueType (simplifyType cs firstType)) name \<noteq> []
           \<or> getAsInteger name \<noteq> Some 0)"
  then show "simplifyMemberConstraint tc ac kind firstType memberTy name locator cs =
        Inr (Error, recordFailure locator DoesNotHaveMember
               [TypeArg (getRValueType (simplifyType cs firstType)), NameArg name] cs)"
    by (auto simp: simplifyMemberConstraint_def memberInstanceTy_def Let_def doesNotHaveMember_def
        split: option.split)
qed

theorem empty_member_lookup_witness:
  "isTypeVariable (memberInstanceTy oneVariable (TypeVariableType 0))
   \<and> simplifyMemberConstraint plainTC (addConstraintN plainTC 4) CK_ValueMember
        (TypeVariableType 0) IntTy ''x'' None oneVariable = Inr (Unsolved, oneVariable)
   \<and> \<not> isTypeVariable (memberInstanceTy oneVariable IntTy)
   \<and> getAsTupleType (getRValueType (simplifyType oneVariable IntTy)) = None
   \<and> lookupMemberType plainTC (getRValueType (simplifyType oneVariable IntTy)) ''T'' = []
   \<and> simplifyMemberConstraint plainTC (addConstraintN plainTC 4) CK_TypeMember
        IntTy (TypeVariableType 0) ''T'' None oneVariable =
        Inr (Error, recordFailure None DoesNotHaveMember [TypeArg IntTy, NameArg ''T''] oneVariable)"
proof -
  have var: "isTypeVariable (memberInstanceTy oneVariable (TypeVariableType 0))"
    by (simp add: memberInstanceTy_def simplifyType_def oneVariable_def createTypeVariable_def
        emptySystem_def getFixedType_def getRepresentative_def)
  have rv: "getRValueType IntTy = IntTy" by (simp add: IntTy_def)
  have notype: "lookupMemberType plainTC IntTy ''T'' = []"
    by (simp add: plainTC_def exampleTC_def)
  from var
    empty_member_lookup [where kind = CK_ValueMember and cs = oneVariable
      and firstType = "TypeVariableType 0" and tc = plainTC and ac = "addConstraintN plainTC 4"
      and memberTy = IntTy and name = "''x''" and locator = None]
  have deferred: "simplifyMemberConstraint plainTC (addConstraintN plainTC 4) CK_ValueMember
        (TypeVariableType 0) IntTy ''x'' None oneVariable = Inr (Unsolved, oneVariable)"
    by simp
  have init: "''T'' \<noteq> ''init''" by simp
  from empty_member_lookup [where kind = CK_TypeMember and cs = oneVariable
      and firstType = IntTy and tc = plainTC and ac = "addConstraintN plainTC 4"
      and memberTy = "TypeVariableType 0" and name = "''T''" and locator = None]
  have "\<not> isTypeVariable (memberInstanceTy oneVariable IntTy)
       \<and> getAsTupleType (getRValueType (simplifyType oneVariable IntTy)) = None
       \<and> ''T'' \<noteq> ''init'' \<and> CK_TypeMember = CK_TypeMember
       \<and> lookupMemberType plainTC (getRValueType (simplifyType oneVariable IntTy)) ''T'' = [] \<longrightarrow>
      simplifyMemberConstraint plainTC (addConstraintN plainTC 4) CK_TypeMember IntTy
        (TypeVariableType 0) ''T'' None oneVariable =
        Inr (Error, recordFailure None DoesNotHaveMember
               [TypeArg (getRValueType (simplifyType oneVariable IntTy)), NameArg ''T''] oneVariable)"
    by blast
  with oneVariable_Int notype rv init
  have failed: "simplifyMemberConstraint plainTC (addConstraintN plainTC 4) CK_TypeMember
        IntTy (TypeVariableType 0) ''T'' None oneVariable =
        Inr (Error, recordFailure None DoesNotHaveMember [TypeArg IntTy, NameArg ''T''] oneVariable)"
    by simp
  from var deferred failed oneVariable_Int notype rv show ?thesis
    by simp
qed

text \<open>
  Claim C7 as stated fails: on the concrete base \<open>Int\<close> the lookup of the value member
  \<open>0\<close> leaves no candidate, and the constraint is solved, not an error.
\<close>

theorem zero_member_not_error:
  "\<not> isTypeVariable (memberInstanceTy oneVariable IntTy)
   \<and> lookupMember plainTC (getRValueType (simplifyType oneVariable IntTy)) ''0'' = []
   \<and> map_sum id fst (simplifyMemberConstraint plainTC (addConstraintN plainTC 4)
        CK_ValueMember IntTy (TypeVariableType 0) ''0'' None oneVariable) = Inr Solved"
proof -
  have four: "(4::nat) = Suc (Suc (Suc (Suc 0)))" by simp
  from add_identity_choice [of oneVariable 0 IntTy plainTC 0 None] oneVariable_Int
  obtain cs' where "addBindOverloadConstraint (addConstraintN plainTC 4)
           (TypeVariableType 0) (OverloadChoice_Kind IntTy OCK_BaseType) None oneVariable = Inr cs'"
    by (auto simp: four IntTy_def)
  with member_empty_lookup [OF oneVariable_Int(2,3) plain_lookup getAsInteger_examples(1),
      of "addConstraintN plainTC 4" "TypeVariableType 0" None]
  show ?thesis
    by (simp add: plain_lookup oneVariable_Int solvedWith_def)
qed

text \<open>
  The case left open above: a type member lookup that finds only an invalid declaration
  calls \<^verbatim>\<open>addOverloadSet\<close> without choices, which fails its assertion, where the
  other lookups report does-not-have-member.
\<close>

lemma type_member_invalid_only:
  "simplifyMemberConstraint
     (plainTC\<lparr>lookupMemberType :=
        (\<lambda>t n. [(ValueDecl ''T'' TypeDecl IntTy True False False False False, IntTy)])\<rparr>)
     (addConstraintN plainTC 4) CK_TypeMember IntTy (TypeVariableType 0) ''T'' None oneVariable
   = Inl (AssertionFailed ''Empty overload set'')"
  by (simp add: simplifyMemberConstraint_def Let_def simplifyType_def IntTy_def
      addOverloadSet_def solvedWith_def)


subsection \<open>Type variables that differ in lvalue binding\<close>

lemma fileUnsolved_fields:
  "representative (fileUnsolved c ext ex cs) = representative cs"
  "fixedType (fileUnsolved c False ex cs) = fixedType cs"
  "Constraints (fileUnsolved c False ex cs) = Constraints cs @ [c]"
  by (simp_all add: fileUnsolved_def Let_def split: option.split)

lemma addConstraint_unsolved:
  "simplifyConstraint fuel tc mt ac c cs = Inr (Unsolved, cs') \<Longrightarrow>
   addConstraint fuel tc mt ac c ext ex cs = Inr (False, fileUnsolved c ext ex cs')"
  by (simp add: addConstraint_def fileUnsolved_def)

lemma getTypeMatchKind_getConstraintKind: "getTypeMatchKind (getConstraintKind kind) = Inr kind"
  by (cases kind) simp_all

lemma isRelational_getConstraintKind: "isRelational (getConstraintKind kind)"
  by (cases kind) simp_all

lemma no_generation: "TMF_None AND TMF_GenerateConstraints = 0"
  by (simp add: TMF_None_def TMF_GenerateConstraints_def)

lemma representatives_differ_unsolved:
  assumes kind: "kind = BindType \<or> kind = SameType"
    and unbound: "getFixedType cs r1 = None" "getFixedType cs r2 = None"
    and reps: "getRepresentative cs r1 = r1" "getRepresentative cs r2 = r2"
    and differ: "canBindToLValue (typeVariableImpl cs r1) \<noteq> canBindToLValue (typeVariableImpl cs r2)"
    and nogen: "flags AND TMF_GenerateConstraints = 0"
  shows "matchTypesN tc (Suc (Suc n)) (TypeVariableType r1) (TypeVariableType r2) kind flags locator cs
         = Inr (Unsolved, cs)"
proof -
  from differ have ne: "r1 \<noteq> r2" by auto
  show ?thesis
    using kind unbound reps differ nogen ne
    by (auto simp: matchTypesN_Suc matchTypes_def getFixedTypeRecursive_unbound
        unifyTypeVariables_def bindTypeVariables_def Let_def)
qed

lemma variables_differ_generated:
  assumes kind: "kind = BindType \<or> kind = SameType"
    and unbound: "getFixedType cs v1 = None" "getFixedType cs v2 = None"
    and idem: "getRepresentative cs (getRepresentative cs v1) = getRepresentative cs v1"
      "getRepresentative cs (getRepresentative cs v2) = getRepresentative cs v2"
    and differ: "canBindToLValue (typeVariableImpl cs (getRepresentative cs v1))
                 \<noteq> canBindToLValue (typeVariableImpl cs (getRepresentative cs v2))"
    and gen: "flags AND TMF_GenerateConstraints \<noteq> 0"
  shows "matchTypesN tc (Suc (Suc (Suc (Suc n)))) (TypeVariableType v1) (TypeVariableType v2) kind
           flags locator cs
         = Inr (Solved,
             fileUnsolved
               (TypesConstraint (getConstraintKind kind) None
                  (TypeVariableType (getRepresentative cs v1))
                  (TypeVariableType (getRepresentative cs v2)) (getConstraintLocator locator))
               False False cs)"
proof -
  let ?r1 = "getRepresentative cs v1" and ?r2 = "getRepresentative cs v2"
  let ?c = "TypesConstraint (getConstraintKind kind) None (TypeVariableType ?r1)
              (TypeVariableType ?r2) (getConstraintLocator locator)"
  from differ have ne: "v1 \<noteq> v2"
    and rne: "getRepresentative cs v1 \<noteq> getRepresentative cs v2" by auto
  have u1: "getFixedType cs ?r1 = None" and u2: "getFixedType cs ?r2 = None"
    using unbound idem by (simp_all add: getFixedType_def)
  have inner: "matchTypesN tc (Suc (Suc n)) (TypeVariableType ?r1) (TypeVariableType ?r2) kind
                 TMF_None (locatorBuilder (getConstraintLocator locator)) cs = Inr (Unsolved, cs)"
    by (rule representatives_differ_unsolved [OF kind u1 u2 idem differ no_generation])
  have simp: "simplifyConstraint (Suc (Suc n)) tc (matchTypesN tc (Suc (Suc n)))
                (addConstraintN tc (Suc (Suc n))) ?c cs = Inr (Unsolved, cs)"
    using inner
    by (simp add: simplifyConstraint_def isRelational_getConstraintKind
        getTypeMatchKind_getConstraintKind)
  have add: "addConstraintN tc (Suc (Suc (Suc n))) ?c False False cs
             = Inr (False, fileUnsolved ?c False False cs)"
    using addConstraint_unsolved [OF simp] by (simp add: addConstraintN_Suc)
  show ?thesis
    using kind unbound differ gen ne rne add
    by (auto simp: matchTypesN_Suc [of tc "Suc (Suc (Suc n))"] matchTypes_def
        getFixedTypeRecursive_unbound unifyTypeVariables_def bindTypeVariables_def Let_def
        addTypesConstraint_def)
qed

lemma variables_differ_not_generated:
  assumes kind: "kind = BindType \<or> kind = SameType"
    and unbound: "getFixedType cs v1 = None" "getFixedType cs v2 = None"
    and differ: "canBindToLValue (typeVariableImpl cs (getRepresentative cs v1))
                 \<noteq> canBindToLValue (typeVariableImpl cs (getRepresentative cs v2))"
    and nogen: "flags AND TMF_GenerateConstraints = 0"
  shows "matchTypesN tc (Suc (Suc n)) (TypeVariableType v1) (TypeVariableType v2) kind
           flags locator cs = Inr (Unsolved, cs)"
proof -
  from differ have ne: "v1 \<noteq> v2"
    and rne: "getRepresentative cs v1 \<noteq> getRepresentative cs v2" by auto
  show ?thesis
    using kind unbound differ nogen ne rne
    by (auto simp: matchTypesN_Suc matchTypes_def getFixedTypeRecursive_unbound
        unifyTypeVariables_def bindTypeVariables_def Let_def)
qed

lemma variables_agree_merged:
  assumes kind: "kind = BindType \<or> kind = SameType"
    and unbound: "getFixedType cs v1 = None" "getFixedType cs v2 = None"
    and idem: "getRepresentative cs (getRepresentative cs v1) = getRepresentative cs v1"
      "getRepresentative cs (getRepresentative cs v2) = getRepresentative cs v2"
    and agree: "canBindToLValue (typeVariableImpl cs (getRepresentative cs v1))
                 = canBindToLValue (typeVariableImpl cs (getRepresentative cs v2))"
    and ne: "getRepresentative cs v1 \<noteq> getRepresentative cs v2"
  shows "\<exists>cs'. matchTypesN tc (Suc (Suc n)) (TypeVariableType v1) (TypeVariableType v2) kind
           flags locator cs = Inr (Solved, cs')
         \<and> getRepresentative cs' v1 = getRepresentative cs' v2"
proof -
  from ne have vne: "v1 \<noteq> v2" by auto
  show ?thesis
    using kind unbound idem agree ne vne
    by (auto simp: matchTypesN_Suc matchTypes_def getFixedTypeRecursive_unbound
        unifyTypeVariables_def bindTypeVariables_def Let_def mergeEquivalenceClasses_def
        getRepresentative_def max_def min_def)
qed


text \<open>
  Claim C5. Let \<open>v1\<close> and \<open>v2\<close> be unbound type variables of a well-formed store (the
  representative of a representative is itself), matched at kind \<open>Bind\<close> or \<open>Equal\<close>.
  If exactly one of their representatives can bind to an lvalue, the classes are not
  merged: with constraint generation enabled the relational constraint of that kind
  between the two representatives is added (it is filed as unsolved) and the result
  is \<open>Solved\<close>; without it the result is \<open>Unsolved\<close> and the system is unchanged.
  If the representatives differ and agree on the capability, the classes are merged.
  So the two variables have one representative afterwards only if the representatives
  agreed.
\<close>

theorem lvalue_capability_blocks_merge:
  assumes kind: "kind = BindType \<or> kind = SameType"
    and unbound: "getFixedType cs v1 = None" "getFixedType cs v2 = None"
    and idem: "getRepresentative cs (getRepresentative cs v1) = getRepresentative cs v1"
      "getRepresentative cs (getRepresentative cs v2) = getRepresentative cs v2"
  shows
  "(canBindToLValue (typeVariableImpl cs (getRepresentative cs v1))
      \<noteq> canBindToLValue (typeVariableImpl cs (getRepresentative cs v2))
    \<and> flags AND TMF_GenerateConstraints \<noteq> 0 \<longrightarrow>
      matchTypesN tc (Suc (Suc (Suc (Suc n)))) (TypeVariableType v1) (TypeVariableType v2) kind
        flags locator cs
      = Inr (Solved,
          fileUnsolved
            (TypesConstraint (getConstraintKind kind) None
               (TypeVariableType (getRepresentative cs v1))
               (TypeVariableType (getRepresentative cs v2)) (getConstraintLocator locator))
            False False cs)
      \<and> Constraints (fileUnsolved
            (TypesConstraint (getConstraintKind kind) None
               (TypeVariableType (getRepresentative cs v1))
               (TypeVariableType (getRepresentative cs v2)) (getConstraintLocator locator))
            False False cs)
          = Constraints cs @
            [TypesConstraint (getConstraintKind kind) None
               (TypeVariableType (getRepresentative cs v1))
               (TypeVariableType (getRepresentative cs v2)) (getConstraintLocator locator)]
      \<and> representative (fileUnsolved
            (TypesConstraint (getConstraintKind kind) None
               (TypeVariableType (getRepresentative cs v1))
               (TypeVariableType (getRepresentative cs v2)) (getConstraintLocator locator))
            False False cs)
          = representative cs)
   \<and> (canBindToLValue (typeVariableImpl cs (getRepresentative cs v1))
      \<noteq> canBindToLValue (typeVariableImpl cs (getRepresentative cs v2))
    \<and> flags AND TMF_GenerateConstraints = 0 \<longrightarrow>
      matchTypesN tc (Suc (Suc (Suc (Suc n)))) (TypeVariableType v1) (TypeVariableType v2) kind
        flags locator cs = Inr (Unsolved, cs))
   \<and> (canBindToLValue (typeVariableImpl cs (getRepresentative cs v1))
      = canBindToLValue (typeVariableImpl cs (getRepresentative cs v2))
    \<and> getRepresentative cs v1 \<noteq> getRepresentative cs v2 \<longrightarrow>
      (\<exists>cs'. matchTypesN tc (Suc (Suc (Suc (Suc n)))) (TypeVariableType v1) (TypeVariableType v2)
               kind flags locator cs = Inr (Solved, cs')
            \<and> getRepresentative cs' v1 = getRepresentative cs' v2))
   \<and> (matchTypesN tc (Suc (Suc (Suc (Suc n)))) (TypeVariableType v1) (TypeVariableType v2) kind
        flags locator cs = Inr (result, cs')
    \<and> getRepresentative cs v1 \<noteq> getRepresentative cs v2
    \<and> getRepresentative cs' v1 = getRepresentative cs' v2 \<longrightarrow>
      canBindToLValue (typeVariableImpl cs (getRepresentative cs v1))
      = canBindToLValue (typeVariableImpl cs (getRepresentative cs v2)))"
proof -
  let ?M = "matchTypesN tc (Suc (Suc (Suc (Suc n)))) (TypeVariableType v1) (TypeVariableType v2)
              kind flags locator cs"
  let ?c = "TypesConstraint (getConstraintKind kind) None
               (TypeVariableType (getRepresentative cs v1))
               (TypeVariableType (getRepresentative cs v2)) (getConstraintLocator locator)"
  let ?differ = "canBindToLValue (typeVariableImpl cs (getRepresentative cs v1))
      \<noteq> canBindToLValue (typeVariableImpl cs (getRepresentative cs v2))"
  have gen: "?M = Inr (Solved, fileUnsolved ?c False False cs)"
    if "?differ" "flags AND TMF_GenerateConstraints \<noteq> 0"
    using variables_differ_generated [OF kind unbound idem that] .
  have nogen: "?M = Inr (Unsolved, cs)"
    if "?differ" "flags AND TMF_GenerateConstraints = 0"
    using variables_differ_not_generated [OF kind unbound that, of tc "Suc (Suc n)" locator] .
  have merged: "\<exists>cs'. ?M = Inr (Solved, cs') \<and> getRepresentative cs' v1 = getRepresentative cs' v2"
    if "\<not> ?differ" "getRepresentative cs v1 \<noteq> getRepresentative cs v2"
    using variables_agree_merged [OF kind unbound idem _ that(2), of tc "Suc (Suc n)" flags locator]
      that(1) by simp
  have only: "\<not> ?differ"
    if m: "?M = Inr (result, cs')" and ne: "getRepresentative cs v1 \<noteq> getRepresentative cs v2"
      and eq: "getRepresentative cs' v1 = getRepresentative cs' v2"
  proof
    assume d: "?differ"
    show False
    proof (cases "flags AND TMF_GenerateConstraints = 0")
      case True
      from nogen [OF d True] m have "cs' = cs" by simp
      with ne eq show False by simp
    next
      case False
      from gen [OF d False] m have "cs' = fileUnsolved ?c False False cs" by simp
      with ne eq show False by (simp add: getRepresentative_def fileUnsolved_fields)
    qed
  qed
  show ?thesis
  proof (intro conjI impI)
    assume "?differ \<and> flags AND TMF_GenerateConstraints \<noteq> 0"
    then show "?M = Inr (Solved, fileUnsolved ?c False False cs)"
      using gen by blast
  next
    show "Constraints (fileUnsolved ?c False False cs) = Constraints cs @ [?c]"
      by (rule fileUnsolved_fields)
  next
    show "representative (fileUnsolved ?c False False cs) = representative cs"
      by (rule fileUnsolved_fields)
  next
    assume "?differ \<and> flags AND TMF_GenerateConstraints = 0"
    then show "?M = Inr (Unsolved, cs)"
      using nogen by blast
  next
    assume "canBindToLValue (typeVariableImpl cs (getRepresentative cs v1))
        = canBindToLValue (typeVariableImpl cs (getRepresentative cs v2))
      \<and> getRepresentative cs v1 \<noteq> getRepresentative cs v2"
    then show "\<exists>cs'. ?M = Inr (Solved, cs') \<and> getRepresentative cs' v1 = getRepresentative cs' v2"
      using merged by blast
  next
    assume "?M = Inr (result, cs')
      \<and> getRepresentative cs v1 \<noteq> getRepresentative cs v2
      \<and> getRepresentative cs' v1 = getRepresentative cs' v2"
    then show "canBindToLValue (typeVariableImpl cs (getRepresentative cs v1))
        = canBindToLValue (typeVariableImpl cs (getRepresentative cs v2))"
      using only by blast
  qed
qed

theorem lvalue_capability_blocks_merge_witness:
  "getFixedType twoVariables 0 = None \<and> getFixedType twoVariables 1 = None
   \<and> getRepresentative twoVariables 0 = 0 \<and> getRepresentative twoVariables 1 = 1
   \<and> canBindToLValue (typeVariableImpl twoVariables 0)
   \<and> \<not> canBindToLValue (typeVariableImpl twoVariables 1)
   \<and> TMF_GenerateConstraints AND TMF_GenerateConstraints \<noteq> 0
   \<and> matchTypesN plainTC 4 (TypeVariableType 0) (TypeVariableType 1) SameType
        TMF_GenerateConstraints (locatorBuilder None) twoVariables
      = Inr (Solved,
          fileUnsolved (TypesConstraint CK_Equal None (TypeVariableType 0) (TypeVariableType 1) None)
            False False twoVariables)
   \<and> matchTypesN plainTC 4 (TypeVariableType 0) (TypeVariableType 1) SameType
        TMF_None (locatorBuilder None) twoVariables
      = Inr (Unsolved, twoVariables)"
proof -
  have four: "(4::nat) = Suc (Suc (Suc (Suc 0)))" by simp
  have state: "getFixedType twoVariables 0 = None" "getFixedType twoVariables 1 = None"
    "getRepresentative twoVariables 0 = 0" "getRepresentative twoVariables 1 = 1"
    "canBindToLValue (typeVariableImpl twoVariables 0)"
    "\<not> canBindToLValue (typeVariableImpl twoVariables 1)"
    by (simp_all add: twoVariables_def oneVariable_def createTypeVariable_def emptySystem_def
        getFixedType_def getRepresentative_def)
  have flag: "TMF_GenerateConstraints AND TMF_GenerateConstraints \<noteq> 0"
    by (simp add: TMF_GenerateConstraints_def)
  have loc: "getConstraintLocator (locatorBuilder None) = None"
    by (simp add: getConstraintLocator_def locatorBuilder_def hasEmptyPath_def)
  from state flag loc no_generation
    lvalue_capability_blocks_merge [where kind = SameType and cs = twoVariables and ?v1.0 = 0
      and ?v2.0 = 1 and tc = plainTC and n = 0 and locator = "locatorBuilder None"
      and flags = TMF_GenerateConstraints]
    lvalue_capability_blocks_merge [where kind = SameType and cs = twoVariables and ?v1.0 = 0
      and ?v2.0 = 1 and tc = plainTC and n = 0 and locator = "locatorBuilder None"
      and flags = TMF_None]
  show ?thesis
    by (simp add: four)
qed


subsection \<open>Committing to the potential conversions\<close>

lemma matchTypes_commits:
  assumes "getFixedTypeRecursive fuel cs t1 (kind = SameType) = Inr (type1, typeVar1)"
    and "getFixedTypeRecursive fuel cs t2 (kind = SameType) = Inr (type2, typeVar2)"
    and "type1 \<noteq> type2"
    and "(if typeVar1 \<noteq> None \<or> typeVar2 \<noteq> None
          then unifyTypeVariables ac type1 typeVar1 type2 typeVar2 kind flags locator cs
          else None) = None"
    and "decomposeParallelStructure tc mt type1 type2 kind flags locator cs = Inr pcs0"
    and "nonStructuralConversions tc mt type1 type2 (typeVar1 = None \<and> typeVar2 = None) kind
           flags locator pcs0 cs = Inr pcs"
  shows "matchTypes fuel tc mt ac t1 t2 kind flags locator cs =
           commitToConversions fuel tc mt ac type1 typeVar1 type2 typeVar2 kind flags locator pcs cs"
  using assms by (simp add: matchTypes_def Let_def)

lemma addConstraintN_disjunction:
  "addConstraintN tc (Suc n) (NestedConstraint CK_Disjunction alts l) ext ex cs =
     Inr (False, fileUnsolved (NestedConstraint CK_Disjunction alts l) ext ex cs)"
  by (simp add: addConstraintN_Suc addConstraint_disjunction)

lemma createDisjunction_many:
  "1 < length constraints \<Longrightarrow>
   createDisjunction constraints l = Inr (NestedConstraint CK_Disjunction constraints l)"
  by (cases constraints; cases "tl constraints") (auto simp: createDisjunction_def)

text \<open>
  Claim C3. When \<^verbatim>\<open>matchTypes\<close> reaches the label with the list \<open>pcs\<close> of potential
  conversions (the two sides looked through to different types, the type variables,
  if any, not unified, no structural case returning): with no candidate the result is
  \<open>Unsolved\<close> if a type variable is involved and \<open>Error\<close> otherwise (the relational
  failure is recorded when recording is on); with one candidate the result is that of
  the matcher of this restriction, called directly on the two types (the tuple matchers
  on the elements of the tuples, the matchers through an optional on its argument);
  with more than one a disjunction with one restricted constraint per candidate is added
  (it is filed among the unsolved constraints) and the result is \<open>Solved\<close>.
\<close>

theorem commit_to_conversions:
  assumes "getFixedTypeRecursive (Suc n) cs t1 (kind = SameType) = Inr (type1, typeVar1)"
    and "getFixedTypeRecursive (Suc n) cs t2 (kind = SameType) = Inr (type2, typeVar2)"
    and "type1 \<noteq> type2"
    and "(if typeVar1 \<noteq> None \<or> typeVar2 \<noteq> None
          then unifyTypeVariables (addConstraintN tc (Suc n)) type1 typeVar1 type2 typeVar2 kind
                 flags locator cs
          else None) = None"
    and "decomposeParallelStructure tc (matchTypesN tc (Suc n)) type1 type2 kind flags locator cs
           = Inr pcs0"
    and "nonStructuralConversions tc (matchTypesN tc (Suc n)) type1 type2
           (typeVar1 = None \<and> typeVar2 = None) kind flags locator pcs0 cs = Inr pcs"
  shows
  "(pcs = [] \<and> (typeVar1 \<noteq> None \<or> typeVar2 \<noteq> None) \<longrightarrow>
      matchTypesN tc (Suc (Suc n)) t1 t2 kind flags locator cs = Inr (Unsolved, cs))
   \<and> (pcs = [] \<and> typeVar1 = None \<and> typeVar2 = None \<longrightarrow>
      matchTypesN tc (Suc (Suc n)) t1 t2 kind flags locator cs =
        Inr (Error,
          if shouldRecordFailures cs
          then recordFailure (getConstraintLocator locator) (getRelationalFailureKind kind)
                 [TypeArg type1, TypeArg type2] cs
          else cs))
   \<and> (pcs = [TupleToTuple] \<and> type1 = TupleType tuple1 \<and> type2 = TupleType tuple2 \<longrightarrow>
      matchTypesN tc (Suc (Suc n)) t1 t2 kind flags locator cs =
        matchTupleTypes tc (matchTypesN tc (Suc n)) tuple1 tuple2 kind flags locator cs)
   \<and> (pcs = [ScalarToTuple] \<and> type2 = TupleType tuple2 \<longrightarrow>
      matchTypesN tc (Suc (Suc n)) t1 t2 kind flags locator cs =
        matchScalarToTupleTypes (matchTypesN tc (Suc n)) type1 tuple2 kind
          (flags OR TMF_GenerateConstraints) locator cs)
   \<and> (pcs = [TupleToScalar] \<and> type1 = TupleType tuple1 \<longrightarrow>
      matchTypesN tc (Suc (Suc n)) t1 t2 kind flags locator cs =
        matchTupleToScalarTypes (matchTypesN tc (Suc n)) tuple1 type2 kind
          (flags OR TMF_GenerateConstraints) locator cs)
   \<and> (pcs = [DeepEquality] \<longrightarrow>
      matchTypesN tc (Suc (Suc n)) t1 t2 kind flags locator cs =
        matchDeepEqualityTypes (matchTypesN tc (Suc n)) type1 type2 locator cs)
   \<and> (pcs = [Superclass] \<longrightarrow>
      matchTypesN tc (Suc (Suc n)) t1 t2 kind flags locator cs =
        matchSuperclassTypes (Suc n) tc (matchTypesN tc (Suc n)) type1 type2 kind flags locator cs)
   \<and> (pcs = [LValueToRValue] \<longrightarrow>
      matchTypesN tc (Suc (Suc n)) t1 t2 kind flags locator cs =
        matchTypesN tc (Suc n) (getRValueType type1) type2 kind
          (flags OR TMF_GenerateConstraints) locator cs)
   \<and> (pcs = [Existential] \<longrightarrow>
      matchTypesN tc (Suc (Suc n)) t1 t2 kind flags locator cs =
        matchExistentialTypes (Suc n) tc (addConstraintN tc (Suc n)) type1 type2 kind flags
          locator cs)
   \<and> (pcs = [ValueToOptional] \<and> type2 = BoundGenericType gk2 OptionalDecl parent2 [arg2] \<longrightarrow>
      matchTypesN tc (Suc (Suc n)) t1 t2 kind flags locator cs =
        matchTypesN tc (Suc n) type1 arg2 kind (flags OR TMF_GenerateConstraints) locator cs)
   \<and> (pcs = [OptionalToOptional] \<and> type1 = BoundGenericType gk1 OptionalDecl parent1 [arg1]
        \<and> type2 = BoundGenericType gk2 OptionalDecl parent2 [arg2] \<longrightarrow>
      matchTypesN tc (Suc (Suc n)) t1 t2 kind flags locator cs =
        matchTypesN tc (Suc n) arg1 arg2 kind (flags OR TMF_GenerateConstraints) locator cs)
   \<and> (pcs = [User] \<longrightarrow>
      matchTypesN tc (Suc (Suc n)) t1 t2 kind flags locator cs =
        tryUserConversion tc (addConstraintN tc (Suc n)) type1 CK_Subtype type2 locator cs)
   \<and> (1 < length pcs \<longrightarrow>
      matchTypesN tc (Suc (Suc n)) t1 t2 kind flags locator cs =
        Inr (Solved,
          fileUnsolved
            (NestedConstraint CK_Disjunction
               (map (\<lambda>potential.
                       TypesConstraint
                         (if potential = DeepEquality then CK_Equal else getConstraintKind kind)
                         (Some potential) type1 type2 (getConstraintLocator locator))
                    pcs)
               (getConstraintLocator locator))
            False False cs))"
proof -
  have commits: "matchTypesN tc (Suc (Suc n)) t1 t2 kind flags locator cs =
      commitToConversions (Suc n) tc (matchTypesN tc (Suc n)) (addConstraintN tc (Suc n))
        type1 typeVar1 type2 typeVar2 kind flags locator pcs cs"
    unfolding matchTypesN_Suc [of tc "Suc n"] by (rule matchTypes_commits [OF assms])
  show ?thesis
    unfolding commits
    by (auto simp: commitToConversions_def matchRestriction_def Let_def createDisjunction_many
        addConstraintN_disjunction)
qed

theorem commit_to_conversions_witness:
  "getFixedTypeRecursive (Suc 0) (emptySystem None) IntTuple1 (Subtype = SameType)
     = Inr (IntTuple1, None)
   \<and> getFixedTypeRecursive (Suc 0) (emptySystem None) IntTupleX (Subtype = SameType)
     = Inr (IntTupleX, None)
   \<and> IntTuple1 \<noteq> IntTupleX
   \<and> decomposeParallelStructure plainTC (matchTypesN plainTC (Suc 0)) IntTuple1 IntTupleX Subtype
       TMF_None (locatorBuilder None) (emptySystem None) = Inr [TupleToTuple]
   \<and> nonStructuralConversions plainTC (matchTypesN plainTC (Suc 0)) IntTuple1 IntTupleX True Subtype
       TMF_None (locatorBuilder None) [TupleToTuple] (emptySystem None)
       = Inr [TupleToTuple, ScalarToTuple]
   \<and> matchTypesN plainTC (Suc (Suc 0)) IntTuple1 IntTupleX Subtype TMF_None (locatorBuilder None)
       (emptySystem None)
     = Inr (Solved,
         fileUnsolved
           (NestedConstraint CK_Disjunction
              [TypesConstraint CK_Subtype (Some TupleToTuple) IntTuple1 IntTupleX None,
               TypesConstraint CK_Subtype (Some ScalarToTuple) IntTuple1 IntTupleX None]
              None)
           False False (emptySystem None))
   \<and> nonStructuralConversions plainTC (matchTypesN plainTC (Suc 0)) IntTy (OptionalType_get IntTy)
       True Subtype TMF_None (locatorBuilder None) [] (emptySystem None) = Inr []
   \<and> matchTypesN plainTC (Suc (Suc 0)) IntTy (OptionalType_get IntTy) Subtype TMF_None
       (locatorBuilder None) (emptySystem None)
     = Inr (Error,
         recordFailure None TypesNotSubtypes [TypeArg IntTy, TypeArg (OptionalType_get IntTy)]
           (emptySystem None))
   \<and> nonStructuralConversions plainTC (matchTypesN plainTC (Suc 0)) IntTy (OptionalType_get IntTy)
       True Conversion TMF_None (locatorBuilder None) [] (emptySystem None) = Inr [ValueToOptional]
   \<and> matchTypesN plainTC (Suc 0) IntTy IntTy Conversion (TMF_None OR TMF_GenerateConstraints)
       (locatorBuilder None) (emptySystem None) = Inr (Solved, emptySystem None)
   \<and> matchTypesN plainTC (Suc (Suc 0)) IntTy (OptionalType_get IntTy) Conversion TMF_None
       (locatorBuilder None) (emptySystem None) = Inr (Solved, emptySystem None)
   \<and> getFixedTypeRecursive (Suc 0) oneVariable (TypeVariableType 0) (Subtype = SameType)
     = Inr (TypeVariableType 0, Some 0)
   \<and> nonStructuralConversions plainTC (matchTypesN plainTC (Suc 0)) (TypeVariableType 0) IntTy
       False Subtype TMF_None (locatorBuilder None) [] oneVariable = Inr []
   \<and> matchTypesN plainTC (Suc (Suc 0)) (TypeVariableType 0) IntTy Subtype TMF_None
       (locatorBuilder None) oneVariable = Inr (Unsolved, oneVariable)"
proof -
  have l1: "getFixedTypeRecursive (Suc 0) (emptySystem None) IntTuple1 (Subtype = SameType)
     = Inr (IntTuple1, None)"
    and l2: "getFixedTypeRecursive (Suc 0) (emptySystem None) IntTupleX (Subtype = SameType)
     = Inr (IntTupleX, None)"
    and l3: "getFixedTypeRecursive (Suc 0) (emptySystem None) IntTy (Subtype = SameType)
     = Inr (IntTy, None)"
    and l4: "getFixedTypeRecursive (Suc 0) (emptySystem None) (OptionalType_get IntTy)
       (Subtype = SameType) = Inr (OptionalType_get IntTy, None)"
    by (simp_all add: getFixedTypeRecursive_concrete IntTuple1_def IntTupleX_def IntTy_def
        OptionalType_get_def)
  have ne: "IntTuple1 \<noteq> IntTupleX" "IntTy \<noteq> OptionalType_get IntTy"
    by (simp_all add: IntTuple1_def IntTupleX_def IntTy_def OptionalType_get_def)
  have d1: "decomposeParallelStructure plainTC (matchTypesN plainTC (Suc 0)) IntTuple1 IntTupleX
       Subtype TMF_None (locatorBuilder None) (emptySystem None) = Inr [TupleToTuple]"
    and d2: "decomposeParallelStructure plainTC (matchTypesN plainTC (Suc 0)) IntTy
       (OptionalType_get IntTy) Subtype TMF_None (locatorBuilder None) (emptySystem None) = Inr []"
    by (simp_all add: decomposeParallelStructure_def IntTuple1_def IntTupleX_def IntTy_def
        OptionalType_get_def)
  have c1: "nonStructuralConversions plainTC (matchTypesN plainTC (Suc 0)) IntTuple1 IntTupleX
       True Subtype TMF_None (locatorBuilder None) [TupleToTuple] (emptySystem None)
       = Inr [TupleToTuple, ScalarToTuple]"
    and c2: "nonStructuralConversions plainTC (matchTypesN plainTC (Suc 0)) IntTy
       (OptionalType_get IntTy) True Subtype TMF_None (locatorBuilder None) [] (emptySystem None)
       = Inr []"
    by (simp_all add: collect_defs IntTuple1_def IntTupleX_def IntTy_def OptionalType_get_def
        getFieldForScalarInit_def)
  have rec: "shouldRecordFailures (emptySystem None)"
    by (simp add: shouldRecordFailures_def emptySystem_def)
  have loc: "getConstraintLocator (locatorBuilder None) = None"
    by (simp add: getConstraintLocator_def locatorBuilder_def hasEmptyPath_def)
  from commit_to_conversions [where n = 0 and cs = "emptySystem None" and ?t1.0 = IntTuple1
      and ?t2.0 = IntTupleX and kind = Subtype and ?type1.0 = IntTuple1 and ?type2.0 = IntTupleX
      and ?typeVar1.0 = None and ?typeVar2.0 = None and tc = plainTC and flags = TMF_None
      and locator = "locatorBuilder None" and ?pcs0.0 = "[TupleToTuple]"
      and pcs = "[TupleToTuple, ScalarToTuple]", OF l1 l2 ne(1) _ d1]
    c1 loc
  have many: "matchTypesN plainTC (Suc (Suc 0)) IntTuple1 IntTupleX Subtype TMF_None
       (locatorBuilder None) (emptySystem None)
     = Inr (Solved,
         fileUnsolved
           (NestedConstraint CK_Disjunction
              [TypesConstraint CK_Subtype (Some TupleToTuple) IntTuple1 IntTupleX None,
               TypesConstraint CK_Subtype (Some ScalarToTuple) IntTuple1 IntTupleX None]
              None)
           False False (emptySystem None))"
    by simp
  from commit_to_conversions [where n = 0 and cs = "emptySystem None" and ?t1.0 = IntTy
      and ?t2.0 = "OptionalType_get IntTy" and kind = Subtype and ?type1.0 = IntTy
      and ?type2.0 = "OptionalType_get IntTy"
      and ?typeVar1.0 = None and ?typeVar2.0 = None and tc = plainTC and flags = TMF_None
      and locator = "locatorBuilder None" and ?pcs0.0 = "[]"
      and pcs = "[]", OF l3 l4 ne(2) _ d2]
    c2 loc rec
  have none: "matchTypesN plainTC (Suc (Suc 0)) IntTy (OptionalType_get IntTy) Subtype TMF_None
       (locatorBuilder None) (emptySystem None)
     = Inr (Error,
         recordFailure None TypesNotSubtypes [TypeArg IntTy, TypeArg (OptionalType_get IntTy)]
           (emptySystem None))"
    by simp
  have l5: "getFixedTypeRecursive (Suc 0) (emptySystem None) IntTy (Conversion = SameType)
     = Inr (IntTy, None)"
    and l6: "getFixedTypeRecursive (Suc 0) (emptySystem None) (OptionalType_get IntTy)
       (Conversion = SameType) = Inr (OptionalType_get IntTy, None)"
    and l7: "getFixedTypeRecursive (Suc 0) oneVariable IntTy (Subtype = SameType)
     = Inr (IntTy, None)"
    by (simp_all add: getFixedTypeRecursive_concrete IntTy_def OptionalType_get_def)
  have l8: "getFixedTypeRecursive (Suc 0) oneVariable (TypeVariableType 0) (Subtype = SameType)
     = Inr (TypeVariableType 0, Some 0)"
    using oneVariable_Int(4) by (rule getFixedTypeRecursive_unbound)
  have ne3: "TypeVariableType 0 \<noteq> IntTy"
    by (simp add: IntTy_def)
  have d3: "decomposeParallelStructure plainTC (matchTypesN plainTC (Suc 0)) IntTy
       (OptionalType_get IntTy) Conversion TMF_None (locatorBuilder None) (emptySystem None) = Inr []"
    and d4: "decomposeParallelStructure plainTC (matchTypesN plainTC (Suc 0)) (TypeVariableType 0)
       IntTy Subtype TMF_None (locatorBuilder None) oneVariable = Inr []"
    by (simp_all add: decomposeParallelStructure_def IntTy_def OptionalType_get_def)
  have c3: "nonStructuralConversions plainTC (matchTypesN plainTC (Suc 0)) IntTy
       (OptionalType_get IntTy) True Conversion TMF_None (locatorBuilder None) []
       (emptySystem None) = Inr [ValueToOptional]"
    by (simp add: collect_defs IntTy_def OptionalType_get_def plainTC_def exampleTC_def
        shouldTryUserConversion_def lookupMember_def)
  have c4: "nonStructuralConversions plainTC (matchTypesN plainTC (Suc 0)) (TypeVariableType 0)
       IntTy False Subtype TMF_None (locatorBuilder None) [] oneVariable = Inr []"
    by (simp add: collect_defs IntTy_def)
  have u4: "unifyTypeVariables (addConstraintN plainTC (Suc 0)) (TypeVariableType 0) (Some 0) IntTy
       None Subtype TMF_None (locatorBuilder None) oneVariable = None"
    by (simp add: unifyTypeVariables_def TMF_None_def)
  have inner: "matchTypesN plainTC (Suc 0) IntTy IntTy Conversion
       (TMF_None OR TMF_GenerateConstraints) (locatorBuilder None) (emptySystem None)
       = Inr (Solved, emptySystem None)"
    by (simp add: matchTypesN_Suc matchTypes_def getFixedTypeRecursive_concrete IntTy_def)
  from commit_to_conversions [where n = 0 and cs = "emptySystem None" and ?t1.0 = IntTy
      and ?t2.0 = "OptionalType_get IntTy" and kind = Conversion and ?type1.0 = IntTy
      and ?type2.0 = "OptionalType_get IntTy"
      and ?typeVar1.0 = None and ?typeVar2.0 = None and tc = plainTC and flags = TMF_None
      and locator = "locatorBuilder None" and ?pcs0.0 = "[]"
      and pcs = "[ValueToOptional]" and ?gk2.0 = Enum and ?parent2.0 = None and ?arg2.0 = IntTy,
      OF l5 l6 ne(2) _ d3]
    c3 inner
  have one: "matchTypesN plainTC (Suc (Suc 0)) IntTy (OptionalType_get IntTy) Conversion TMF_None
       (locatorBuilder None) (emptySystem None) = Inr (Solved, emptySystem None)"
    by (simp add: OptionalType_get_def)
  from commit_to_conversions [where n = 0 and cs = oneVariable and ?t1.0 = "TypeVariableType 0"
      and ?t2.0 = IntTy and kind = Subtype and ?type1.0 = "TypeVariableType 0"
      and ?type2.0 = IntTy
      and ?typeVar1.0 = "Some 0" and ?typeVar2.0 = None and tc = plainTC and flags = TMF_None
      and locator = "locatorBuilder None" and ?pcs0.0 = "[]"
      and pcs = "[]", OF l8 l7 ne3 _ d4]
    c4 u4
  have unsolved: "matchTypesN plainTC (Suc (Suc 0)) (TypeVariableType 0) IntTy Subtype TMF_None
       (locatorBuilder None) oneVariable = Inr (Unsolved, oneVariable)"
    by simp
  from l1 l2 ne d1 c1 c2 many none c3 inner one l8 c4 unsolved show ?thesis
    by simp
qed


subsection \<open>The best solution\<close>

lemma onlyLosers_update:
  assumes "onlyLosers cmp n losers" and "i < n" and "lostTo cmp n i"
  shows "onlyLosers cmp n (losers[i := True])"
  using assms by (auto simp: onlyLosers_def nth_list_update)

lemma findPotentialBest_inv:
  assumes "findPotentialBest cmp xs losers bestIdx = Inr (losers', best')"
    and "distinct (bestIdx # xs)" and "\<forall>x\<in>set xs. x < n" and "bestIdx < n"
    and "onlyLosers cmp n losers"
  shows "best' < n \<and> onlyLosers cmp n losers'"
  using assms
proof (induction xs arbitrary: losers bestIdx)
  case Nil
  then show ?case by simp
next
  case (Cons i rest)
  have i: "i < n" "i \<noteq> bestIdx" "distinct (bestIdx # rest)" "distinct (i # rest)"
    "\<forall>x\<in>set rest. x < n"
    using Cons.prems by auto
  obtain r where r: "cmp i bestIdx = Inr r"
    using Cons.prems(1) by (cases "cmp i bestIdx") auto
  show ?case
  proof (cases r)
    case Identical
    then have "findPotentialBest cmp rest losers bestIdx = Inr (losers', best')"
      using Cons.prems(1) r by simp
    then show ?thesis
      using i(3) i(5) Cons.prems(4,5) by (rule Cons.IH)
  next
    case Incomparable
    then have "findPotentialBest cmp rest losers bestIdx = Inr (losers', best')"
      using Cons.prems(1) r by simp
    then show ?thesis
      using i(3) i(5) Cons.prems(4,5) by (rule Cons.IH)
  next
    case Worse
    have "lostTo cmp n i"
      unfolding lostTo_def using r Worse i Cons.prems(4) by blast
    then have "onlyLosers cmp n (losers[i := True])"
      using Cons.prems(5) i(1) by (rule onlyLosers_update [rotated 2])
    moreover have "findPotentialBest cmp rest (losers[i := True]) bestIdx = Inr (losers', best')"
      using Cons.prems(1) r Worse by simp
    ultimately show ?thesis
      using i(3) i(5) Cons.prems(4) by (rule Cons.IH [rotated 4])
  next
    case Better
    have "lostTo cmp n bestIdx"
      unfolding lostTo_def using r Better i by blast
    then have "onlyLosers cmp n (losers[bestIdx := True])"
      using Cons.prems(5) Cons.prems(4) by (rule onlyLosers_update [rotated 2])
    moreover have "findPotentialBest cmp rest (losers[bestIdx := True]) i = Inr (losers', best')"
      using Cons.prems(1) r Better by simp
    ultimately show ?thesis
      using i(4) i(5) i(1) by (rule Cons.IH [rotated 4])
  qed
qed





lemma onlyLosers_initially: "onlyLosers cmp n (replicate n False)"
  by (simp add: onlyLosers_def)

lemma findBestSolution_loops:
  assumes "2 \<le> length viable"
  shows "findBestSolution tc cs viable minimize =
     (case findPotentialBest (compareViable tc cs viable) [1..<length viable]
             (replicate (length viable) False) 0 of
        Inl e \<Rightarrow> Inl e
      | Inr (losers1, bestIdx) \<Rightarrow>
          (case checkBest (compareViable tc cs viable) minimize [0..<length viable] losers1 bestIdx of
             Inl e \<Rightarrow> Inl e
           | Inr (losers2, Unambiguous) \<Rightarrow> Inr (Some bestIdx, viable)
           | Inr (losers2, ReturnedNothing) \<Rightarrow> Inr (None, viable)
           | Inr (losers2, Ambiguous) \<Rightarrow>
               (case sweepOuter (compareViable tc cs viable) [0..<length viable] (length viable)
                       losers2 of
                  Inl e \<Rightarrow> Inl e
                | Inr losers3 \<Rightarrow> Inr (None, removeLosers viable losers3))))"
proof -
  have "viable \<noteq> []" "length viable \<noteq> 1"
    using assms by auto
  then show ?thesis
    unfolding findBestSolution_def compareViable_def Let_def by simp
qed

lemma findPotentialBest_returns:
  assumes "\<forall>i<n. \<forall>j<n. \<exists>r. cmp i j = Inr r"
    and "\<forall>x\<in>set xs. x < n" and "bestIdx < n"
  shows "\<exists>result. findPotentialBest cmp xs losers bestIdx = Inr result"
  using assms(2,3)
proof (induction xs arbitrary: losers bestIdx)
  case Nil
  then show ?case by simp
next
  case (Cons i rest)
  have i: "i < n" "\<forall>x\<in>set rest. x < n"
    using Cons.prems(1) by auto
  obtain r where r: "cmp i bestIdx = Inr r"
    using assms(1) i(1) Cons.prems(2) by blast
  show ?case
    using r Cons.IH [OF i(2) Cons.prems(2)] Cons.IH [OF i(2) i(1)]
    by (cases r) simp_all
qed

lemma checkBest_returns:
  assumes "\<forall>i<n. \<forall>j<n. \<exists>r. cmp i j = Inr r"
    and "\<forall>x\<in>set xs. x < n" and "bestIdx < n"
  shows "\<exists>result. checkBest cmp minimize xs losers bestIdx = Inr result"
  using assms(2)
proof (induction xs arbitrary: losers)
  case Nil
  then show ?case by simp
next
  case (Cons i rest)
  have i: "i < n" "\<forall>x\<in>set rest. x < n"
    using Cons.prems(1) by auto
  obtain r where r: "cmp bestIdx i = Inr r"
    using assms(1,3) i(1) by blast
  show ?case
    using r Cons.IH [OF i(2)]
    by (cases r) simp_all
qed

lemma sweepInner_returns:
  assumes "\<forall>i<n. \<forall>j<n. \<exists>r. cmp i j = Inr r"
    and "\<forall>x\<in>set js. x < n" and "i < n"
  shows "\<exists>result. sweepInner cmp i js losers = Inr result"
  using assms(2)
proof (induction js arbitrary: losers)
  case Nil
  then show ?case by simp
next
  case (Cons j rest)
  have j: "j < n" "\<forall>x\<in>set rest. x < n"
    using Cons.prems(1) by auto
  obtain r where r: "cmp i j = Inr r"
    using assms(1,3) j(1) by blast
  show ?case
    using r Cons.IH [OF j(2)]
    by (cases r) simp_all
qed

lemma sweepOuter_returns:
  assumes "\<forall>i<n. \<forall>j<n. \<exists>r. cmp i j = Inr r"
    and "\<forall>x\<in>set is. x < n"
  shows "\<exists>result. sweepOuter cmp is n losers = Inr result"
  using assms(2)
proof (induction "is" arbitrary: losers)
  case Nil
  then show ?case by simp
next
  case (Cons i rest)
  have i: "i < n" "\<forall>x\<in>set rest. x < n"
    using Cons.prems(1) by auto
  have "\<forall>x\<in>set [i + 1..<n]. x < n"
    by simp
  from sweepInner_returns [OF assms(1) this i(1)]
  obtain losers1 where "sweepInner cmp i [i + 1..<n] losers = Inr losers1"
    by blast
  then show ?case
    using Cons.IH [OF i(2)] by simp
qed

text \<open>
  \<^verbatim>\<open>findBestSolution\<close> returns when the comparisons of the solutions do: no assertion of
  its own can fail.
\<close>

lemma findBestSolution_returns:
  assumes "\<forall>i<length viable. \<forall>j<length viable. \<exists>r. compareViable tc cs viable i j = Inr r"
  shows "\<exists>result. findBestSolution tc cs viable minimize = Inr result"
proof (cases "2 \<le> length viable")
  case False
  then have "length viable = 0 \<or> length viable = 1"
    by arith
  then have "viable = [] \<or> length viable = 1"
    by simp
  then show ?thesis
    by (auto simp: findBestSolution_def)
next
  case True
  let ?cmp = "compareViable tc cs viable"
  let ?n = "length viable"
  have upt: "\<forall>x\<in>set [1..<?n]. x < ?n" "\<forall>x\<in>set [0..<?n]. x < ?n" "0 < ?n"
    using True by auto
  obtain losers1 bestIdx where
    first: "findPotentialBest ?cmp [1..<?n] (replicate ?n False) 0 = Inr (losers1, bestIdx)"
    using findPotentialBest_returns [OF assms upt(1) upt(3)] by fastforce
  have "distinct (0 # [1..<?n])"
    by simp
  from findPotentialBest_inv [OF first this upt(1) upt(3) onlyLosers_initially]
  have bestIdx: "bestIdx < ?n"
    by simp
  obtain losers2 r where
    second: "checkBest ?cmp minimize [0..<?n] losers1 bestIdx = Inr (losers2, r)"
    using checkBest_returns [OF assms upt(2) bestIdx] by fastforce
  obtain losers3 where third: "sweepOuter ?cmp [0..<?n] ?n losers2 = Inr losers3"
    using sweepOuter_returns [OF assms upt(2)] by blast
  show ?thesis
    unfolding findBestSolution_loops [OF True] first
    by (cases r) (simp_all add: second third)
qed

lemma threeSolutions_diff:
  "makeSolutionDiff threeSolutions =
     \<lparr>overloadDiffs =
        (let fs = map (\<lambda>f. OverloadChoice None OCK_Decl (Some (overloadedDecl f)) 0 False)
                    [''f0'', ''f1'', ''f2''];
             gs = map (\<lambda>g. OverloadChoice None OCK_Decl (Some (overloadedDecl g)) 0 False)
                    [''g0'', ''g1'', ''g2'']
         in [(ConstraintLocator (Some 0) [], fs), (ConstraintLocator (Some 0) [], fs),
             (ConstraintLocator (Some 1) [], gs), (ConstraintLocator (Some 1) [], gs)]),
      typeBindingDiffs = []\<rparr>"
  by (simp add: makeSolutionDiff_def threeSolutions_def choosing_def sameOverloadChoice_def
      sameDecl_def overloadedDecl_def Let_def)



text \<open>
  With the declarations \<open>f1\<close> more specialized than \<open>f2\<close> and \<open>g2\<close> more specialized than
  \<open>g0\<close>, the second solution is the only one that the sweep leaves, and the result is
  still \<^verbatim>\<open>Nothing\<close>: the caller learns that one solution is left from the vector only.
\<close>

lemma threeSolutions_compared_single:
  "compareViable (specializedTC [(''f1'', ''f2''), (''g2'', ''g0'')]) (emptySystem None)
     threeSolutions (Suc 0) 0 = Inr Incomparable"
  "compareViable (specializedTC [(''f1'', ''f2''), (''g2'', ''g0'')]) (emptySystem None)
     threeSolutions (Suc (Suc 0)) 0 = Inr Better"
  "compareViable (specializedTC [(''f1'', ''f2''), (''g2'', ''g0'')]) (emptySystem None)
     threeSolutions (Suc (Suc 0)) (Suc 0) = Inr Worse"
  unfolding compareViable_def threeSolutions_diff
  by (simp_all add: compareSolutions_def threeSolutions_def choosing_def compareOverload_def
      sameOverloadChoice_def sameDecl_def overloadedDecl_def specializedTC_def exampleTC_def
      Let_def)

lemma single_survivor_returns_nothing:
  "findBestSolution (specializedTC [(''f1'', ''f2''), (''g2'', ''g0'')]) (emptySystem None)
     threeSolutions True
     = Inr (None, [choosing ''f1'' ''g1''])"
proof -
  let ?cmp = "compareViable (specializedTC [(''f1'', ''f2''), (''g2'', ''g0'')])
    (emptySystem None) threeSolutions"
  have len: "length threeSolutions = Suc (Suc (Suc 0))" "2 \<le> length threeSolutions"
    by (simp_all add: threeSolutions_def)
  have upts: "[1..<Suc (Suc (Suc 0))] = [Suc 0, Suc (Suc 0)]"
    "[0..<Suc (Suc (Suc 0))] = [0, Suc 0, Suc (Suc 0)]"
    by (simp_all add: upt_rec)
  have first: "findPotentialBest ?cmp [Suc 0, Suc (Suc 0)] (replicate (Suc (Suc (Suc 0))) False) 0
      = Inr ([True, False, False], Suc (Suc 0))"
    by (simp add: threeSolutions_compared_single)
  have second: "checkBest ?cmp True [0, Suc 0, Suc (Suc 0)] [True, False, False] (Suc (Suc 0))
      = Inr ([True, False, True], Ambiguous)"
    by (simp add: threeSolutions_compared_single)
  have third: "sweepOuter ?cmp [0, Suc 0, Suc (Suc 0)] (Suc (Suc (Suc 0))) [True, False, True]
      = Inr [True, False, True]"
    by (simp add: threeSolutions_compared_single upt_rec)
  have remaining: "removeLosers threeSolutions [True, False, True] = [choosing ''f1'' ''g1'']"
    by (simp add: removeLosers_def threeSolutions_def upt_rec)
  show ?thesis
    unfolding findBestSolution_loops [OF len(2)] len(1) upts first
    by (simp only: sum.case prod.case BestCheck.case second third remaining)
qed


















subsection \<open>The shuffle between tuples of the same labels\<close>

lemma findNamedElement_first:
  assumes "i < length fromFields" and "getName (fromFields ! i) = nm" and "\<not> consumed ! i"
    and "\<forall>j. k \<le> j \<and> j < i \<longrightarrow> getName (fromFields ! j) = nm \<longrightarrow> consumed ! j"
    and "k \<le> i"
  shows "findNamedElement nm (drop k fromFields) consumed k = int i"
  using assms(4,5)
proof (induction "i - k" arbitrary: k)
  case 0
  then have k: "k = i" by simp
  have "drop i fromFields = fromFields ! i # drop (Suc i) fromFields"
    using assms(1) by (simp add: Cons_nth_drop_Suc)
  then show ?case
    using assms(2,3) k by simp
next
  case (Suc d)
  then have lt: "k < i" by simp
  then have kn: "k < length fromFields"
    using assms(1) by simp
  have drop: "drop k fromFields = fromFields ! k # drop (Suc k) fromFields"
    using kn by (simp add: Cons_nth_drop_Suc)
  have skip: "\<not> (getName (fromFields ! k) = nm \<and> \<not> consumed ! k)"
    using Suc.prems(1) lt by auto
  have "findNamedElement nm (drop (Suc k) fromFields) consumed (Suc k) = int i"
  proof (rule Suc.hyps(1))
    show "d = i - Suc k" using Suc.hyps(2) by simp
    show "\<forall>j. Suc k \<le> j \<and> j < i \<longrightarrow> getName (fromFields ! j) = nm \<longrightarrow> consumed ! j"
      using Suc.prems(1) by auto
    show "Suc k \<le> i" using lt by simp
  qed
  then show ?case
    using skip by (auto simp: drop)
qed


lemma matchNamedElements_same:
  assumes "length fromFields = n" and "length toFields = n"
    and "\<forall>j<n. getName (fromFields ! j) = getName (toFields ! j)"
    and "i \<le> n" and "length sources = n" and "length consumed = n"
    and "\<forall>j<n. sources ! j = (if j < i \<and> getName (toFields ! j) \<noteq> [] then int j else unassigned)"
    and "\<forall>j<n. consumed ! j = (j < i \<and> getName (toFields ! j) \<noteq> [])"
  shows "\<exists>sources' consumed'.
      matchNamedElements fromFields (drop i toFields) i (sources, consumed) = (sources', consumed')
      \<and> length sources' = n \<and> length consumed' = n
      \<and> (\<forall>j<n. sources' ! j = (if getName (toFields ! j) \<noteq> [] then int j else unassigned))
      \<and> (\<forall>j<n. consumed' ! j = (getName (toFields ! j) \<noteq> []))"
  using assms(4-8)
proof (induction "n - i" arbitrary: i sources consumed)
  case 0
  then have "i = n" by simp
  then show ?case
    using 0 assms(2) by simp
next
  case (Suc d)
  then have lt: "i < n" by simp
  have drop: "drop i toFields = toFields ! i # drop (Suc i) toFields"
    using lt assms(2) by (simp add: Cons_nth_drop_Suc)
  show ?case
  proof (cases "getName (toFields ! i) = []")
    case True
    have "\<exists>sources' consumed'.
      matchNamedElements fromFields (drop (Suc i) toFields) (Suc i) (sources, consumed)
        = (sources', consumed')
      \<and> length sources' = n \<and> length consumed' = n
      \<and> (\<forall>j<n. sources' ! j = (if getName (toFields ! j) \<noteq> [] then int j else unassigned))
      \<and> (\<forall>j<n. consumed' ! j = (getName (toFields ! j) \<noteq> []))"
    proof (rule Suc.hyps(1))
      show "d = n - Suc i" using Suc.hyps(2) by simp
      show "Suc i \<le> n" using lt by simp
      show "length sources = n" "length consumed = n" using Suc.prems by simp_all
      show "\<forall>j<n. sources ! j =
          (if j < Suc i \<and> getName (toFields ! j) \<noteq> [] then int j else unassigned)"
        using Suc.prems(4) True by (auto simp: less_Suc_eq)
      show "\<forall>j<n. consumed ! j = (j < Suc i \<and> getName (toFields ! j) \<noteq> [])"
        using Suc.prems(5) True by (auto simp: less_Suc_eq)
    qed
    then show ?thesis
      using True by (simp add: drop)
  next
    case False
    have found: "findNamedElement (getName (toFields ! i)) (drop 0 fromFields) consumed 0 = int i"
    proof (rule findNamedElement_first)
      show "i < length fromFields" using lt assms(1) by simp
      show "getName (fromFields ! i) = getName (toFields ! i)" using assms(3) lt by simp
      show "\<not> consumed ! i" using Suc.prems(5) lt by simp
      show "\<forall>j. 0 \<le> j \<and> j < i \<longrightarrow>
          getName (fromFields ! j) = getName (toFields ! i) \<longrightarrow> consumed ! j"
        using Suc.prems(5) assms(3) lt False by auto
      show "0 \<le> i" by simp
    qed
    have "\<exists>sources' consumed'.
      matchNamedElements fromFields (drop (Suc i) toFields) (Suc i)
        (sources[i := int i], consumed[i := True]) = (sources', consumed')
      \<and> length sources' = n \<and> length consumed' = n
      \<and> (\<forall>j<n. sources' ! j = (if getName (toFields ! j) \<noteq> [] then int j else unassigned))
      \<and> (\<forall>j<n. consumed' ! j = (getName (toFields ! j) \<noteq> []))"
    proof (rule Suc.hyps(1))
      show "d = n - Suc i" using Suc.hyps(2) by simp
      show "Suc i \<le> n" using lt by simp
      show "length (sources[i := int i]) = n" "length (consumed[i := True]) = n"
        using Suc.prems by simp_all
      show "\<forall>j<n. sources[i := int i] ! j =
          (if j < Suc i \<and> getName (toFields ! j) \<noteq> [] then int j else unassigned)"
        using Suc.prems(2,4) False lt by (auto simp: less_Suc_eq nth_list_update)
      show "\<forall>j<n. consumed[i := True] ! j = (j < Suc i \<and> getName (toFields ! j) \<noteq> [])"
        using Suc.prems(3,5) False lt by (auto simp: less_Suc_eq nth_list_update)
    qed
    then show ?thesis
      using False found by (simp add: drop Let_def)
  qed
qed

lemma skipToNextAvailableInput_spec:
  "k \<le> n \<Longrightarrow>
   k \<le> skipToNextAvailableInput c k n \<and> skipToNextAvailableInput c k n \<le> n
   \<and> (\<forall>j. k \<le> j \<and> j < skipToNextAvailableInput c k n \<longrightarrow> c ! j)
   \<and> (skipToNextAvailableInput c k n < n \<longrightarrow> \<not> c ! skipToNextAvailableInput c k n)"
proof (induction c k n rule: skipToNextAvailableInput.induct)
  case (1 c k n)
  show ?case
  proof (cases "k < n \<and> c ! k")
    case True
    then have step: "skipToNextAvailableInput c k n = skipToNextAvailableInput c (k + 1) n"
      by (subst skipToNextAvailableInput.simps) simp
    from 1(1) [OF True] True
    have ih: "k + 1 \<le> skipToNextAvailableInput c (k + 1) n"
      "skipToNextAvailableInput c (k + 1) n \<le> n"
      "\<forall>j. k + 1 \<le> j \<and> j < skipToNextAvailableInput c (k + 1) n \<longrightarrow> c ! j"
      "skipToNextAvailableInput c (k + 1) n < n \<longrightarrow> \<not> c ! skipToNextAvailableInput c (k + 1) n"
      by simp_all
    have "\<forall>j. k \<le> j \<and> j < skipToNextAvailableInput c (k + 1) n \<longrightarrow> c ! j"
    proof (intro allI impI)
      fix j assume j: "k \<le> j \<and> j < skipToNextAvailableInput c (k + 1) n"
      show "c ! j"
      proof (cases "j = k")
        case True
        then show ?thesis using \<open>k < n \<and> c ! k\<close> by simp
      next
        case False
        then have "k + 1 \<le> j" using j by simp
        then show ?thesis using ih(3) j by blast
      qed
    qed
    then show ?thesis
      unfolding step using ih by simp
  next
    case False
    then have stop: "skipToNextAvailableInput c k n = k"
      by (subst skipToNextAvailableInput.simps) auto
    show ?thesis
      unfolding stop using False 1(2) by auto
  qed
qed


lemma resolveUnmatched_same:
  assumes "length fromFields = n" and "length toFields = n"
    and "\<forall>j<n. getName (fromFields ! j) = getName (toFields ! j)"
    and "\<forall>j<n. \<not> isVararg (toFields ! j)"
    and "i \<le> n" and "length sources = n" and "length consumed = n"
    and "\<forall>j<n. sources ! j = (if j < i \<or> getName (toFields ! j) \<noteq> [] then int j else unassigned)"
    and "\<forall>j<n. consumed ! j = (j < i \<or> getName (toFields ! j) \<noteq> [])"
    and "i \<le> fromNext" and "fromNext \<le> n"
    and "\<forall>j. i \<le> j \<and> j < fromNext \<longrightarrow> getName (toFields ! j) \<noteq> []"
    and "fromNext < n \<longrightarrow> getName (toFields ! fromNext) = []"
  shows "\<exists>consumed'.
      resolveUnmatched fromFields (drop i toFields) i n mandatory sources [] consumed fromNext
        = (False, map int [0..<n], [], consumed', n)
      \<and> length consumed' = n \<and> (\<forall>j<n. consumed' ! j)"
  using assms(5-13)
proof (induction "n - i" arbitrary: i sources consumed fromNext)
  case 0
  then have i: "i = n" by simp
  then have "fromNext = n"
    using 0 by simp
  moreover have "sources = map int [0..<n]"
    using 0(3,5) i by (intro nth_equalityI) simp_all
  moreover have "\<forall>j<n. consumed ! j"
    using 0(6) i by simp
  ultimately show ?case
    using i assms(2) 0(4) by simp
next
  case (Suc d)
  then have lt: "i < n" by simp
  have drop: "drop i toFields = toFields ! i # drop (Suc i) toFields"
    using lt assms(2) by (simp add: Cons_nth_drop_Suc)
  show ?case
  proof (cases "getName (toFields ! i) = []")
    case False
    then have assigned: "sources ! i \<noteq> unassigned"
      using Suc.prems(4) lt by (simp add: unassigned_def)
    have next_ne: "fromNext \<noteq> i"
      using Suc.prems(9) lt False by auto
    have "\<exists>consumed'.
      resolveUnmatched fromFields (drop (Suc i) toFields) (Suc i) n mandatory sources [] consumed
        fromNext = (False, map int [0..<n], [], consumed', n)
      \<and> length consumed' = n \<and> (\<forall>j<n. consumed' ! j)"
    proof (rule Suc.hyps(1))
      show "d = n - Suc i" using Suc.hyps(2) by simp
      show "Suc i \<le> n" using lt by simp
      show "length sources = n" "length consumed = n" using Suc.prems by simp_all
      show "\<forall>j<n. sources ! j =
          (if j < Suc i \<or> getName (toFields ! j) \<noteq> [] then int j else unassigned)"
        using Suc.prems(4) False by (auto simp: less_Suc_eq)
      show "\<forall>j<n. consumed ! j = (j < Suc i \<or> getName (toFields ! j) \<noteq> [])"
        using Suc.prems(5) False by (auto simp: less_Suc_eq)
      show "Suc i \<le> fromNext" using Suc.prems(6) next_ne by simp
      show "fromNext \<le> n" using Suc.prems(7) .
      show "\<forall>j. Suc i \<le> j \<and> j < fromNext \<longrightarrow> getName (toFields ! j) \<noteq> []"
        using Suc.prems(8) by auto
      show "fromNext < n \<longrightarrow> getName (toFields ! fromNext) = []"
        using Suc.prems(9) .
    qed
    then show ?thesis
      using assigned by (simp add: drop)
  next
    case True
    have unassigned: "sources ! i = unassigned"
      using Suc.prems(4) lt True by simp
    have next_i: "fromNext = i"
    proof (rule ccontr)
      assume "fromNext \<noteq> i"
      then have "i < fromNext" using Suc.prems(6) by simp
      then show False using Suc.prems(8) True by auto
    qed
    have unnamed: "\<not> hasName (fromFields ! i)"
      using assms(3) lt True by (simp add: hasName_def)
    let ?c = "consumed[i := True]"
    let ?m = "skipToNextAvailableInput ?c (Suc i) n"
    have "Suc i \<le> n"
      using lt by simp
    from skipToNextAvailableInput_spec [OF this, of ?c]
    have spec: "Suc i \<le> ?m" "?m \<le> n" "\<forall>j. Suc i \<le> j \<and> j < ?m \<longrightarrow> ?c ! j"
      "?m < n \<longrightarrow> \<not> ?c ! ?m"
      by blast+
    have "\<exists>consumed'.
      resolveUnmatched fromFields (drop (Suc i) toFields) (Suc i) n mandatory
        (sources[i := int i]) [] ?c ?m = (False, map int [0..<n], [], consumed', n)
      \<and> length consumed' = n \<and> (\<forall>j<n. consumed' ! j)"
    proof (rule Suc.hyps(1))
      show "d = n - Suc i" using Suc.hyps(2) by simp
      show "Suc i \<le> n" using lt by simp
      show "length (sources[i := int i]) = n" "length ?c = n" using Suc.prems by simp_all
      show "\<forall>j<n. sources[i := int i] ! j =
          (if j < Suc i \<or> getName (toFields ! j) \<noteq> [] then int j else unassigned)"
        using Suc.prems(2,4) lt by (auto simp: less_Suc_eq nth_list_update)
      show c: "\<forall>j<n. ?c ! j = (j < Suc i \<or> getName (toFields ! j) \<noteq> [])"
        using Suc.prems(3,5) lt by (auto simp: less_Suc_eq nth_list_update)
      show "Suc i \<le> ?m" using spec(1) by simp
      show "?m \<le> n" using spec(2) .
      show "\<forall>j. Suc i \<le> j \<and> j < ?m \<longrightarrow> getName (toFields ! j) \<noteq> []"
      proof (intro allI impI)
        fix j assume j: "Suc i \<le> j \<and> j < ?m"
        then have "?c ! j" using spec(3) by simp
        moreover have "j < n" using j spec(2) by simp
        ultimately show "getName (toFields ! j) \<noteq> []"
          using c j by auto
      qed
      show "?m < n \<longrightarrow> getName (toFields ! ?m) = []"
        using spec(1,4) c by auto
    qed
    then show ?thesis
      using unassigned next_i lt unnamed assms(4)
      by (simp add: drop)
  qed
qed

lemma computeTupleShuffle_same:
  assumes "length fromFields = length toFields"
    and "\<forall>j<length toFields. getName (fromFields ! j) = getName (toFields ! j)"
    and "\<forall>j<length toFields. \<not> isVararg (toFields ! j)"
  shows "computeTupleShuffle fromFields toFields mandatory
    = Inr (False, map int [0..<length toFields], [])"
proof -
  let ?n = "length toFields"
  have "\<exists>sources' consumed'.
      matchNamedElements fromFields (drop 0 toFields) 0
        (replicate ?n unassigned, replicate ?n False) = (sources', consumed')
      \<and> length sources' = ?n \<and> length consumed' = ?n
      \<and> (\<forall>j<?n. sources' ! j = (if getName (toFields ! j) \<noteq> [] then int j else unassigned))
      \<and> (\<forall>j<?n. consumed' ! j = (getName (toFields ! j) \<noteq> []))"
    using assms(1,2) by (intro matchNamedElements_same) simp_all
  then obtain sources1 consumed1 where
    named: "matchNamedElements fromFields toFields 0
        (replicate ?n unassigned, replicate ?n False) = (sources1, consumed1)"
    and len1: "length sources1 = ?n" "length consumed1 = ?n"
    and s1: "\<forall>j<?n. sources1 ! j = (if getName (toFields ! j) \<noteq> [] then int j else unassigned)"
    and c1: "\<forall>j<?n. consumed1 ! j = (getName (toFields ! j) \<noteq> [])"
    by auto
  let ?m = "skipToNextAvailableInput consumed1 0 ?n"
  have spec: "?m \<le> ?n" "\<forall>j. j < ?m \<longrightarrow> consumed1 ! j" "?m < ?n \<longrightarrow> \<not> consumed1 ! ?m"
    using skipToNextAvailableInput_spec [of 0 ?n consumed1] by simp_all
  have "\<exists>consumed'.
      resolveUnmatched fromFields (drop 0 toFields) 0 ?n mandatory sources1 [] consumed1 ?m
        = (False, map int [0..<?n], [], consumed', ?n)
      \<and> length consumed' = ?n \<and> (\<forall>j<?n. consumed' ! j)"
  proof (rule resolveUnmatched_same)
    show "length fromFields = ?n" using assms(1) .
    show "length toFields = ?n" by simp
    show "\<forall>j<?n. getName (fromFields ! j) = getName (toFields ! j)" using assms(2) .
    show "\<forall>j<?n. \<not> isVararg (toFields ! j)" using assms(3) .
    show "0 \<le> ?n" by simp
    show "length sources1 = ?n" "length consumed1 = ?n" using len1 by simp_all
    show "\<forall>j<?n. sources1 ! j =
        (if j < 0 \<or> getName (toFields ! j) \<noteq> [] then int j else unassigned)"
      using s1 by simp
    show "\<forall>j<?n. consumed1 ! j = (j < 0 \<or> getName (toFields ! j) \<noteq> [])"
      using c1 by simp
    show "0 \<le> ?m" by simp
    show "?m \<le> ?n" using spec(1) .
    show "\<forall>j. 0 \<le> j \<and> j < ?m \<longrightarrow> getName (toFields ! j) \<noteq> []"
      using spec(1,2) c1 by auto
    show "?m < ?n \<longrightarrow> getName (toFields ! ?m) = []"
      using spec(3) c1 by auto
  qed
  then obtain consumed2 where
    resolved: "resolveUnmatched fromFields toFields 0 ?n mandatory sources1 [] consumed1 ?m
        = (False, map int [0..<?n], [], consumed2, ?n)"
    and len2: "length consumed2 = ?n" and c2: "\<forall>j<?n. consumed2 ! j"
    by auto
  have "False \<notin> set consumed2"
    using len2 c2 by (auto simp: in_set_conv_nth)
  then show ?thesis
    using named resolved assms(1)
    by (simp add: computeTupleShuffle_def Let_def)
qed


subsection \<open>The strictness of the kinds of match\<close>

lemma plainType_resolved:
  "plainType t \<Longrightarrow> getFixedTypeRecursive fuel cs t w = Inr (t, None)"
  by (cases t) (simp_all add: getFixedTypeRecursive_def)

lemma plainTypeElt_iff: "plainTypeElt e \<longleftrightarrow> plainType (getType e) \<and> \<not> isVararg e"
  by (cases e) simp

lemma sameType_conversions:
  "nonStructuralConversions tc mt type1 type2 True SameType flags locator pcs cs = Inr pcs"
  by (simp add: nonStructuralConversions_def laterConversions_def)

text \<open>The elements of two tuples that \<^verbatim>\<open>matchTupleTypes\<close> has matched as the same types.\<close>

lemma tupleElements_not_failed:
  assumes "matchTupleElements mt tuple1 tuple2 pairs i SameType subFlags locator cs = Inr (s, cs1)"
    and "s \<noteq> Error"
  shows "s = Solved
    \<and> (\<forall>(e1, e2)\<in>set pairs. getName e1 = getName e2
          \<and> (\<exists>j c s' c1. mt (getType e1) (getType e2) SameType subFlags
                  (withPathElement locator (TupleElement j)) c = Inr (s', c1) \<and> s' \<noteq> Error))"
  using assms
proof (induction pairs arbitrary: i cs)
  case Nil
  then show ?case by simp
next
  case (Cons pair rest)
  obtain e1 e2 where pair: "pair = (e1, e2)"
    by (cases pair)
  from Cons.prems pair have names: "getName e1 = getName e2"
    by (auto split: if_splits)
  from Cons.prems pair names obtain sh ch where
    head: "mt (getType e1) (getType e2) SameType subFlags
        (withPathElement locator (TupleElement i)) cs = Inr (sh, ch)" and sh: "sh \<noteq> Error"
    and tail: "matchTupleElements mt tuple1 tuple2 rest (i + 1) SameType subFlags locator ch
        = Inr (s, cs1)"
    by (auto split: if_splits sum.splits SolutionKind.splits)
  from Cons.IH [OF tail Cons.prems(2)] names head sh pair show ?case
    by auto
qed

lemma tupleElements_solved:
  assumes "\<forall>(e1, e2)\<in>set pairs. getName e1 = getName e2 \<and> isVararg e1 = isVararg e2
      \<and> (\<forall>f l c. \<exists>c2. mt (getType e1) (getType e2) kind f l c = Inr (Solved, c2))"
  shows "\<exists>cs2. matchTupleElements mt tuple1 tuple2 pairs i kind subFlags locator cs
      = Inr (Solved, cs2)"
  using assms
proof (induction pairs arbitrary: i cs)
  case Nil
  then show ?case by simp
next
  case (Cons pair rest)
  obtain e1 e2 where pair: "pair = (e1, e2)"
    by (cases pair)
  have e: "getName e1 = getName e2" "isVararg e1 = isVararg e2"
    using Cons.prems pair by auto
  have "\<exists>c2. mt (getType e1) (getType e2) kind subFlags
      (withPathElement locator (TupleElement i)) cs = Inr (Solved, c2)"
    using Cons.prems pair by auto
  then obtain c2 where head: "mt (getType e1) (getType e2) kind subFlags
      (withPathElement locator (TupleElement i)) cs = Inr (Solved, c2)"
    by blast
  have "\<exists>cs2. matchTupleElements mt tuple1 tuple2 rest (i + 1) kind subFlags locator c2
      = Inr (Solved, cs2)"
    using Cons.prems by (intro Cons.IH) auto
  then show ?case
    using head pair e by simp
qed

lemma shuffledElements_solved:
  assumes "length tuple1 = n" and "length tuple2 = n" and "i \<le> n"
    and "\<forall>j<n. \<forall>f l c. \<exists>c2. mt (getType (tuple1 ! j)) (getType (tuple2 ! j)) Conversion f l c
        = Inr (Solved, c2)"
  shows "\<exists>cs2. matchShuffledElements mt tuple1 tuple2 (map int [i..<n]) i False subFlags locator cs
      = Inr ((Solved, False), cs2)"
  using assms(3)
proof (induction "n - i" arbitrary: i cs)
  case 0
  then show ?case by simp
next
  case (Suc d)
  then have lt: "i < n" by simp
  have upt: "map int [i..<n] = int i # map int [Suc i..<n]"
    using lt by (simp add: upt_conv_Cons)
  obtain c2 where head: "mt (getType (tuple1 ! i)) (getType (tuple2 ! i)) Conversion subFlags
      (withPathElement locator (TupleElement i)) cs = Inr (Solved, c2)"
    using assms(4) lt by blast
  have "\<exists>cs2. matchShuffledElements mt tuple1 tuple2 (map int [Suc i..<n]) (Suc i) False subFlags
      locator c2 = Inr ((Solved, False), cs2)"
    using Suc.hyps(2) lt by (intro Suc.hyps(1)) simp_all
  then show ?case
    using head lt assms(1,2)
    by (simp add: upt DefaultInitialize_def FirstVariadic_def)
qed

lemma tupleTypes_solved:
  assumes "1 \<le> rank kind" and "length tuple1 = length tuple2"
    and "\<forall>j<length tuple2. getName (tuple1 ! j) = getName (tuple2 ! j)
        \<and> \<not> isVararg (tuple1 ! j) \<and> \<not> isVararg (tuple2 ! j)"
    and "\<forall>j<length tuple2. \<forall>k f l c. 1 \<le> rank k \<longrightarrow>
        (\<exists>c2. mt (getType (tuple1 ! j)) (getType (tuple2 ! j)) k f l c = Inr (Solved, c2))"
  shows "\<exists>cs2. matchTupleTypes tc mt tuple1 tuple2 kind flags locator cs = Inr (Solved, cs2)"
proof (cases "rank kind < rank Conversion")
  case True
  have "\<forall>(e1, e2)\<in>set (zip tuple1 tuple2). getName e1 = getName e2 \<and> isVararg e1 = isVararg e2
      \<and> (\<forall>f l c. \<exists>c2. mt (getType e1) (getType e2) kind f l c = Inr (Solved, c2))"
    using assms by (auto simp: in_set_zip)
  from tupleElements_solved [where pairs = "zip tuple1 tuple2" and mt = mt and kind = kind
      and ?tuple1.0 = tuple1 and ?tuple2.0 = tuple2 and i = 0
      and subFlags = "flags OR TMF_GenerateConstraints" and locator = locator and cs = cs, OF this]
    True assms(2)
  show ?thesis
    by (simp add: matchTupleTypes_def Let_def)
next
  case False
  then have kind: "kind = Conversion"
    by (cases kind) simp_all
  have shuffle: "computeTupleShuffle tuple1 tuple2 (locatorHasMandatoryTupleLabels tc locator)
      = Inr (False, map int [0..<length tuple2], [])"
    using assms(2,3) by (intro computeTupleShuffle_same) simp_all
  have "\<forall>j<length tuple2. \<forall>f l c. \<exists>c2.
      mt (getType (tuple1 ! j)) (getType (tuple2 ! j)) Conversion f l c = Inr (Solved, c2)"
    using assms(4) by simp
  have "(0::nat) \<le> length tuple2"
    by simp
  from shuffledElements_solved [where ?tuple1.0 = tuple1 and ?tuple2.0 = tuple2
      and n = "length tuple2" and i = 0 and mt = mt
      and subFlags = "flags OR TMF_GenerateConstraints" and locator = locator and cs = cs,
      OF assms(2) refl this \<open>\<forall>j<length tuple2. \<forall>f l c. \<exists>c2.
      mt (getType (tuple1 ! j)) (getType (tuple2 ! j)) Conversion f l c = Inr (Solved, c2)\<close>]
  obtain cs2 where "matchShuffledElements mt tuple1 tuple2 (map int [0..<length tuple2]) 0 False
      (flags OR TMF_GenerateConstraints) locator cs = Inr ((Solved, False), cs2)"
    by auto
  then show ?thesis
    using shuffle by (simp add: matchTupleTypes_def Let_def kind)
qed

text \<open>What \<^verbatim>\<open>matchTypes\<close> has done when it has not failed on two different plain types.\<close>

lemma sameType_shape:
  assumes "plainType t1" and "plainType t2" and "t1 \<noteq> t2"
    and "matchTypes fuel tc mt ac t1 t2 SameType flags locator cs = Inr (s, cs1)"
    and "s \<noteq> Error"
  shows "(\<exists>i1 r1 a n1 i2 r2 n2 si csm.
          t1 = FunctionType i1 r1 a n1 \<and> t2 = FunctionType i2 r2 a n2 \<and> (n2 \<longrightarrow> n1)
          \<and> mt i2 i1 SameType (flags OR TMF_GenerateConstraints)
                (withPathElement locator FunctionArgument) cs = Inr (si, csm)
          \<and> si \<noteq> Error
          \<and> mt r1 r2 SameType (flags OR TMF_GenerateConstraints)
                (withPathElement locator FunctionResult) csm = Inr (s, cs1))
    \<or> (\<exists>i1 i2. t1 = MetaTypeType i1 \<and> t2 = MetaTypeType i2
          \<and> mt i1 i2 SameType (flags OR TMF_GenerateConstraints)
                (withPathElement locator InstanceType) cs = Inr (s, cs1))
    \<or> (\<exists>b1 s1 b2 s2. t1 = ArrayType b1 s1 \<and> t2 = ArrayType b2 s2
          \<and> mt b1 b2 SameType (flags OR TMF_GenerateConstraints)
                (withPathElement locator ArrayElementType) cs = Inr (s, cs1))
    \<or> (\<exists>k d p1 p2. t1 = NominalType k d (Some p1) \<and> t2 = NominalType k d (Some p2)
          \<and> mt p1 p2 SameType TMF_GenerateConstraints
                (withPathElement locator ParentType) cs = Inr (s, cs1))
    \<or> (\<exists>k d p1 args1 p2 args2 sp csp.
          t1 = BoundGenericType k d p1 args1 \<and> t2 = BoundGenericType k d p2 args2
          \<and> length args1 = length args2
          \<and> (p1 = None) = (p2 = None) \<and> sp \<noteq> Error
          \<and> (case (p1, p2) of
                (Some q1, Some q2) \<Rightarrow>
                  mt q1 q2 SameType TMF_GenerateConstraints
                    (withPathElement locator ParentType) cs
              | _ \<Rightarrow> Inr (Solved, cs)) = Inr (sp, csp)
          \<and> matchGenericArguments mt (zip args1 args2) 0 locator csp = Inr (s, cs1))
    \<or> (\<exists>elts1 elts2. t1 = TupleType elts1 \<and> t2 = TupleType elts2
          \<and> length elts1 = length elts2
          \<and> matchTupleElements mt elts1 elts2 (zip elts1 elts2) 0 SameType
                (flags OR TMF_GenerateConstraints) locator cs = Inr (s, cs1))"
proof -
  note resolved = plainType_resolved [OF assms(1)] plainType_resolved [OF assms(2)]
  have run: "(case decomposeParallelStructure tc mt t1 t2 SameType flags locator cs of
               Inl result \<Rightarrow> result
             | Inr pcs \<Rightarrow>
                 commitToConversions fuel tc mt ac t1 None t2 None SameType flags locator pcs cs)
            = Inr (s, cs1)"
    using assms(3,4)
    by (cases "decomposeParallelStructure tc mt t1 t2 SameType flags locator cs")
      (simp_all add: matchTypes_def resolved sameType_conversions)
  show ?thesis
  proof (cases t1)
    case (BuiltinType k n)
    then show ?thesis
      using run assms(2,3,5)
      by (cases t2) (auto simp: decomposeParallelStructure_def commitToConversions_def Let_def
          split: if_splits)
  next
    case (ModuleType n)
    then show ?thesis
      using run assms(2,3,5)
      by (cases t2) (auto simp: decomposeParallelStructure_def commitToConversions_def Let_def
          split: if_splits)
  next
    case (ArchetypeType n)
    then show ?thesis
      using run assms(2,3,5)
      by (cases t2) (auto simp: decomposeParallelStructure_def commitToConversions_def Let_def
          split: if_splits)
  next
    case (ProtocolType d)
    then show ?thesis
      using run assms(2,3,5)
      by (cases t2) (auto simp: decomposeParallelStructure_def commitToConversions_def Let_def
          split: if_splits)
  next
    case (ProtocolCompositionType ps)
    then show ?thesis
      using run assms(2,3,5)
      by (cases t2) (auto simp: decomposeParallelStructure_def commitToConversions_def Let_def
          split: if_splits)
  next
    case t1: (NominalType k d p)
    show ?thesis
    proof (cases t2)
      case t2: (NominalType k2 d2 p2)
      have kinds: "getKind t1 = getKind t2"
        using run assms(5) by (auto simp: decomposeParallelStructure_def commitToConversions_def Let_def split: if_splits)
      then have k: "k2 = k"
        unfolding t1 t2 by (cases k; cases k2) simp_all
      show ?thesis
        using run assms(3,5) kinds unfolding t1 t2 k
        by (auto simp: decomposeParallelStructure_def commitToConversions_def
            matchRestriction_def matchDeepEqualityTypes_def Let_def
            split: if_splits option.splits)
    qed (use run assms(2,5) t1 in \<open>auto simp: decomposeParallelStructure_def commitToConversions_def Let_def split: if_splits\<close>)
  next
    case (FunctionType i r a n)
    then show ?thesis
      using run assms(1,2,3,5)
      by (cases t2) (auto simp: decomposeParallelStructure_def commitToConversions_def
          matchFunctionTypes_def Let_def split: if_splits sum.splits SolutionKind.splits)
  next
    case (MetaTypeType i)
    then show ?thesis
      using run assms(1,2,3,5)
      by (cases t2) (auto simp: decomposeParallelStructure_def commitToConversions_def Let_def
          split: if_splits)
  next
    case (ArrayType b n)
    then show ?thesis
      using run assms(1,2,3,5)
      by (cases t2) (auto simp: decomposeParallelStructure_def commitToConversions_def Let_def
          split: if_splits)
  next
    case t1: (BoundGenericType k d p args)
    show ?thesis
    proof (cases t2)
      case t2: (BoundGenericType k2 d2 p2 args2)
      have kinds: "getKind t1 = getKind t2"
        using run assms(5) by (auto simp: decomposeParallelStructure_def commitToConversions_def Let_def split: if_splits)
      then have k: "k2 = k"
        unfolding t1 t2 by (cases k; cases k2) simp_all
      show ?thesis
        using run assms(3,5) kinds unfolding t1 t2 k
        by (auto simp: decomposeParallelStructure_def commitToConversions_def
            matchRestriction_def matchDeepEqualityTypes_def Let_def
            split: if_splits option.splits sum.splits SolutionKind.splits)
    qed (use run assms(2,5) t1 in \<open>auto simp: decomposeParallelStructure_def commitToConversions_def Let_def split: if_splits\<close>)
  next
    case ErrorType
    then show ?thesis
      using run assms(2,3,5)
      by (cases t2) (auto simp: decomposeParallelStructure_def commitToConversions_def Let_def
          split: if_splits)
  next
    case (GenericTypeParamType d i)
    then show ?thesis
      using run assms(2,3,5)
      by (cases t2) (auto simp: decomposeParallelStructure_def commitToConversions_def Let_def
          split: if_splits)
  next
    case (DependentMemberType b n)
    then show ?thesis
      using run assms(2,3,5)
      by (cases t2) (auto simp: decomposeParallelStructure_def commitToConversions_def Let_def
          split: if_splits)
  next
    case (PolymorphicFunctionType i r)
    then show ?thesis
      using run assms(2,3,5)
      by (cases t2) (auto simp: decomposeParallelStructure_def commitToConversions_def Let_def
          split: if_splits)
  next
    case (GenericFunctionType i r)
    then show ?thesis
      using run assms(2,3,5)
      by (cases t2) (auto simp: decomposeParallelStructure_def commitToConversions_def Let_def
          split: if_splits)
  next
    case (UnboundGenericType d)
    then show ?thesis
      using run assms(2,3,5)
      by (cases t2) (auto simp: decomposeParallelStructure_def commitToConversions_def Let_def
          split: if_splits)
  next
    case (TupleType elts)
    then show ?thesis
      using run assms(2,3,5)
      by (cases t2) (auto simp: decomposeParallelStructure_def commitToConversions_def Let_def
          matchRestriction_def matchTupleTypes_def split: if_splits)
  qed (use assms(1) in simp_all)
qed


lemma function_solved:
  assumes "n2 \<longrightarrow> n1" and "1 \<le> rank kind"
    and "\<And>k f l c. 1 \<le> rank k \<Longrightarrow> \<exists>c2. mt i2 i1 k f l c = Inr (Solved, c2)"
    and "\<And>k f l c. 1 \<le> rank k \<Longrightarrow> \<exists>c2. mt r1 r2 k f l c = Inr (Solved, c2)"
  shows "\<exists>cs2. matchTypes fuel tc mt ac (FunctionType i1 r1 a n1) (FunctionType i2 r2 a n2) kind
      flags locator cs = Inr (Solved, cs2)"
proof (cases "FunctionType i1 r1 a n1 = FunctionType i2 r2 a n2")
  case True
  then show ?thesis
    by (simp add: matchTypes_def getFixedTypeRecursive_def)
next
  case False
  define subKind where "subKind =
    (case kind of BindType \<Rightarrow> kind | SameType \<Rightarrow> kind | TrivialSubtype \<Rightarrow> kind
     | Subtype \<Rightarrow> TrivialSubtype | Conversion \<Rightarrow> Subtype)"
  have sub: "1 \<le> rank subKind"
    using assms(2) by (cases kind) (simp_all add: subKind_def)
  obtain csm where input: "mt i2 i1 subKind (flags OR TMF_GenerateConstraints)
      (withPathElement locator FunctionArgument) cs = Inr (Solved, csm)"
    using assms(3) [OF sub] by blast
  obtain cs2 where result: "mt r1 r2 subKind (flags OR TMF_GenerateConstraints)
      (withPathElement locator FunctionResult) csm = Inr (Solved, cs2)"
    using assms(4) [OF sub] by blast
  have "matchFunctionTypes mt i1 r1 a n1 i2 r2 a n2 kind flags locator cs = Inr (Solved, cs2)"
    using assms(1,2) input result
    by (auto simp: matchFunctionTypes_def Let_def subKind_def)
  then show ?thesis
    using False
    by (simp add: matchTypes_def getFixedTypeRecursive_def decomposeParallelStructure_def Let_def)
qed

lemma metatype_solved:
  assumes "1 \<le> rank kind"
    and "\<And>k f l c. 1 \<le> rank k \<Longrightarrow> \<exists>c2. mt i1 i2 k f l c = Inr (Solved, c2)"
  shows "\<exists>cs2. matchTypes fuel tc mt ac (MetaTypeType i1) (MetaTypeType i2) kind
      flags locator cs = Inr (Solved, cs2)"
proof -
  define subKind where "subKind =
    (if kind \<noteq> SameType \<and>
        (mayHaveSuperclass tc i1 \<or> getClassOrBoundGenericClass i2 \<noteq> None)
     then minKind kind Subtype else SameType)"
  have "1 \<le> rank subKind"
    using assms(1) by (cases kind) (simp_all add: subKind_def minKind_def)
  then obtain cs2 where "mt i1 i2 subKind (flags OR TMF_GenerateConstraints)
      (withPathElement locator InstanceType) cs = Inr (Solved, cs2)"
    using assms(2) by blast
  then show ?thesis
    by (auto simp: matchTypes_def getFixedTypeRecursive_def decomposeParallelStructure_def Let_def
        subKind_def)
qed

lemma array_solved:
  assumes "\<And>k f l c. 1 \<le> rank k \<Longrightarrow> \<exists>c2. mt b1 b2 k f l c = Inr (Solved, c2)"
  shows "\<exists>cs2. matchTypes fuel tc mt ac (ArrayType b1 s1) (ArrayType b2 s2) kind
      flags locator cs = Inr (Solved, cs2)"
proof -
  have "1 \<le> rank SameType"
    by simp
  then obtain cs2 where "mt b1 b2 SameType (flags OR TMF_GenerateConstraints)
      (withPathElement locator ArrayElementType) cs = Inr (Solved, cs2)"
    using assms by blast
  then show ?thesis
    by (auto simp: matchTypes_def getFixedTypeRecursive_def decomposeParallelStructure_def Let_def)
qed



lemma optionalConversions_plain:
  "plainType type1 \<Longrightarrow> plainType type2 \<Longrightarrow> \<exists>optional. optionalConversions type1 type2 = Inr optional"
  by (cases type2; cases type1) auto

lemma candidates_extended:
  assumes "\<exists>optional. optionalConversions type1 type2 = Inr optional"
    and "autoClosureResult type2 = None"
  shows "\<exists>rest. nonStructuralConversions tc mt type1 type2 True kind flags locator pcs0 cs
      = Inr (pcs0 @ rest)"
proof -
  obtain found committed where found:
    "(if True \<and> rank kind \<ge> rank TrivialSubtype
      then tupleAndSuperclassConversions tc type1 type2 kind else ([], False)) = (found, committed)"
    by fastforce
  obtain optional where "optionalConversions type1 type2 = Inr optional"
    using assms(1) by blast
  then have "\<exists>later. laterConversions tc type1 type2 True kind = Inr later"
    by (cases "rank Conversion \<le> rank kind") (simp_all add: laterConversions_def)
  then obtain later where later: "laterConversions tc type1 type2 True kind = Inr later"
    by blast
  show ?thesis
  proof (cases committed)
    case True
    then show ?thesis
      using found by (simp add: nonStructuralConversions_def Let_def)
  next
    case False
    then show ?thesis
      using found later assms(2) by (simp add: nonStructuralConversions_def Let_def)
  qed
qed

lemma commit_candidate:
  assumes "rest = [] \<Longrightarrow>
      \<exists>c. matchRestriction fuel tc mt (addConstraintN tc (Suc m)) r type1 type2 kind flags
        locator cs = Inr (Solved, c)"
  shows "\<exists>cs2. commitToConversions fuel tc mt (addConstraintN tc (Suc m)) type1 typeVar1 type2
      typeVar2 kind flags locator (r # rest) cs = Inr (Solved, cs2)"
proof (cases rest)
  case Nil
  then show ?thesis
    using assms by (simp add: commitToConversions_def)
next
  case (Cons x xs)
  then have "1 < length (r # rest)"
    by simp
  then show ?thesis
    by (simp add: commitToConversions_def Let_def createDisjunction_many
        addConstraintN_disjunction del: list.map)
qed

lemma candidate_solved:
  assumes "getFixedTypeRecursive fuel cs type1 (kind = SameType) = Inr (type1, None)"
    and "getFixedTypeRecursive fuel cs type2 (kind = SameType) = Inr (type2, None)"
    and "\<exists>optional. optionalConversions type1 type2 = Inr optional"
    and "autoClosureResult type2 = None"
    and "decomposeParallelStructure tc mt type1 type2 kind flags locator cs = Inr [r]"
    and "\<exists>c. matchRestriction fuel tc mt (addConstraintN tc (Suc m)) r type1 type2 kind flags
        locator cs = Inr (Solved, c)"
  shows "\<exists>cs2. matchTypes fuel tc mt (addConstraintN tc (Suc m)) type1 type2 kind flags locator cs
      = Inr (Solved, cs2)"
proof (cases "type1 = type2")
  case True
  then show ?thesis
    using assms(2) by (simp add: matchTypes_def)
next
  case False
  obtain rest where rest: "nonStructuralConversions tc mt type1 type2 True kind flags locator
      [r] cs = Inr ([r] @ rest)"
    using candidates_extended [OF assms(3,4)] by blast
  have "matchTypes fuel tc mt (addConstraintN tc (Suc m)) type1 type2 kind flags locator cs =
      commitToConversions fuel tc mt (addConstraintN tc (Suc m)) type1 None type2 None kind flags
        locator ([r] @ rest) cs"
    using assms(1,2,5) False rest by (intro matchTypes_commits) simp_all
  then show ?thesis
    using commit_candidate [of rest fuel tc mt m r type1 type2 kind flags locator cs None None]
      assms(6)
    by simp
qed

lemma genericArguments_solved:
  assumes "\<And>a b k f l c. (a, b) \<in> set pairs \<Longrightarrow> 1 \<le> rank k \<Longrightarrow>
             \<exists>c2. mt a b k f l c = Inr (Solved, c2)"
  shows "\<exists>cs2. matchGenericArguments mt pairs i locator cs = Inr (Solved, cs2)"
  using assms
proof (induction pairs arbitrary: i cs)
  case Nil
  then show ?case by simp
next
  case (Cons pair rest)
  obtain a b where pair: "pair = (a, b)"
    by (cases pair)
  have "1 \<le> rank SameType"
    by simp
  then have "\<exists>c2. mt a b SameType TMF_GenerateConstraints
      (withPathElement locator (GenericArgument i)) cs = Inr (Solved, c2)"
    using Cons.prems [of a b SameType] pair by simp
  then obtain c2 where head: "mt a b SameType TMF_GenerateConstraints
      (withPathElement locator (GenericArgument i)) cs = Inr (Solved, c2)"
    by blast
  have "\<exists>cs2. matchGenericArguments mt rest (i + 1) locator c2 = Inr (Solved, cs2)"
    using Cons.prems by (intro Cons.IH) auto
  then show ?case
    using head pair by simp
qed

lemma genericArguments_not_failed:
  assumes "matchGenericArguments mt pairs i locator cs = Inr (s, cs1)" and "s \<noteq> Error"
    and "(a, b) \<in> set pairs"
  shows "\<exists>j c s' c1. mt a b SameType TMF_GenerateConstraints
      (withPathElement locator (GenericArgument j)) c = Inr (s', c1) \<and> s' \<noteq> Error"
  using assms
proof (induction pairs arbitrary: i cs)
  case Nil
  then show ?case by simp
next
  case (Cons pair rest)
  obtain a' b' where pair: "pair = (a', b')"
    by (cases pair)
  obtain sh ch where head: "mt a' b' SameType TMF_GenerateConstraints
      (withPathElement locator (GenericArgument i)) cs = Inr (sh, ch)" and sh: "sh \<noteq> Error"
    and tail: "matchGenericArguments mt rest (i + 1) locator ch = Inr (s, cs1)"
    using Cons.prems(1,2) pair
    by (auto split: sum.splits SolutionKind.splits)
  show ?case
  proof (cases "(a, b) = pair")
    case True
    then show ?thesis
      using head sh pair by blast
  next
    case False
    then have "(a, b) \<in> set rest"
      using Cons.prems(3) by simp
    from Cons.IH [OF tail Cons.prems(2) this] show ?thesis .
  qed
qed


lemma nominal_decomposed:
  "decomposeParallelStructure tc mt (NominalType k d p1) (NominalType k d p2) kind flags locator cs
     = Inr [DeepEquality]"
  by (cases k) (simp_all add: decomposeParallelStructure_def Let_def)

lemma boundGeneric_decomposed:
  "decomposeParallelStructure tc mt (BoundGenericType k d p1 args1) (BoundGenericType k d p2 args2)
     kind flags locator cs = Inr [DeepEquality]"
  by (cases k) (simp_all add: decomposeParallelStructure_def Let_def)

lemma genericArguments_result:
  "matchGenericArguments mt pairs i locator cs = Inr (s, cs1) \<Longrightarrow> s \<noteq> Error \<Longrightarrow> s = Solved"
proof (induction pairs arbitrary: i cs)
  case Nil
  then show ?case by simp
next
  case (Cons pair rest)
  obtain a b where pair: "pair = (a, b)"
    by (cases pair)
  from Cons.prems pair obtain ch where
    "matchGenericArguments mt rest (i + 1) locator ch = Inr (s, cs1)"
    by (auto split: sum.splits SolutionKind.splits)
  then show ?case
    using Cons.prems(2) by (rule Cons.IH)
qed


lemma same_type_solved:
  "plainType t \<Longrightarrow> matchTypes fuel tc mt ac t t kind flags locator cs = Inr (Solved, cs)"
  by (simp add: matchTypes_def plainType_resolved)


text \<open>Two different plain types are not matched without a call of \<^verbatim>\<open>matchTypes\<close> on their parts.\<close>

lemma genericArguments_without_fuel:
  "matchGenericArguments (matchTypesN tc 0) pairs i locator cs = Inr result \<Longrightarrow> pairs = []"
  by (cases pairs) (auto simp: matchTypesN_0)

lemma tupleElements_without_fuel:
  "matchTupleElements (matchTypesN tc 0) tuple1 tuple2 pairs i kind subFlags locator cs
     = Inr (s, cs1) \<Longrightarrow> s \<noteq> Error \<Longrightarrow> pairs = []"
  by (cases pairs) (auto simp: matchTypesN_0 split: if_splits)

lemma sameType_needs_fuel:
  assumes "plainType t1" and "plainType t2" and "t1 \<noteq> t2"
    and "matchTypes fuel tc (matchTypesN tc 0) ac t1 t2 SameType flags locator cs = Inr (s, cs1)"
  shows "s = Error"
proof (rule ccontr)
  assume "s \<noteq> Error"
  from sameType_shape [OF assms this]
  show False
  proof (elim disjE exE conjE, goal_cases)
    case (1 i1 r1 a n1 i2 r2 n2 si csm)
    then show ?case by (simp add: matchTypesN_0)
  next
    case (2 i1 i2)
    then show ?case by (simp add: matchTypesN_0)
  next
    case (3 b1 s1 b2 s2)
    then show ?case by (simp add: matchTypesN_0)
  next
    case (4 k d p1 p2)
    then show ?case by (simp add: matchTypesN_0)
  next
    case (5 k d p1 args1 p2 args2 sp csp)
    have "zip args1 args2 = []"
      using 5(7) by (rule genericArguments_without_fuel)
    then have "args1 = args2"
      using 5(3) by (cases args1; cases args2) simp_all
    moreover have "p1 = None \<and> p2 = None"
      using 5(4,6) by (cases p1; cases p2) (simp_all add: matchTypesN_0)
    ultimately show ?case
      using 5(1,2) assms(3) by simp
  next
    case (6 elts1 elts2)
    have "zip elts1 elts2 = []"
      using 6(4) \<open>s \<noteq> Error\<close> by (rule tupleElements_without_fuel)
    then have "elts1 = elts2"
      using 6(3) by (cases elts1; cases elts2) simp_all
    then show ?case
      using 6(1,2) assms(3) by simp
  qed
qed


lemma sameType_monotonic:
  assumes "plainType t1" and "plainType t2"
    and "matchTypesN tc n t1 t2 SameType flags locator cs = Inr (s, cs1)" and "s \<noteq> Error"
  shows "s = Solved
    \<and> (\<forall>kind flags' locator' cs'. 1 \<le> rank kind \<longrightarrow>
          (\<exists>cs2. matchTypesN tc n t1 t2 kind flags' locator' cs' = Inr (Solved, cs2)))"
  using assms
proof (induction n arbitrary: t1 t2 flags locator cs s cs1)
  case 0
  then show ?case
    by (simp add: matchTypesN_0)
next
  case (Suc m)
  let ?mt = "matchTypesN tc m"
  note run = Suc.prems(3) [unfolded matchTypesN_Suc]
  note later = matchTypesN_Suc [of tc m]
  have IH: "s = Solved \<and> (\<forall>kind flags' locator' cs'. 1 \<le> rank kind \<longrightarrow>
          (\<exists>cs2. ?mt t1 t2 kind flags' locator' cs' = Inr (Solved, cs2)))"
    if "plainType t1" "plainType t2" "?mt t1 t2 SameType flags locator cs = Inr (s, cs1)"
      "s \<noteq> Error" for t1 t2 flags locator cs s cs1
    using that by (rule Suc.IH)
  show ?case
  proof (cases "t1 = t2")
    case True
    then show ?thesis
      using run Suc.prems(1) by (simp add: later same_type_solved)
  next
    case False
    have "m \<noteq> 0"
    proof
      assume "m = 0"
      with sameType_needs_fuel [OF Suc.prems(1,2) False, of 0 tc "addConstraintN tc 0"] run
      have "s = Error"
        by simp
      then show False
        using Suc.prems(4) by simp
    qed
    then obtain m' where m: "m = Suc m'"
      by (cases m) simp_all
    let ?ac = "addConstraintN tc (Suc m')"
    have ac: "addConstraintN tc m = ?ac"
      by (simp add: m)
    have optional: "\<exists>optional. optionalConversions t1 t2 = Inr optional"
      using Suc.prems(1,2) by (rule optionalConversions_plain)
    have resolved: "getFixedTypeRecursive m c t1 w = Inr (t1, None)"
      "getFixedTypeRecursive m c t2 w = Inr (t2, None)" for c w
      using Suc.prems(1,2) by (simp_all add: plainType_resolved)
    from sameType_shape [OF Suc.prems(1,2) False run Suc.prems(4)]
    show ?thesis
    proof (elim disjE exE conjE, goal_cases)
      case (1 i1 r1 a n1 i2 r2 n2 si csm)
      note Function = 1
      have simple: "plainType i1" "plainType r1" "plainType i2" "plainType r2"
        using Suc.prems(1,2) Function(1,2) by simp_all
      note input = IH [OF simple(3) simple(1) Function(4) Function(5)]
      note result = IH [OF simple(2) simple(4) Function(6) Suc.prems(4)]
      have "\<exists>cs2. matchTypes m tc ?mt (addConstraintN tc m) (FunctionType i1 r1 a n1)
          (FunctionType i2 r2 a n2) kind flags' locator' cs' = Inr (Solved, cs2)"
        if "1 \<le> rank kind" for kind flags' locator' cs'
        using Function(3) that
      proof (rule function_solved)
        show "\<exists>c2. ?mt i2 i1 k f l c = Inr (Solved, c2)" if "1 \<le> rank k" for k f l c
          using input that by blast
        show "\<exists>c2. ?mt r1 r2 k f l c = Inr (Solved, c2)" if "1 \<le> rank k" for k f l c
          using result that by blast
      qed
      then show ?thesis
        using result Function(1,2) by (simp add: later)
    next
      case (2 i1 i2)
      note MetaType = 2
      have simple: "plainType i1" "plainType i2"
        using Suc.prems(1,2) MetaType(1,2) by simp_all
      note instanceTypes = IH [OF simple MetaType(3) Suc.prems(4)]
      have "\<exists>cs2. matchTypes m tc ?mt (addConstraintN tc m) (MetaTypeType i1) (MetaTypeType i2)
          kind flags' locator' cs' = Inr (Solved, cs2)"
        if "1 \<le> rank kind" for kind flags' locator' cs'
        using that
      proof (rule metatype_solved)
        show "\<exists>c2. ?mt i1 i2 k f l c = Inr (Solved, c2)" if "1 \<le> rank k" for k f l c
          using instanceTypes that by blast
      qed
      then show ?thesis
        using instanceTypes MetaType(1,2) by (simp add: later)
    next
      case (3 b1 s1 b2 s2)
      note Array = 3
      have simple: "plainType b1" "plainType b2"
        using Suc.prems(1,2) Array(1,2) by simp_all
      note base = IH [OF simple Array(3) Suc.prems(4)]
      have "\<exists>cs2. matchTypes m tc ?mt (addConstraintN tc m) (ArrayType b1 s1) (ArrayType b2 s2)
          kind flags' locator' cs' = Inr (Solved, cs2)"
        for kind flags' locator' cs'
      proof (rule array_solved)
        show "\<exists>c2. ?mt b1 b2 k f l c = Inr (Solved, c2)" if "1 \<le> rank k" for k f l c
          using base that by blast
      qed
      then show ?thesis
        using base Array(1,2) by (simp add: later)
    next
      case (4 k d p1 p2)
      note Nominal = 4
      have simple: "plainType p1" "plainType p2"
        using Suc.prems(1,2) Nominal(1,2) by simp_all
      note parent = IH [OF simple Nominal(3) Suc.prems(4)]
      have "\<exists>cs2. matchTypes m tc ?mt ?ac t1 t2 kind flags' locator' cs' = Inr (Solved, cs2)"
        for kind flags' locator' cs'
        using resolved optional
      proof (rule candidate_solved)
        show "autoClosureResult t2 = None"
          by (simp add: Nominal(2))
        show "decomposeParallelStructure tc ?mt t1 t2 kind flags' locator' cs' = Inr [DeepEquality]"
          by (simp add: Nominal(1,2) nominal_decomposed)
        have "\<exists>c2. ?mt p1 p2 SameType TMF_GenerateConstraints
            (withPathElement locator' ParentType) cs' = Inr (Solved, c2)"
          using parent by simp
        then show "\<exists>c. matchRestriction m tc ?mt ?ac DeepEquality t1 t2 kind flags' locator' cs'
            = Inr (Solved, c)"
          by (simp add: Nominal(1,2) matchRestriction_def matchDeepEqualityTypes_def)
      qed
      then show ?thesis
        using parent by (simp add: later ac)
    next
      case (5 k d p1 args1 p2 args2 sp csp)
      note BoundGeneric = 5
      have solved: "s = Solved"
        using BoundGeneric(7) Suc.prems(4) by (rule genericArguments_result)
      have arguments: "\<exists>c2. ?mt a b k f l c = Inr (Solved, c2)"
        if "(a, b) \<in> set (zip args1 args2)" "1 \<le> rank k" for a b k f l c
      proof -
        have "a \<in> set args1" "b \<in> set args2"
          using that(1) by (auto dest: set_zip_leftD set_zip_rightD)
        then have simple: "plainType a" "plainType b"
          using Suc.prems(1,2) BoundGeneric(1,2) by (simp_all add: list_all_iff)
        from genericArguments_not_failed [OF BoundGeneric(7) Suc.prems(4) that(1)]
        obtain j c0 s' c1 where "?mt a b SameType TMF_GenerateConstraints
            (withPathElement locator (GenericArgument j)) c0 = Inr (s', c1)" "s' \<noteq> Error"
          by blast
        from IH [OF simple this] that(2) show ?thesis
          by blast
      qed
      have parents: "\<exists>c2. (case (p1, p2) of
                (Some q1, Some q2) \<Rightarrow>
                  ?mt q1 q2 SameType TMF_GenerateConstraints (withPathElement l ParentType) c
              | _ \<Rightarrow> Inr (Solved, c)) = Inr (Solved, c2)" for l c
      proof (cases p1)
        case None
        then show ?thesis
          by simp
      next
        case p1: (Some q1)
        then obtain q2 where p2: "p2 = Some q2"
          using BoundGeneric(4) by (cases p2) simp_all
        have simple: "plainType q1" "plainType q2"
          using Suc.prems(1,2) BoundGeneric(1,2) p1 p2 by simp_all
        have "?mt q1 q2 SameType TMF_GenerateConstraints
             (withPathElement locator ParentType) cs = Inr (sp, csp)"
          using BoundGeneric(6) p1 p2 by simp
        from IH [OF simple this BoundGeneric(5)]
        have "\<exists>c2. ?mt q1 q2 SameType TMF_GenerateConstraints (withPathElement l ParentType) c
            = Inr (Solved, c2)"
          by simp
        then show ?thesis
          by (simp add: p1 p2)
      qed
      have "\<exists>cs2. matchTypes m tc ?mt ?ac t1 t2 kind flags' locator' cs' = Inr (Solved, cs2)"
        for kind flags' locator' cs'
        using resolved optional
      proof (rule candidate_solved)
        show "autoClosureResult t2 = None"
          by (simp add: BoundGeneric(2))
        show "decomposeParallelStructure tc ?mt t1 t2 kind flags' locator' cs' = Inr [DeepEquality]"
          by (simp add: BoundGeneric(1,2) boundGeneric_decomposed)
        obtain c2 where c2: "(case (p1, p2) of
                (Some q1, Some q2) \<Rightarrow>
                  ?mt q1 q2 SameType TMF_GenerateConstraints
                    (withPathElement locator' ParentType) cs'
              | _ \<Rightarrow> Inr (Solved, cs')) = Inr (Solved, c2)"
          using parents by blast
        obtain c3 where "matchGenericArguments ?mt (zip args1 args2) 0 locator' c2 = Inr (Solved, c3)"
          using genericArguments_solved [of "zip args1 args2" ?mt] arguments by blast
        then show "\<exists>c. matchRestriction m tc ?mt ?ac DeepEquality t1 t2 kind flags' locator' cs'
            = Inr (Solved, c)"
          using c2 BoundGeneric(3,4)
          by (simp add: BoundGeneric(1,2) matchRestriction_def matchDeepEqualityTypes_def)
      qed
      then show ?thesis
        using solved by (simp add: later ac)
    next
      case (6 elts1 elts2)
      note Tuple = 6
      from tupleElements_not_failed [OF Tuple(4) Suc.prems(4)]
      have solved: "s = Solved"
        and elements: "\<forall>(e1, e2)\<in>set (zip elts1 elts2). getName e1 = getName e2
          \<and> (\<exists>j c s' c1. ?mt (getType e1) (getType e2) SameType
                  (flags OR TMF_GenerateConstraints)
                  (withPathElement locator (TupleElement j)) c = Inr (s', c1) \<and> s' \<noteq> Error)"
        by simp_all
      have plain1: "plainType (getType (elts1 ! j)) \<and> \<not> isVararg (elts1 ! j)"
        if "j < length elts2" for j
        using Suc.prems(1) Tuple(1,3) that by (simp add: list_all_iff plainTypeElt_iff)
      have plain2: "plainType (getType (elts2 ! j)) \<and> \<not> isVararg (elts2 ! j)"
        if "j < length elts2" for j
        using Suc.prems(2) Tuple(2) that by (simp add: list_all_iff plainTypeElt_iff)
      have zipped: "(elts1 ! j, elts2 ! j) \<in> set (zip elts1 elts2)" if "j < length elts2" for j
        using that Tuple(3) by (auto simp: in_set_zip)
      have names: "getName (elts1 ! j) = getName (elts2 ! j)" if "j < length elts2" for j
        using elements zipped [OF that] by blast
      have parts: "\<exists>c2. ?mt (getType (elts1 ! j)) (getType (elts2 ! j)) k f l c = Inr (Solved, c2)"
        if "j < length elts2" "1 \<le> rank k" for j k f l c
      proof -
        from elements zipped [OF that(1)]
        obtain i c0 s' c1 where "?mt (getType (elts1 ! j)) (getType (elts2 ! j)) SameType
            (flags OR TMF_GenerateConstraints) (withPathElement locator (TupleElement i)) c0
            = Inr (s', c1)" "s' \<noteq> Error"
          by blast
        from IH [OF _ _ this] plain1 [OF that(1)] plain2 [OF that(1)] that(2) show ?thesis
          by blast
      qed
      have "\<exists>cs2. matchTypes m tc ?mt ?ac t1 t2 kind flags' locator' cs' = Inr (Solved, cs2)"
        if kind: "1 \<le> rank kind" for kind flags' locator' cs'
        using resolved optional
      proof (rule candidate_solved)
        show "autoClosureResult t2 = None"
          by (simp add: Tuple(2))
        show "decomposeParallelStructure tc ?mt t1 t2 kind flags' locator' cs' = Inr [TupleToTuple]"
          by (simp add: Tuple(1,2) decomposeParallelStructure_def Let_def)
        have "\<exists>c. matchTupleTypes tc ?mt elts1 elts2 kind flags' locator' cs' = Inr (Solved, c)"
          using kind Tuple(3)
        proof (rule tupleTypes_solved)
          show "\<forall>j<length elts2. getName (elts1 ! j) = getName (elts2 ! j)
              \<and> \<not> isVararg (elts1 ! j) \<and> \<not> isVararg (elts2 ! j)"
            using names plain1 plain2 by simp
          show "\<forall>j<length elts2. \<forall>k f l c. 1 \<le> rank k \<longrightarrow>
              (\<exists>c2. ?mt (getType (elts1 ! j)) (getType (elts2 ! j)) k f l c = Inr (Solved, c2))"
            using parts by simp
        qed
        then show "\<exists>c. matchRestriction m tc ?mt ?ac TupleToTuple t1 t2 kind flags' locator' cs'
            = Inr (Solved, c)"
          by (simp add: Tuple(1,2) matchRestriction_def)
      qed
      then show ?thesis
        using solved by (simp add: later ac)
    qed
  qed
qed


subsection \<open>Types whose parts are matched as the same types at every kind\<close>

lemma invariantType_resolved:
  "invariantType t \<Longrightarrow> getFixedTypeRecursive fuel cs t w = Inr (t, None)"
  by (cases t) (simp_all add: getFixedTypeRecursive_def)

lemma optionalConversions_invariant:
  "invariantType type1 \<Longrightarrow> invariantType type2 \<Longrightarrow>
   \<exists>optional. optionalConversions type1 type2 = Inr optional"
  by (cases type2; cases type1) auto

lemma invariantType_autoClosure: "invariantType t \<Longrightarrow> autoClosureResult t = None"
  by (cases t) simp_all

text \<open>
  The switch over the parallel structure of two invariant types does not look at the
  kind of the match.
\<close>

lemma invariantType_decomposed:
  assumes "invariantType t1" and "invariantType t2"
  shows "decomposeParallelStructure tc mt t1 t2 kind flags locator cs
    = decomposeParallelStructure tc mt t1 t2 SameType flags locator cs"
  using assms
  by (cases t1; cases t2) (simp_all add: decomposeParallelStructure_def Let_def)

lemma invariantType_candidates:
  assumes "invariantType t1" and "invariantType t2"
    and "decomposeParallelStructure tc mt t1 t2 SameType flags locator cs = Inr pcs"
  shows "pcs = [] \<or> pcs = [DeepEquality]"
  using assms
  by (cases t1; cases t2) (auto simp: decomposeParallelStructure_def Let_def split: if_splits)

lemma deepEquality_without_fuel:
  assumes "invariantType t1" and "invariantType t2"
    and "decomposeParallelStructure tc mt t1 t2 SameType flags locator cs = Inr [DeepEquality]"
    and "matchDeepEqualityTypes (matchTypesN tc 0) t1 t2 locator cs = Inr result"
  shows "t1 = t2"
proof (cases t1)
  case t1: (NominalType k1 d1 p1)
  show ?thesis
  proof (cases t2)
    case t2: (NominalType k2 d2 p2)
    have "getKind t1 = getKind t2" "d1 = d2"
      using assms(3) t1 t2 by (auto simp: decomposeParallelStructure_def Let_def split: if_splits)
    moreover from this have "k1 = k2"
      unfolding t1 t2 by (cases k1; cases k2) simp_all
    moreover have "p1 = None \<and> p2 = None"
      using assms(4) t1 t2
      by (cases p1; cases p2) (simp_all add: matchDeepEqualityTypes_def matchTypesN_0)
    ultimately show ?thesis
      using t1 t2 by simp
  qed (use assms(2,3) t1 in \<open>auto simp: decomposeParallelStructure_def Let_def split: if_splits\<close>)
next
  case t1: (BoundGenericType k1 d1 p1 args1)
  show ?thesis
  proof (cases t2)
    case t2: (BoundGenericType k2 d2 p2 args2)
    have "getKind t1 = getKind t2" "d1 = d2"
      using assms(3) t1 t2 by (auto simp: decomposeParallelStructure_def Let_def split: if_splits)
    moreover from this have "k1 = k2"
      unfolding t1 t2 by (cases k1; cases k2) simp_all
    moreover have parents: "p1 = None \<and> p2 = None"
      using assms(4) t1 t2
      by (cases p1; cases p2)
        (simp_all add: matchDeepEqualityTypes_def matchTypesN_0 split: if_splits)
    moreover have "args1 = args2"
    proof -
      from assms(4) t1 t2 parents have len: "length args1 = length args2"
        and "\<exists>r. matchGenericArguments (matchTypesN tc 0) (zip args1 args2) 0 locator cs = Inr r"
        by (auto simp: matchDeepEqualityTypes_def split: if_splits)
      then have "zip args1 args2 = []"
        using genericArguments_without_fuel by blast
      then show ?thesis
        using len by (cases args1; cases args2) simp_all
    qed
    ultimately show ?thesis
      using t1 t2 by simp
  qed (use assms(2,3) t1 in \<open>auto simp: decomposeParallelStructure_def Let_def split: if_splits\<close>)
next
  case (ArrayType b n)
  then show ?thesis
    using assms(2,3)
    by (cases t2) (auto simp: decomposeParallelStructure_def Let_def split: if_splits)
qed (use assms(1) in simp_all)

lemma invariant_monotonic:
  assumes "invariantType t1" and "invariantType t2"
    and "matchTypesN tc n t1 t2 SameType flags locator cs = Inr (Solved, cs1)"
  shows "\<exists>cs2. matchTypesN tc n t1 t2 kind flags locator cs = Inr (Solved, cs2)"
proof (cases n)
  case 0
  then show ?thesis
    using assms(3) by (simp add: matchTypesN_0)
next
  case (Suc m)
  let ?mt = "matchTypesN tc m"
  note resolved = invariantType_resolved [OF assms(1)] invariantType_resolved [OF assms(2)]
  note run = assms(3) [unfolded Suc matchTypesN_Suc]
  show ?thesis
  proof (cases "t1 = t2")
    case True
    then show ?thesis
      by (simp add: Suc matchTypesN_Suc matchTypes_def resolved)
  next
    case False
    show ?thesis
    proof (cases "decomposeParallelStructure tc ?mt t1 t2 SameType flags locator cs")
      case (Inl result)
      then have "matchTypes m tc ?mt (addConstraintN tc m) t1 t2 kind flags locator cs = result"
        using False invariantType_decomposed [OF assms(1,2), of tc ?mt kind flags locator cs]
        by (simp add: matchTypes_def resolved)
      moreover have "result = Inr (Solved, cs1)"
        using run False Inl by (simp add: matchTypes_def resolved)
      ultimately show ?thesis
        by (simp add: Suc matchTypesN_Suc)
    next
      case (Inr pcs)
      have committed: "commitToConversions m tc ?mt (addConstraintN tc m) t1 None t2 None SameType
          flags locator pcs cs = Inr (Solved, cs1)"
        using run False Inr by (simp add: matchTypes_def resolved sameType_conversions)
      have "pcs \<noteq> []"
        using committed by (auto simp: commitToConversions_def)
      then have pcs: "pcs = [DeepEquality]"
        using invariantType_candidates [OF assms(1,2) Inr] by simp
      have deep: "matchDeepEqualityTypes ?mt t1 t2 locator cs = Inr (Solved, cs1)"
        using committed by (simp add: pcs commitToConversions_def matchRestriction_def)
      have "m \<noteq> 0"
      proof
        assume "m = 0"
        then have "t1 = t2"
          using deepEquality_without_fuel [OF assms(1,2) Inr [unfolded pcs]] deep
          by (simp add: pcs)
        then show False
          using False by simp
      qed
      then obtain m' where m: "m = Suc m'"
        by (cases m) simp_all
      have "\<exists>cs2. matchTypes m tc ?mt (addConstraintN tc (Suc m')) t1 t2 kind flags locator cs
          = Inr (Solved, cs2)"
        using resolved
      proof (rule candidate_solved)
        show "\<exists>optional. optionalConversions t1 t2 = Inr optional"
          using assms(1,2) by (rule optionalConversions_invariant)
        show "autoClosureResult t2 = None"
          using assms(2) by (rule invariantType_autoClosure)
        show "decomposeParallelStructure tc ?mt t1 t2 kind flags locator cs = Inr [DeepEquality]"
          using invariantType_decomposed [OF assms(1,2), of tc ?mt kind flags locator cs] Inr pcs
          by (simp only:)
        show "\<exists>c. matchRestriction m tc ?mt (addConstraintN tc (Suc m')) DeepEquality t1 t2 kind
            flags locator cs = Inr (Solved, c)"
          using deep by (simp add: matchRestriction_def)
      qed
      then show ?thesis
        by (simp add: Suc matchTypesN_Suc m)
    qed
  qed
qed

lemma lvalue_same: "matchTypesN plainTC (Suc (Suc 0)) (LValueType IntTy (Qual False False)) IntTy SameType TMF_None
     (locatorBuilder None) (emptySystem None) = Inr (Solved, emptySystem None)"
  by (simp add: matchTypesN_Suc matchTypes_def getFixedTypeRecursive_def IntTy_def)

lemma lvalue_sub: "matchTypesN plainTC (Suc (Suc 0)) (LValueType IntTy (Qual False False)) IntTy Subtype TMF_None
     (locatorBuilder None) (emptySystem None) = Inr (Error, recordFailure None TypesNotSubtypes [TypeArg (LValueType IntTy (Qual False False)), TypeArg IntTy] (emptySystem None))"
  by (simp add: matchTypesN_Suc matchTypes_def getFixedTypeRecursive_def IntTy_def collect_defs
     commitToConversions_def shouldRecordFailures_def emptySystem_def getConstraintLocator_def locatorBuilder_def hasEmptyPath_def)

lemma lvalue_conv: "matchTypesN plainTC (Suc (Suc 0)) (LValueType IntTy (Qual False False)) IntTy Conversion TMF_None
     (locatorBuilder None) (emptySystem None) = Inr (Error, recordFailure None TypesNotConvertible [TypeArg (LValueType IntTy (Qual False False)), TypeArg IntTy] (emptySystem None))"
  by (simp add: matchTypesN_Suc matchTypes_def getFixedTypeRecursive_def IntTy_def collect_defs
     commitToConversions_def shouldRecordFailures_def emptySystem_def getConstraintLocator_def locatorBuilder_def hasEmptyPath_def
     shouldTryUserConversion_def lookupMember_def plainTC_def exampleTC_def)

lemma solved_state:
  "map_sum id fst r = Inr Solved \<Longrightarrow> \<exists>cs1. r = Inr (Solved, cs1)"
  by (cases r) auto

text \<open>
  Claim C1, amended. When \<^verbatim>\<open>matchTypes\<close> with the kind \<open>SameType\<close> of the constraint kind
  \<open>Equal\<close> returns \<open>Solved\<close> within the call depth \<open>n\<close>, it returns \<open>Solved\<close> with the kinds
  \<open>Subtype\<close> and \<open>Conversion\<close> within the same call depth, from the same flags, locator
  and constraint system, between two plain types (\<open>plainType\<close>) and between two types of
  which the parts are matched as the same types at every kind (\<open>invariantType\<close>), whatever
  these parts are.
\<close>

theorem equal_solved_monotonic:
  assumes "plainType t1 \<and> plainType t2 \<or> invariantType t1 \<and> invariantType t2"
    and "matchTypesN tc n t1 t2 SameType flags locator cs = Inr (Solved, cs1)"
  shows "(\<exists>cs2. matchTypesN tc n t1 t2 Subtype flags locator cs = Inr (Solved, cs2))
    \<and> (\<exists>cs3. matchTypesN tc n t1 t2 Conversion flags locator cs = Inr (Solved, cs3))"
proof -
  have kinds: "\<exists>cs2. matchTypesN tc n t1 t2 kind flags locator cs = Inr (Solved, cs2)"
    if "1 \<le> rank kind" for kind
    using assms(1)
  proof
    assume plain: "plainType t1 \<and> plainType t2"
    have "Solved \<noteq> Error"
      by simp
    with plain assms(2) have "\<forall>kind flags' locator' cs'. 1 \<le> rank kind \<longrightarrow>
        (\<exists>cs2. matchTypesN tc n t1 t2 kind flags' locator' cs' = Inr (Solved, cs2))"
      using sameType_monotonic [of t1 t2 tc n flags locator cs Solved cs1] by blast
    then show ?thesis
      using that by blast
  next
    assume "invariantType t1 \<and> invariantType t2"
    then show ?thesis
      using assms(2) invariant_monotonic by blast
  qed
  have "1 \<le> rank Subtype" "1 \<le> rank Conversion"
    by simp_all
  then show ?thesis
    using kinds by blast
qed

text \<open>
  Claim C1 as stated fails between the lvalue type of \<open>Int\<close> (not implicit) and \<open>Int\<close>:
  \<open>SameType\<close> looks through the lvalue and is solved, the other kinds do not and fail.
\<close>

theorem lvalue_not_monotonic:
  "matchTypesN plainTC (Suc (Suc 0)) (LValueType IntTy (Qual False False)) IntTy SameType TMF_None
     (locatorBuilder None) (emptySystem None) = Inr (Solved, emptySystem None)
   \<and> matchTypesN plainTC (Suc (Suc 0)) (LValueType IntTy (Qual False False)) IntTy Subtype TMF_None
     (locatorBuilder None) (emptySystem None)
     = Inr (Error, recordFailure None TypesNotSubtypes
         [TypeArg (LValueType IntTy (Qual False False)), TypeArg IntTy] (emptySystem None))
   \<and> matchTypesN plainTC (Suc (Suc 0)) (LValueType IntTy (Qual False False)) IntTy Conversion
     TMF_None (locatorBuilder None) (emptySystem None)
     = Inr (Error, recordFailure None TypesNotConvertible
         [TypeArg (LValueType IntTy (Qual False False)), TypeArg IntTy] (emptySystem None))"
  using lvalue_same lvalue_sub lvalue_conv by simp

text \<open>
  It fails as well on an unbound type variable when the caller does not ask for new
  constraints: \<open>SameType\<close> binds the variable, \<open>Subtype\<close> is left unsolved.
\<close>

lemma unbound_variable_not_monotonic:
  "matchTypesN plainTC (Suc (Suc 0)) (TypeVariableType 0) IntTy SameType TMF_None
     (locatorBuilder None) oneVariable
     = Inr (Solved, oneVariable\<lparr>fixedType := (fixedType oneVariable)(0 := Some IntTy)\<rparr>)"
  "matchTypesN plainTC (Suc (Suc 0)) (TypeVariableType 0) IntTy Subtype TMF_None
     (locatorBuilder None) oneVariable = Inr (Unsolved, oneVariable)"
  using oneVariable_Int(4,5)
  by (simp_all add: matchTypesN_Suc matchTypes_def getFixedTypeRecursive_unbound
      getFixedTypeRecursive_concrete unifyTypeVariables_def bindTypeVariables_def
      assignFixedType_def IntTy_def collect_defs commitToConversions_def TMF_None_def
      oneVariable_def createTypeVariable_def emptySystem_def getRepresentative_def Let_def)

text \<open>
  An lvalue type fails it inside a tuple too.
\<close>

lemma lvalue_in_tuple_not_monotonic:
  "map_sum id fst (matchTypesN plainTC (Suc (Suc 0))
     (TupleType [TupleTypeElt (LValueType IntTy (Qual False False)) [] False False,
                 TupleTypeElt IntTy [] False False]) IntPair
     SameType TMF_None (locatorBuilder None) (emptySystem None)) = Inr Solved"
  "map_sum id fst (matchTypesN plainTC (Suc (Suc 0))
     (TupleType [TupleTypeElt (LValueType IntTy (Qual False False)) [] False False,
                 TupleTypeElt IntTy [] False False]) IntPair
     Subtype TMF_None (locatorBuilder None) (emptySystem None)) = Inr Error"
  by code_simp+

text \<open>
  It fails between variadic tuples: \<open>(Int, Int = default, Int...)\<close> and \<open>(Int, Int, Int...)\<close>
  are the same types and subtypes, and the conversion, which computes a shuffle between
  the tuples, fails.
\<close>

lemma variadic_not_monotonic:
  "map_sum id fst (matchTypesN plainTC (Suc (Suc 0)) (variadicTuple True) (variadicTuple False)
     SameType TMF_None (locatorBuilder None) (emptySystem None)) = Inr Solved"
  "map_sum id fst (matchTypesN plainTC (Suc (Suc 0)) (variadicTuple True) (variadicTuple False)
     Conversion TMF_None (locatorBuilder None) (emptySystem None)) = Inr Error"
  by code_simp+

text \<open>
  It fails on type variables inside tuples. As the same types, the first elements bind
  the variable to the function that does not return, which the arrays that follow
  accept. As subtypes, the first elements leave a constraint and bind nothing, the second
  elements bind the variable to the function that returns, and the third fail.
\<close>

lemma variable_in_tuple_not_monotonic:
  "map_sum id fst (matchTypesN plainTC 6 variableTuple functionTuple
     SameType TMF_None (locatorBuilder None) oneVariable) = Inr Solved"
  "map_sum id fst (matchTypesN plainTC 6 variableTuple functionTuple
     Subtype TMF_None (locatorBuilder None) oneVariable) = Inr Error"
  by code_simp+

theorem equal_solved_monotonic_witness:
  "plainType IntPairDefaulted \<and> plainType IntPair
   \<and> map_sum id fst (matchTypesN plainTC (Suc (Suc 0)) IntPairDefaulted IntPair SameType
        TMF_None (locatorBuilder None) (emptySystem None)) = Inr Solved
   \<and> (\<exists>cs2. matchTypesN plainTC (Suc (Suc 0)) IntPairDefaulted IntPair Subtype
        TMF_None (locatorBuilder None) (emptySystem None) = Inr (Solved, cs2))
   \<and> (\<exists>cs3. matchTypesN plainTC (Suc (Suc 0)) IntPairDefaulted IntPair Conversion
        TMF_None (locatorBuilder None) (emptySystem None) = Inr (Solved, cs3))
   \<and> invariantType (ArrayOf (TypeVariableType 0)) \<and> invariantType (ArrayOf IntTy)
   \<and> map_sum id fst (matchTypesN plainTC (Suc (Suc (Suc 0))) (ArrayOf (TypeVariableType 0))
        (ArrayOf IntTy) SameType TMF_None (locatorBuilder None) oneVariable) = Inr Solved
   \<and> (\<exists>cs2. matchTypesN plainTC (Suc (Suc (Suc 0))) (ArrayOf (TypeVariableType 0))
        (ArrayOf IntTy) Subtype TMF_None (locatorBuilder None) oneVariable = Inr (Solved, cs2))
   \<and> (\<exists>cs3. matchTypesN plainTC (Suc (Suc (Suc 0))) (ArrayOf (TypeVariableType 0))
        (ArrayOf IntTy) Conversion TMF_None (locatorBuilder None) oneVariable = Inr (Solved, cs3))"
proof -
  have plain: "plainType IntPairDefaulted \<and> plainType IntPair"
    by code_simp
  have invariant: "invariantType (ArrayOf (TypeVariableType 0)) \<and> invariantType (ArrayOf IntTy)"
    by code_simp
  have pairs: "map_sum id fst (matchTypesN plainTC (Suc (Suc 0)) IntPairDefaulted IntPair SameType
        TMF_None (locatorBuilder None) (emptySystem None)) = Inr Solved"
    by code_simp
  have arrays: "map_sum id fst (matchTypesN plainTC (Suc (Suc (Suc 0))) (ArrayOf (TypeVariableType 0))
        (ArrayOf IntTy) SameType TMF_None (locatorBuilder None) oneVariable) = Inr Solved"
    by code_simp
  from solved_state [OF pairs] obtain cs1 where
    "matchTypesN plainTC (Suc (Suc 0)) IntPairDefaulted IntPair SameType
        TMF_None (locatorBuilder None) (emptySystem None) = Inr (Solved, cs1)" ..
  with plain have first:
    "(\<exists>cs2. matchTypesN plainTC (Suc (Suc 0)) IntPairDefaulted IntPair Subtype
        TMF_None (locatorBuilder None) (emptySystem None) = Inr (Solved, cs2))
     \<and> (\<exists>cs3. matchTypesN plainTC (Suc (Suc 0)) IntPairDefaulted IntPair Conversion
        TMF_None (locatorBuilder None) (emptySystem None) = Inr (Solved, cs3))"
    by (intro equal_solved_monotonic) simp_all
  from solved_state [OF arrays] obtain cs1 where
    "matchTypesN plainTC (Suc (Suc (Suc 0))) (ArrayOf (TypeVariableType 0))
        (ArrayOf IntTy) SameType TMF_None (locatorBuilder None) oneVariable = Inr (Solved, cs1)" ..
  with invariant have second:
    "(\<exists>cs2. matchTypesN plainTC (Suc (Suc (Suc 0))) (ArrayOf (TypeVariableType 0))
        (ArrayOf IntTy) Subtype TMF_None (locatorBuilder None) oneVariable = Inr (Solved, cs2))
     \<and> (\<exists>cs3. matchTypesN plainTC (Suc (Suc (Suc 0))) (ArrayOf (TypeVariableType 0))
        (ArrayOf IntTy) Conversion TMF_None (locatorBuilder None) oneVariable = Inr (Solved, cs3))"
    by (intro equal_solved_monotonic) simp_all
  from plain invariant pairs arrays first second show ?thesis
    by (simp only: simp_thms)
qed

end
